theory Spec2Isabelle
  imports Complex_Main
begin

section \<open>The simulation driver of \<^verbatim>\<open>source/linearized_euler.cc\<close>\<close>

text \<open>
  The theory embeds the control layer of the linearized Euler driver: the stability
  record kept by \<^verbatim>\<open>output_results\<close>, the flag pass and the solution transfer of
  \<^verbatim>\<open>adapt_mesh\<close>, the time loop of \<^verbatim>\<open>run\<close> and the search of
  \<^verbatim>\<open>run_cfl_stability_analysis\<close>.

  Conventions of the embedding.
  \<^item> A C++ \<^verbatim>\<open>double\<close> is a \<^typ>\<open>real\<close>: comparisons and arithmetic are exact;
    rounding, infinities and NaN are outside the model.
  \<^item> Counters (\<^verbatim>\<open>unsigned int\<close>) are \<^typ>\<open>nat\<close>; refinement levels (\<^verbatim>\<open>int\<close>)
    are \<^typ>\<open>int\<close>. None of the modelled counters can reach its wrap-around.
  \<^item> The finite element library (deal.II) is not part of the program. Each library
    call whose result the driver uses is a field of the record \<open>external\<close>; every
    theorem holds for all values of these fields.
  \<^item> The model follows the program on one MPI rank, where the reductions
    \<^verbatim>\<open>Utilities::MPI::sum\<close>, \<^verbatim>\<open>max\<close> and \<^verbatim>\<open>min\<close> return their argument.
  \<^item> Console and file output of the driver is not modelled; the lines that
    \<^verbatim>\<open>run_cfl_stability_analysis\<close> prints itself are.
  \<^item> An exception (\<^verbatim>\<open>AssertThrow\<close>) is a value \<open>Inl e\<close> of the result type.
\<close>

subsection \<open>Parameters and errors\<close>

text \<open>
  \<^verbatim>\<open>IntegratorType\<close> and \<^verbatim>\<open>Parameters\<close> are declared in headers that are not
  among the sources. The datatype lists the enumerators the switch in \<^verbatim>\<open>run\<close> names;
  \<open>other_integrator\<close> stands for any enumerator that reaches its \<^verbatim>\<open>default\<close> label.
  The record has the fields the driver reads or writes.
\<close>

datatype IntegratorType =
  expleuler | classrk4 | lsrk45reg2 | lsrk33reg2 | lsrk45reg3 | lsrk59reg2 | ssprk
  | other_integrator

record Parameters =
  dimension :: nat
  fe_degree :: nat
  n_refinements :: nat
  n_adaptive_refinements :: nat
  adaptive_refinement_interval :: nat
  cfl_number :: real
  cfl_stability_analysis :: bool
  final_time :: real
  output_every_time :: real
  max_time_steps :: nat
  integ_type :: IntegratorType
  initial_cases :: nat
  membrane_modes :: nat

datatype error =
  ExcNotImplemented
  | ExcMessage string
  | PreconditionViolated
  | ModuloByZero

subsection \<open>TimeControl\<close>

text \<open>
  Modelled from the spec: the class \<^verbatim>\<open>HDG_WE::TimeControl\<close> is defined in a header
  that is not among the sources. The record and its operations follow sections 3 and
  4.1 of the specification: the state
  \<open>{current_time, step_number, step_size, final_time, output_interval, max_steps}\<close>,
  a step size that is positive once initialised (a violation is a fatal precondition
  failure), \<open>advance_time_step\<close> adding one step, \<open>done\<close> true once
  \<open>current_time \<ge> final_time\<close> or \<open>step_number \<ge> max_steps\<close>, and \<open>at_tick\<close>
  comparing tick indices obtained with \<open>floor\<close>. \<open>output_step_number\<close> is the
  index of the last tick.
\<close>

record TimeControl =
  current_time :: real
  step_number :: nat
  step_size :: real
  tc_final_time :: real
  output_interval :: real
  max_steps :: nat
  output_step_number :: int

definition TimeControl_default :: TimeControl where
  "TimeControl_default =
     \<lparr>current_time = 0, step_number = 0, step_size = 0, tc_final_time = 0,
      output_interval = 0, max_steps = 0, output_step_number = 0\<rparr>"

definition setup_tc :: "real \<Rightarrow> real \<Rightarrow> real \<Rightarrow> nat \<Rightarrow> TimeControl \<Rightarrow> error + TimeControl" where
  "setup_tc final output_every initial_step_size max_time_step tc =
     (if 0 < initial_step_size
      then Inr \<lparr>current_time = 0, step_number = 0, step_size = initial_step_size,
                tc_final_time = final, output_interval = output_every,
                max_steps = max_time_step, output_step_number = 0\<rparr>
      else Inl PreconditionViolated)"

definition set_time_step :: "real \<Rightarrow> TimeControl \<Rightarrow> error + TimeControl" where
  "set_time_step v tc =
     (if 0 < v then Inr (tc\<lparr>step_size := v\<rparr>) else Inl PreconditionViolated)"

definition set_time :: "real \<Rightarrow> TimeControl \<Rightarrow> TimeControl" where
  "set_time t tc = tc\<lparr>current_time := t\<rparr>"

definition get_time :: "TimeControl \<Rightarrow> real" where
  "get_time tc = current_time tc"

definition get_time_step :: "TimeControl \<Rightarrow> real" where
  "get_time_step tc = step_size tc"

definition get_step_number :: "TimeControl \<Rightarrow> nat" where
  "get_step_number tc = step_number tc"

definition advance_time_step :: "TimeControl \<Rightarrow> TimeControl" where
  "advance_time_step tc =
     tc\<lparr>step_number := step_number tc + 1, current_time := current_time tc + step_size tc\<rparr>"

definition done_tc :: "TimeControl \<Rightarrow> bool" where
  "done_tc tc = (tc_final_time tc \<le> current_time tc \<or> max_steps tc \<le> step_number tc)"

definition at_tick :: "TimeControl \<Rightarrow> bool \<times> TimeControl" where
  "at_tick tc =
     (let tick = \<lfloor>current_time tc / output_interval tc\<rfloor>
      in if output_step_number tc < tick
         then (True, tc\<lparr>output_step_number := tick\<rparr>)
         else (False, tc))"

subsection \<open>Mesh cells and vectors\<close>

text \<open>
  A cell of the triangulation, with what the driver reads of it: \<^verbatim>\<open>cell->level()\<close>,
  \<^verbatim>\<open>cell->is_locally_owned()\<close>, the two flags and
  \<^verbatim>\<open>cell->minimum_vertex_distance()\<close>. The triangulation is the list of its active
  cells in the order of \<^verbatim>\<open>begin_active()\<close> ... \<^verbatim>\<open>end()\<close>; the position of a cell in
  the list is its \<^verbatim>\<open>active_cell_index()\<close>.
\<close>

record cell =
  level :: int
  is_locally_owned :: bool
  refine_flag_set :: bool
  coarsen_flag_set :: bool
  minimum_vertex_distance :: real

type_synonym Vector = "real list"

definition norm_sqr :: "Vector \<Rightarrow> real" where
  "norm_sqr v = sum_list (map (\<lambda>x. x * x) v)"

definition linfty_norm :: "Vector \<Rightarrow> real" where
  "linfty_norm v = fold (\<lambda>x m. max \<bar>x\<bar> m) v 0"

definition MPI_sum :: "real \<Rightarrow> real" where
  "MPI_sum x = x"

definition MPI_max :: "real \<Rightarrow> real" where
  "MPI_max x = x"

definition MPI_min :: "real \<Rightarrow> real" where
  "MPI_min x = x"

subsection \<open>The library calls\<close>

text \<open>
  The reference field and the component of an \<^verbatim>\<open>integrate_difference\<close> call.
\<close>

datatype reference_field = ZeroFunction | ExactSolution real nat nat

datatype component_select = density_select | velocity_select | energy_select

text \<open>
  What the library calls return, for a vector type \<open>'v\<close> of the library's choice.
  A call that fills a \<^verbatim>\<open>Vector<double>\<close> of \<^verbatim>\<open>n_active_cells()\<close> entries gives the
  entry of each active cell index; a call that sets flags gives the two flags
  \<open>(refine, coarsen)\<close> of each active cell index. \<open>deal_II_with_p4est\<close> is the
  configuration macro \<^verbatim>\<open>DEAL_II_WITH_P4EST\<close>. The two \<open>indeterminate\<close> fields are
  the values the members \<^verbatim>\<open>last_error_val\<close> and \<^verbatim>\<open>first_mangnitude_val\<close> hold before
  their first assignment: the constructor does not initialise them.
\<close>

record 'v external =
  deal_II_with_p4est :: bool
  indeterminate_last_error_val :: real
  indeterminate_first_mangnitude_val :: real
  empty_vector :: 'v
  input_geometry_description :: "Parameters \<Rightarrow> cell list"
  estimate_error :: "'v \<Rightarrow> 'v \<Rightarrow> cell list \<Rightarrow> nat \<Rightarrow> real"
  refine_and_coarsen_fixed_number :: "cell list \<Rightarrow> Vector \<Rightarrow> real \<Rightarrow> real \<Rightarrow> nat \<Rightarrow> bool \<times> bool"
  prepare_coarsening_and_refinement :: "cell list \<Rightarrow> nat \<Rightarrow> bool \<times> bool"
  execute_coarsening_and_refinement :: "cell list \<Rightarrow> cell list"
  initialize_dof_vector :: "cell list \<Rightarrow> 'v"
  interpolate :: "cell list \<Rightarrow> cell list \<Rightarrow> 'v \<Rightarrow> 'v"
  project_initial_field :: "cell list \<Rightarrow> reference_field \<Rightarrow> 'v"
  perform_time_step :: "IntegratorType \<Rightarrow> cell list \<Rightarrow> TimeControl \<Rightarrow> 'v \<Rightarrow> 'v \<Rightarrow> 'v \<times> 'v"
  integrate_difference :: "cell list \<Rightarrow> 'v \<Rightarrow> reference_field \<Rightarrow> component_select \<Rightarrow> nat \<Rightarrow> nat \<Rightarrow> real"

text \<open>
  The calls the driver makes on the triangulation, the DoF handler, the operator, the
  solution transfer and the two state vectors, and its calls of
  \<^verbatim>\<open>time_control.set_time_step\<close>. The problem record keeps them in the order in which
  they are made.
\<close>

datatype call =
  input_geometry_description_call
  | estimate_error_call
  | refine_and_coarsen_fixed_number_call
  | prepare_coarsening_and_refinement_call
  | prepare_for_coarsening_and_refinement_call
  | execute_coarsening_and_refinement_call
  | distribute_dofs_call
  | set_time_step_call real
  | operator_setup_call
  | initialize_dof_vector_call
  | reinit_call
  | interpolate_call
  | project_initial_field_call
  | swap_call
  | perform_time_step_call
  | time_step_analysis_call
  | integrate_difference_call

text \<open>
  The calls that read the entries of \<^verbatim>\<open>solutions\<close> through the DoF indexing current
  at the call: the error estimate, the snapshot taken by the solution transfer, the
  time step, the step analysis and the norms. \<^verbatim>\<open>initialize_dof_vector\<close>,
  \<^verbatim>\<open>interpolate\<close> and \<^verbatim>\<open>project_initial_field\<close> overwrite the vector.
\<close>

fun reads_solutions :: "call \<Rightarrow> bool" where
  "reads_solutions estimate_error_call = True"
| "reads_solutions prepare_for_coarsening_and_refinement_call = True"
| "reads_solutions perform_time_step_call = True"
| "reads_solutions time_step_analysis_call = True"
| "reads_solutions integrate_difference_call = True"
| "reads_solutions c = False"

subsection \<open>The problem class\<close>

text \<open>
  The members of \<^verbatim>\<open>LinearizedEulerProblem<dim>\<close> that the driver's control flow
  depends on, the template parameter \<open>dim\<close> and the calls made so far.
  \<open>linearized_euler_op\<close> is \<open>None\<close> for the null pointer and \<open>Some k\<close> for a
  \<^verbatim>\<open>LinearizedEulerOperation<dim,k>\<close>. The member \<^verbatim>\<open>parameters\<close> is a reference to the
  caller's object; no member function writes through it, so the record holds the value.
\<close>

record 'v LinearizedEulerProblem =
  dim :: nat
  solutions :: 'v
  tmp_solutions :: 'v
  time_control :: TimeControl
  parameters :: Parameters
  triangulation :: "cell list"
  linearized_euler_op :: "nat option"
  maximal_cellwise_error_init :: real
  last_error_val :: real
  first_error_val :: real
  first_mangnitude_val :: real
  calls :: "call list"

text \<open>The constructor (lines 156-169): the two sentinels are \<open>-1\<close>.\<close>

definition LinearizedEulerProblem_ctor ::
  "'v external \<Rightarrow> nat \<Rightarrow> Parameters \<Rightarrow> 'v LinearizedEulerProblem" where
  "LinearizedEulerProblem_ctor ext d parameters_in =
     \<lparr>dim = d,
      solutions = empty_vector ext,
      tmp_solutions = empty_vector ext,
      time_control = TimeControl_default,
      parameters = parameters_in,
      triangulation = [],
      linearized_euler_op = None,
      maximal_cellwise_error_init = - 1,
      last_error_val = indeterminate_last_error_val ext,
      first_error_val = - 1.0,
      first_mangnitude_val = indeterminate_first_mangnitude_val ext,
      calls = []\<rparr>"

text \<open>\<^verbatim>\<open>cfl_stable()\<close> (lines 120-123).\<close>

definition cfl_stable :: "'v LinearizedEulerProblem \<Rightarrow> bool" where
  "cfl_stable s =
     (\<not> (last_error_val s > 100.0 * first_error_val s
         \<or> last_error_val s > 1.5 * first_mangnitude_val s))"

subsection \<open>Time step size, grid and DoFs\<close>

text \<open>
  \<^verbatim>\<open>compute_time_step_size\<close> (lines 498-514). \<open>double_max\<close> is
  \<^verbatim>\<open>std::numeric_limits<double>::max()\<close>.
\<close>

definition double_max :: real where
  "double_max = (2 ^ 53 - 1) * 2 ^ 971"

definition compute_time_step_size :: "cell list \<Rightarrow> Parameters \<Rightarrow> real" where
  "compute_time_step_size tria p =
     cfl_number p *
       MPI_min (fold (\<lambda>c min_cell_diameter.
                        if is_locally_owned c
                        then (if minimum_vertex_distance c < min_cell_diameter
                              then minimum_vertex_distance c else min_cell_diameter)
                        else min_cell_diameter)
                  tria double_max)"

text \<open>\<^verbatim>\<open>make_grid()\<close> (lines 173-191).\<close>

definition make_grid :: "'v external \<Rightarrow> 'v LinearizedEulerProblem \<Rightarrow> 'v LinearizedEulerProblem" where
  "make_grid ext s =
     s\<lparr>triangulation := input_geometry_description ext (parameters s),
       calls := calls s @ [input_geometry_description_call]\<rparr>"

text \<open>
  \<^verbatim>\<open>make_dofs()\<close> (lines 195-228): distribute the DoFs, set the time step, set up
  the operator, size \<^verbatim>\<open>solutions\<close> for the new indexing and \<^verbatim>\<open>tmp_solutions\<close> after it.
\<close>

definition make_dofs ::
  "'v external \<Rightarrow> 'v LinearizedEulerProblem \<Rightarrow> error + 'v LinearizedEulerProblem" where
  "make_dofs ext s =
     (let dt = compute_time_step_size (triangulation s) (parameters s)
      in case set_time_step dt (time_control s) of
           Inl e \<Rightarrow> Inl e
         | Inr tc \<Rightarrow>
             Inr (s\<lparr>time_control := tc,
                    solutions := initialize_dof_vector ext (triangulation s),
                    tmp_solutions := initialize_dof_vector ext (triangulation s),
                    calls := calls s @ [distribute_dofs_call, set_time_step_call dt,
                                        operator_setup_call, initialize_dof_vector_call,
                                        reinit_call]\<rparr>))"

subsection \<open>adapt_mesh\<close>

text \<open>Writing the flags a library call decides into the cells.\<close>

definition set_flags :: "(nat \<Rightarrow> bool \<times> bool) \<Rightarrow> cell list \<Rightarrow> cell list" where
  "set_flags f tria =
     map (\<lambda>i. (tria ! i)\<lparr>refine_flag_set := fst (f i), coarsen_flag_set := snd (f i)\<rparr>)
       [0 ..< length tria]"

text \<open>\<^verbatim>\<open>set_refinement_indicators\<close> (lines 232-250), the same call in both overloads.\<close>

definition set_refinement_indicators :: "'v external \<Rightarrow> cell list \<Rightarrow> Vector \<Rightarrow> cell list" where
  "set_refinement_indicators ext tria error_per_cell =
     set_flags (refine_and_coarsen_fixed_number ext tria error_per_cell 0.1 0.6) tria"

text \<open>
  The body of the loop over the active cells (lines 273-286) for one cell, \<open>err\<close>
  being \<^verbatim>\<open>error_per_cell(cell->active_cell_index())\<close>.
\<close>

definition adjust_flags :: "real \<Rightarrow> int \<Rightarrow> int \<Rightarrow> real \<Rightarrow> cell \<Rightarrow> cell" where
  "adjust_flags max_error_init min_level max_level err c =
     (if is_locally_owned c
      then
        (let c1 = (if refine_flag_set c \<and> level c = max_level
                   then c\<lparr>refine_flag_set := False\<rparr>
                   else if coarsen_flag_set c \<and> level c = min_level
                   then c\<lparr>coarsen_flag_set := False\<rparr>
                   else c);
             c2 = (if refine_flag_set c1 \<and> err < 0.1 * max_error_init
                   then c1\<lparr>refine_flag_set := False\<rparr>
                   else c1);
             c3 = (if err < 0.05 * max_error_init
                   then c2\<lparr>coarsen_flag_set := True\<rparr>
                   else c2)
         in c3)
      else c)"

text \<open>The loop over the active cells (lines 271-286).\<close>

definition flag_adjustment_pass :: "real \<Rightarrow> int \<Rightarrow> int \<Rightarrow> Vector \<Rightarrow> cell list \<Rightarrow> cell list" where
  "flag_adjustment_pass max_error_init min_level max_level error_per_cell tria =
     map (\<lambda>i. adjust_flags max_error_init min_level max_level (error_per_cell ! i) (tria ! i))
       [0 ..< length tria]"

text \<open>
  The \<^verbatim>\<open>Vector<double> error_per_cell(n_active_cells())\<close> that
  \<^verbatim>\<open>linearized_euler_op->estimate_error\<close> fills.
\<close>

definition error_per_cell_of :: "'v external \<Rightarrow> 'v LinearizedEulerProblem \<Rightarrow> Vector" where
  "error_per_cell_of ext s =
     map (estimate_error ext (solutions s) (tmp_solutions s) (triangulation s))
       [0 ..< length (triangulation s)]"

text \<open>
  The first part of \<^verbatim>\<open>adapt_mesh()\<close> (lines 258-286): the triangulation with the
  flags as they stand after the loop over the cells.
\<close>

definition adapt_mesh_flags :: "'v external \<Rightarrow> 'v LinearizedEulerProblem \<Rightarrow> cell list" where
  "adapt_mesh_flags ext s =
     (let error_per_cell = error_per_cell_of ext s;
          min_level = int (n_refinements (parameters s));
          max_level = min_level + int (n_adaptive_refinements (parameters s))
      in flag_adjustment_pass (maximal_cellwise_error_init s) min_level max_level error_per_cell
           (set_refinement_indicators ext (triangulation s) error_per_cell))"

text \<open>
  \<^verbatim>\<open>adapt_mesh()\<close> (lines 254-315). Both configurations make the same calls in the
  same order; with p4est the function throws for \<open>dim = 1\<close> before the transfer, and
  without p4est the snapshot is the copy \<^verbatim>\<open>xsol\<close> of \<^verbatim>\<open>solutions\<close>.
\<close>

definition adapt_mesh ::
  "'v external \<Rightarrow> 'v LinearizedEulerProblem \<Rightarrow> error + 'v LinearizedEulerProblem" where
  "adapt_mesh ext s =
     (let flagged = adapt_mesh_flags ext s;
          s1 = s\<lparr>triangulation := flagged,
                 calls := calls s @ [estimate_error_call, refine_and_coarsen_fixed_number_call]\<rparr>
      in if deal_II_with_p4est ext \<and> \<not> 1 < dim s1
         then Inl ExcNotImplemented
         else
           (let prepared = set_flags (prepare_coarsening_and_refinement ext flagged) flagged;
                snapshot = solutions s1;
                rebuilt = execute_coarsening_and_refinement ext prepared;
                s2 = s1\<lparr>triangulation := rebuilt,
                        calls := calls s1 @ [prepare_coarsening_and_refinement_call,
                                             prepare_for_coarsening_and_refinement_call,
                                             execute_coarsening_and_refinement_call]\<rparr>
            in case make_dofs ext s2 of
                 Inl e \<Rightarrow> Inl e
               | Inr s3 \<Rightarrow>
                   (let s4 = s3\<lparr>solutions := interpolate ext prepared rebuilt snapshot,
                                calls := calls s3 @ [interpolate_call]\<rparr>;
                        dt = compute_time_step_size (triangulation s4) (parameters s4)
                    in case set_time_step dt (time_control s4) of
                         Inl e \<Rightarrow> Inl e
                       | Inr tc \<Rightarrow>
                           Inr (s4\<lparr>time_control := tc,
                                   calls := calls s4 @ [set_time_step_call dt]\<rparr>))))"

text \<open>
  The mesh of a state as \<^verbatim>\<open>adapt_mesh()\<close> hands it to
  \<^verbatim>\<open>execute_coarsening_and_refinement\<close>, after the flag pass and the smoothing of
  \<^verbatim>\<open>prepare_coarsening_and_refinement\<close>, and the mesh the rebuild returns.
\<close>

definition prepared_mesh :: "'v external \<Rightarrow> 'v LinearizedEulerProblem \<Rightarrow> cell list" where
  "prepared_mesh ext s =
     set_flags (prepare_coarsening_and_refinement ext (adapt_mesh_flags ext s))
       (adapt_mesh_flags ext s)"

definition rebuilt_mesh :: "'v external \<Rightarrow> 'v LinearizedEulerProblem \<Rightarrow> cell list" where
  "rebuilt_mesh ext s = execute_coarsening_and_refinement ext (prepared_mesh ext s)"

subsection \<open>output_results\<close>

text \<open>
  The \<^verbatim>\<open>Vector<double> norm_per_cell(n_active_cells())\<close> that one
  \<^verbatim>\<open>VectorTools::integrate_difference\<close> call fills, and the global L2 norm the driver
  computes from it: \<^verbatim>\<open>std::sqrt(Utilities::MPI::sum(norm_per_cell.norm_sqr(), ...))\<close>.
\<close>

definition norm_per_cell ::
  "'v external \<Rightarrow> 'v LinearizedEulerProblem \<Rightarrow> reference_field \<Rightarrow> component_select \<Rightarrow> nat \<Rightarrow> Vector" where
  "norm_per_cell ext s ref sel q =
     map (integrate_difference ext (triangulation s) (solutions s) ref sel q)
       [0 ..< length (triangulation s)]"

definition l2_norm ::
  "'v external \<Rightarrow> 'v LinearizedEulerProblem \<Rightarrow> reference_field \<Rightarrow> component_select \<Rightarrow> nat \<Rightarrow> real" where
  "l2_norm ext s ref sel q = sqrt (MPI_sum (norm_sqr (norm_per_cell ext s ref sel q)))"

definition exact_solution :: "'v LinearizedEulerProblem \<Rightarrow> reference_field" where
  "exact_solution s =
     ExactSolution (get_time (time_control s)) (initial_cases (parameters s))
       (membrane_modes (parameters s))"

text \<open>
  The two norms of the density that the stability record is fed with: the magnitude
  of the density (line 420) and the error of the density (line 435).
\<close>

definition density_mag_of :: "'v external \<Rightarrow> 'v LinearizedEulerProblem \<Rightarrow> real" where
  "density_mag_of ext s = l2_norm ext s ZeroFunction density_select (fe_degree (parameters s) + 1)"

definition solution_norm_rho_of :: "'v external \<Rightarrow> 'v LinearizedEulerProblem \<Rightarrow> real" where
  "solution_norm_rho_of ext s =
     l2_norm ext s (exact_solution s) density_select (fe_degree (parameters s) + 2)"

text \<open>
  \<^verbatim>\<open>output_results()\<close> (lines 319-494). The function writes the output files, computes
  four norms and prints them; its effect on the members is the assignment of
  \<^verbatim>\<open>last_error_val\<close> (line 435) and the block guarded by
  \<^verbatim>\<open>parameters.cfl_stability_analysis\<close> (lines 467-476).
\<close>

definition output_results ::
  "'v external \<Rightarrow> 'v LinearizedEulerProblem \<Rightarrow> 'v LinearizedEulerProblem" where
  "output_results ext s =
     (let density_mag = density_mag_of ext s;
          s1 = s\<lparr>last_error_val := solution_norm_rho_of ext s,
                 calls := calls s @ [integrate_difference_call, integrate_difference_call,
                                     integrate_difference_call, integrate_difference_call]\<rparr>
      in if cfl_stability_analysis (parameters s1)
         then
           (let s2 = (if first_error_val s1 < 0.0
                      then s1\<lparr>first_error_val := last_error_val s1,
                              first_mangnitude_val := density_mag\<rparr>
                      else s1)
            in if last_error_val s2 > 100.0 * first_error_val s2
                  \<or> last_error_val s2 > 1.5 * first_mangnitude_val s2
               then s2\<lparr>time_control := set_time (final_time (parameters s2)) (time_control s2)\<rparr>
               else s2)
         else s1)"

subsection \<open>run\<close>

text \<open>
  The first switch of \<^verbatim>\<open>run()\<close> (lines 531-572): the operator for the configured
  integrator family and degree. For a degree outside 1..5 the source has
  \<^verbatim>\<open>Assert (false, ExcNotImplemented())\<close>, which aborts a debug build and leaves the
  null pointer that \<^verbatim>\<open>make_dofs\<close> dereferences in a release build; both are the
  failure \<open>ExcNotImplemented\<close> here.
\<close>

definition select_operation :: "Parameters \<Rightarrow> error + nat" where
  "select_operation p =
     (case integ_type p of
        other_integrator \<Rightarrow> Inl ExcNotImplemented
      | _ \<Rightarrow>
          (if fe_degree p = 1 then Inr 1
           else if fe_degree p = 2 then Inr 2
           else if fe_degree p = 3 then Inr 3
           else if fe_degree p = 4 then Inr 4
           else if fe_degree p = 5 then Inr 5
           else Inl ExcNotImplemented))"

text \<open>
  The projection of the initial condition onto \<^verbatim>\<open>solutions\<close> (lines 579-581 and
  588-590).
\<close>

definition project_initial ::
  "'v external \<Rightarrow> 'v LinearizedEulerProblem \<Rightarrow> 'v LinearizedEulerProblem" where
  "project_initial ext s =
     s\<lparr>solutions := project_initial_field ext (triangulation s) (exact_solution s),
       calls := calls s @ [project_initial_field_call]\<rparr>"

text \<open>
  The assignment of \<^verbatim>\<open>maximal_cellwise_error_init\<close> (lines 594-597).
\<close>

definition capture_maximal_error ::
  "'v external \<Rightarrow> 'v LinearizedEulerProblem \<Rightarrow> 'v LinearizedEulerProblem" where
  "capture_maximal_error ext s =
     s\<lparr>maximal_cellwise_error_init := MPI_max (linfty_norm (error_per_cell_of ext s)),
       calls := calls s @ [estimate_error_call]\<rparr>"

text \<open>
  The loop \<^verbatim>\<open>while (n_refinements_left > 0)\<close> (lines 584-599); the second argument is
  \<^verbatim>\<open>n_refinements_left\<close>.
\<close>

fun initial_refinement ::
  "'v external \<Rightarrow> nat \<Rightarrow> 'v LinearizedEulerProblem \<Rightarrow> error + 'v LinearizedEulerProblem" where
  "initial_refinement ext 0 s = Inr s"
| "initial_refinement ext (Suc n_refinements_left) s =
     (case adapt_mesh ext s of
        Inl e \<Rightarrow> Inl e
      | Inr s1 \<Rightarrow>
          (let s2 = project_initial ext s1;
               s3 = (if n_refinements_left = 0 then capture_maximal_error ext s2 else s2)
           in initial_refinement ext n_refinements_left s3))"

text \<open>
  \<^verbatim>\<open>run()\<close> up to the projection of the initial condition (lines 521-581): the
  grid, the time control, the operator, the DoFs and the initial field.
\<close>

definition run_init ::
  "'v external \<Rightarrow> 'v LinearizedEulerProblem \<Rightarrow> error + 'v LinearizedEulerProblem" where
  "run_init ext s =
     (let s1 = make_grid ext s;
          p = parameters s1
      in case setup_tc (final_time p) (output_every_time p)
                (compute_time_step_size (triangulation s1) p) (max_time_steps p)
                (time_control s1) of
           Inl e \<Rightarrow> Inl e
         | Inr tc \<Rightarrow>
             (case select_operation p of
                Inl e \<Rightarrow> Inl e
              | Inr k \<Rightarrow>
                  (case make_dofs ext (s1\<lparr>time_control := tc, linearized_euler_op := Some k\<rparr>) of
                     Inl e \<Rightarrow> Inl e
                   | Inr s2 \<Rightarrow> Inr (project_initial ext s2))))"

text \<open>
  \<^verbatim>\<open>run()\<close> up to the first output (lines 521-599): the above and the loop of the
  pre-refinement passes.
\<close>

definition run_setup ::
  "'v external \<Rightarrow> 'v LinearizedEulerProblem \<Rightarrow> error + 'v LinearizedEulerProblem" where
  "run_setup ext s =
     (case run_init ext s of
        Inl e \<Rightarrow> Inl e
      | Inr s1 \<Rightarrow> initial_refinement ext (n_adaptive_refinements (parameters s1)) s1)"

text \<open>
  For comparison with the loop of lines 584-599: \<open>n\<close> pre-refinement passes, each the
  adaptation of the mesh followed by the projection of the initial condition, and no
  assignment of \<^verbatim>\<open>maximal_cellwise_error_init\<close>.
\<close>

fun refinement_passes ::
  "'v external \<Rightarrow> nat \<Rightarrow> 'v LinearizedEulerProblem \<Rightarrow> error + 'v LinearizedEulerProblem" where
  "refinement_passes ext 0 s = Inr s"
| "refinement_passes ext (Suc n) s =
     (case adapt_mesh ext s of
        Inl e \<Rightarrow> Inl e
      | Inr s1 \<Rightarrow> refinement_passes ext n (project_initial ext s1))"

text \<open>
  The adaptation inside the time loop (lines 664-669). The remainder by an interval of
  zero is undefined in C++; it is the failure \<open>ModuloByZero\<close> here.
\<close>

definition adapt_in_loop ::
  "'v external \<Rightarrow> 'v LinearizedEulerProblem \<Rightarrow> error + 'v LinearizedEulerProblem" where
  "adapt_in_loop ext s =
     (if 0 < n_adaptive_refinements (parameters s)
      then
        (if adaptive_refinement_interval (parameters s) = 0 then Inl ModuloByZero
         else if get_step_number (time_control s) mod adaptive_refinement_interval (parameters s) = 0
         then adapt_mesh ext s
         else Inr s)
      else Inr s)"

text \<open>
  The body of \<^verbatim>\<open>while (!time_control.done())\<close> (lines 653-676) in its three parts:
  the advance of the clock, the swap and the time step of the integrator (lines
  653-661); the adaptation (lines 664-669, above); the step analysis and the output at a
  tick (lines 672-675).
\<close>

definition advance_and_integrate ::
  "'v external \<Rightarrow> 'v LinearizedEulerProblem \<Rightarrow> 'v LinearizedEulerProblem" where
  "advance_and_integrate ext s =
     (let s1 = s\<lparr>time_control := advance_time_step (time_control s)\<rparr>;
          s2 = s1\<lparr>solutions := tmp_solutions s1, tmp_solutions := solutions s1,
                  calls := calls s1 @ [swap_call]\<rparr>;
          stepped = perform_time_step ext (integ_type (parameters s2)) (triangulation s2)
                      (time_control s2) (tmp_solutions s2) (solutions s2)
      in s2\<lparr>tmp_solutions := fst stepped, solutions := snd stepped,
             calls := calls s2 @ [perform_time_step_call]\<rparr>)"

definition analyse_and_output ::
  "'v external \<Rightarrow> 'v LinearizedEulerProblem \<Rightarrow> 'v LinearizedEulerProblem" where
  "analyse_and_output ext s =
     (let s1 = s\<lparr>calls := calls s @ [time_step_analysis_call]\<rparr>;
          tick = at_tick (time_control s1);
          s2 = s1\<lparr>time_control := snd tick\<rparr>
      in if fst tick then output_results ext s2 else s2)"

definition time_step ::
  "'v external \<Rightarrow> 'v LinearizedEulerProblem \<Rightarrow> error + 'v LinearizedEulerProblem" where
  "time_step ext s =
     (case adapt_in_loop ext (advance_and_integrate ext s) of
        Inl e \<Rightarrow> Inl e
      | Inr s1 \<Rightarrow> Inr (analyse_and_output ext s1))"

lemma set_time_step_counters:
  "set_time_step v tc = Inr tc' \<Longrightarrow>
   step_number tc' = step_number tc \<and> max_steps tc' = max_steps tc"
  by (auto simp: set_time_step_def split: if_splits)

lemma make_dofs_counters:
  "make_dofs ext s = Inr s' \<Longrightarrow>
   step_number (time_control s') = step_number (time_control s)
   \<and> max_steps (time_control s') = max_steps (time_control s)"
  by (auto simp: make_dofs_def Let_def split: sum.splits dest: set_time_step_counters)

lemma adapt_mesh_counters:
  "adapt_mesh ext s = Inr s' \<Longrightarrow>
   step_number (time_control s') = step_number (time_control s)
   \<and> max_steps (time_control s') = max_steps (time_control s)"
  by (auto simp: adapt_mesh_def Let_def split: if_splits sum.splits
      dest!: set_time_step_counters make_dofs_counters)

lemma adapt_in_loop_counters:
  "adapt_in_loop ext s = Inr s' \<Longrightarrow>
   step_number (time_control s') = step_number (time_control s)
   \<and> max_steps (time_control s') = max_steps (time_control s)"
  by (auto simp: adapt_in_loop_def split: if_splits dest: adapt_mesh_counters)

lemma output_results_counters:
  "step_number (time_control (output_results ext s)) = step_number (time_control s)
   \<and> max_steps (time_control (output_results ext s)) = max_steps (time_control s)"
  by (simp add: output_results_def Let_def set_time_def)

lemma at_tick_counters:
  "step_number (snd (at_tick tc)) = step_number tc \<and> max_steps (snd (at_tick tc)) = max_steps tc"
  by (simp add: at_tick_def Let_def)

lemma advance_and_integrate_counters:
  "step_number (time_control (advance_and_integrate ext s)) = Suc (step_number (time_control s))
   \<and> max_steps (time_control (advance_and_integrate ext s)) = max_steps (time_control s)"
  by (simp add: advance_and_integrate_def Let_def advance_time_step_def)

lemma analyse_and_output_counters:
  "step_number (time_control (analyse_and_output ext s)) = step_number (time_control s)
   \<and> max_steps (time_control (analyse_and_output ext s)) = max_steps (time_control s)"
  by (simp add: analyse_and_output_def Let_def output_results_counters at_tick_counters)

lemma time_step_cases:
  assumes "time_step ext s = Inr s'"
  obtains s1 where "adapt_in_loop ext (advance_and_integrate ext s) = Inr s1"
    and "s' = analyse_and_output ext s1"
  using assms by (auto simp: time_step_def split: sum.splits)

lemma time_step_counters:
  assumes "time_step ext s = Inr s'"
  shows "step_number (time_control s') = Suc (step_number (time_control s))
         \<and> max_steps (time_control s') = max_steps (time_control s)"
proof -
  from assms obtain s1 where a: "adapt_in_loop ext (advance_and_integrate ext s) = Inr s1"
    and b: "s' = analyse_and_output ext s1"
    by (rule time_step_cases)
  from adapt_in_loop_counters[OF a] b show ?thesis
    by (simp add: advance_and_integrate_counters analyse_and_output_counters)
qed

text \<open>
  The loop \<^verbatim>\<open>while (!time_control.done())\<close> (lines 651-677). Every pass adds one to
  the step number and leaves the maximal number of steps as it is, so the loop ends.
\<close>

function time_loop ::
  "'v external \<Rightarrow> 'v LinearizedEulerProblem \<Rightarrow> error + 'v LinearizedEulerProblem" where
  "time_loop ext s =
     (if done_tc (time_control s) then Inr s
      else (case time_step ext s of
              Inl e \<Rightarrow> Inl e
            | Inr s' \<Rightarrow> time_loop ext s'))"
  by pat_completeness auto
termination
proof (relation "measure (\<lambda>(ext, s). max_steps (time_control s) - step_number (time_control s))")
  show "wf (measure (\<lambda>(ext, s). max_steps (time_control s) - step_number (time_control s)))"
    by simp
next
  fix ext :: "'v external" and s s' :: "'v LinearizedEulerProblem"
  assume "\<not> done_tc (time_control s)" and "time_step ext s = Inr s'"
  then show "((ext, s'), (ext, s))
             \<in> measure (\<lambda>(ext, s). max_steps (time_control s) - step_number (time_control s))"
    using time_step_counters[of ext s s'] by (auto simp: done_tc_def)
qed

declare time_loop.simps [simp del]

text \<open>
  \<^verbatim>\<open>run()\<close> (lines 518-693): the set-up, the output of the initial fields and the time
  loop. The second switch (lines 606-645) selects the integrator for the same
  \<^verbatim>\<open>integ_type\<close>; its \<^verbatim>\<open>default\<close> label cannot be reached after the first switch.
\<close>

definition run ::
  "'v external \<Rightarrow> 'v LinearizedEulerProblem \<Rightarrow> error + 'v LinearizedEulerProblem" where
  "run ext s =
     (case run_setup ext s of
        Inl e \<Rightarrow> Inl e
      | Inr s1 \<Rightarrow> time_loop ext (output_results ext s1))"

subsection \<open>run_cfl_stability_analysis\<close>

text \<open>
  The lines that carry a number among those the search prints: the header of an
  iteration (line 706) and the three lines of the final report (lines 748-750).
\<close>

datatype printed =
  cfl_in_iteration real nat
  | courant_number_instable real
  | courant_number_stable real
  | limit_in_the_middle real

text \<open>
  The locals of \<^verbatim>\<open>run_cfl_stability_analysis\<close>, the caller's \<^verbatim>\<open>Parameters\<close> object
  it holds by reference, and the lines printed so far.
\<close>

record cfl_search =
  parameters_in :: Parameters
  cfl_test :: real
  cfl_closest_stable :: real
  cfl_closest_instable :: real
  pcout :: "printed list"

text \<open>\<^verbatim>\<open>std::pow(parameters_in.fe_degree,1.5)\<close>.\<close>

definition degree_factor :: "Parameters \<Rightarrow> real" where
  "degree_factor p = real (fe_degree p) powr 1.5"

text \<open>
  The test \<^verbatim>\<open>cfl_test/std::pow(parameters_in.fe_degree,1.5)>0.15\<close> (line 733). For
  degree 0 the divisor is zero: the quotient of a \<^verbatim>\<open>double\<close> is then plus infinity
  for a positive dividend, which exceeds 0.15, and minus infinity or NaN otherwise,
  which do not.
\<close>

definition normalized_above_threshold :: "real \<Rightarrow> Parameters \<Rightarrow> bool" where
  "normalized_above_threshold c p =
     (if degree_factor p = 0 then 0 < c else c / degree_factor p > 0.15)"

text \<open>
  The simulation of one iteration and its verdict (lines 712-724): a problem of
  dimension 2 or 3 is constructed on the shared parameters and run; for any other
  dimension no problem is run and \<^verbatim>\<open>simu_was_stable\<close> keeps its initial value.
\<close>

definition simu_was_stable :: "'v external \<Rightarrow> Parameters \<Rightarrow> error + bool" where
  "simu_was_stable ext p =
     (if dimension p = 2
      then (case run ext (LinearizedEulerProblem_ctor ext 2 p) of
              Inl e \<Rightarrow> Inl e
            | Inr we_problem \<Rightarrow> Inr (cfl_stable we_problem))
      else if dimension p = 3
      then (case run ext (LinearizedEulerProblem_ctor ext 3 p) of
              Inl e \<Rightarrow> Inl e
            | Inr we_problem \<Rightarrow> Inr (cfl_stable we_problem))
      else Inr False)"

text \<open>The update of one bound (lines 726-729).\<close>

definition update_bound :: "bool \<Rightarrow> cfl_search \<Rightarrow> cfl_search" where
  "update_bound verdict st =
     (if verdict then st\<lparr>cfl_closest_stable := cfl_test st\<rparr>
      else st\<lparr>cfl_closest_instable := cfl_test st\<rparr>)"

text \<open>The next candidate (lines 731-741).\<close>

definition next_candidate :: "cfl_search \<Rightarrow> real" where
  "next_candidate st =
     (if cfl_closest_stable st < 0.0
      then (if normalized_above_threshold (cfl_test st) (parameters_in st)
            then cfl_test st - 0.1
            else cfl_test st / 3.0)
      else if cfl_closest_instable st > 99.0
      then cfl_test st + 0.05
      else (cfl_closest_instable st + cfl_closest_stable st) / 2.0)"

text \<open>The body of the loop for iteration \<open>i\<close> (lines 705-743).\<close>

definition cfl_iteration :: "'v external \<Rightarrow> nat \<Rightarrow> cfl_search \<Rightarrow> error + cfl_search" where
  "cfl_iteration ext i st =
     (let st0 = st\<lparr>pcout := pcout st
                   @ [cfl_in_iteration (cfl_test st * degree_factor (parameters_in st)) i]\<rparr>
      in case simu_was_stable ext (parameters_in st0) of
           Inl e \<Rightarrow> Inl e
         | Inr verdict \<Rightarrow>
             (let st1 = update_bound verdict st0;
                  st2 = st1\<lparr>cfl_test := next_candidate st1\<rparr>
              in Inr (st2\<lparr>parameters_in := (parameters_in st2)\<lparr>cfl_number := cfl_test st2\<rparr>\<rparr>)))"

text \<open>The loop \<^verbatim>\<open>for (unsigned int i=0; i<12; ++i)\<close> (line 703), entered at \<open>i\<close>.\<close>

function cfl_loop :: "'v external \<Rightarrow> nat \<Rightarrow> cfl_search \<Rightarrow> error + cfl_search" where
  "cfl_loop ext i st =
     (if i < 12
      then (case cfl_iteration ext i st of
              Inl e \<Rightarrow> Inl e
            | Inr st' \<Rightarrow> cfl_loop ext (i + 1) st')
      else Inr st)"
  by pat_completeness auto
termination
  by (relation "measure (\<lambda>(ext, i, st). 12 - i)") auto

declare cfl_loop.simps [simp del]

text \<open>
  For comparison with the loop: the iterations with the given numbers, one after the
  other, ending at the first exception.
\<close>

fun cfl_iterations :: "'v external \<Rightarrow> nat list \<Rightarrow> cfl_search \<Rightarrow> error + cfl_search" where
  "cfl_iterations ext [] st = Inr st"
| "cfl_iterations ext (i # is) st =
     (case cfl_iteration ext i st of
        Inl e \<Rightarrow> Inl e
      | Inr st' \<Rightarrow> cfl_iterations ext is st')"

text \<open>The locals at the entry of the loop (lines 699-701).\<close>

definition cfl_search_init :: "Parameters \<Rightarrow> cfl_search" where
  "cfl_search_init p =
     \<lparr>parameters_in = p, cfl_test = cfl_number p, cfl_closest_stable = - 0.1,
      cfl_closest_instable = 100.0, pcout = []\<rparr>"

text \<open>The final report (lines 746-752).\<close>

definition final_report :: "cfl_search \<Rightarrow> printed list" where
  "final_report st =
     [courant_number_instable (cfl_closest_instable st * degree_factor (parameters_in st)),
      courant_number_stable (cfl_closest_stable st * degree_factor (parameters_in st)),
      limit_in_the_middle
        ((cfl_closest_instable st + cfl_closest_instable st) * degree_factor (parameters_in st)
           / 2.0)]"

text \<open>
  \<^verbatim>\<open>run_cfl_stability_analysis\<close> (lines 695-755). The result holds the caller's
  parameters as the function leaves them and everything it printed.
\<close>

definition run_cfl_stability_analysis :: "'v external \<Rightarrow> Parameters \<Rightarrow> error + cfl_search" where
  "run_cfl_stability_analysis ext p =
     (case cfl_loop ext 0 (cfl_search_init p) of
        Inl e \<Rightarrow> Inl e
      | Inr st \<Rightarrow> Inr (st\<lparr>pcout := pcout st @ final_report st\<rparr>))"

subsection \<open>main\<close>

text \<open>
  The dispatch of \<^verbatim>\<open>main\<close> on the parameters read from the file (lines 802-824) and
  the exit status (lines 832-857): an exception is caught and gives status 1.
\<close>

definition invalid_dimension :: error where
  "invalid_dimension = ExcMessage ''Invalid dimension''"

definition dispatch :: "'v external \<Rightarrow> Parameters \<Rightarrow> error + Parameters" where
  "dispatch ext p =
     (if dimension p = 2
      then (if \<not> cfl_stability_analysis p
            then (case run ext (LinearizedEulerProblem_ctor ext 2 p) of
                    Inl e \<Rightarrow> Inl e | Inr we_problem \<Rightarrow> Inr p)
            else (case run_cfl_stability_analysis ext p of
                    Inl e \<Rightarrow> Inl e | Inr st \<Rightarrow> Inr (parameters_in st)))
      else if dimension p = 3
      then (if \<not> cfl_stability_analysis p
            then (case run ext (LinearizedEulerProblem_ctor ext 3 p) of
                    Inl e \<Rightarrow> Inl e | Inr we_problem \<Rightarrow> Inr p)
            else (case run_cfl_stability_analysis ext p of
                    Inl e \<Rightarrow> Inl e | Inr st \<Rightarrow> Inr (parameters_in st)))
      else Inl invalid_dimension)"

definition main :: "'v external \<Rightarrow> Parameters \<Rightarrow> int" where
  "main ext p = (case dispatch ext p of Inl e \<Rightarrow> 1 | Inr q \<Rightarrow> 0)"

subsection \<open>A concrete library and concrete parameters\<close>

text \<open>
  A small instance of the library calls, used to evaluate the driver on concrete
  inputs. Its vectors are single numbers. The mesh is one locally owned cell of
  diameter 1 on the level of the global refinement; the density has magnitude 10 and
  its error is the value of the vector; the initial field has error 1; a time step
  larger than 0.3 multiplies the error by 1000 and a smaller one keeps it; the error
  indicator of a cell is the distance of the two state vectors; the fixed-number
  marking flags nothing, the smoothing keeps the flags and the mesh rebuild clears
  them.
\<close>

definition demo_cell :: "int \<Rightarrow> cell" where
  "demo_cell l =
     \<lparr>level = l, is_locally_owned = True, refine_flag_set = False,
      coarsen_flag_set = False, minimum_vertex_distance = 1\<rparr>"

definition demo_external :: "real external" where
  "demo_external =
     \<lparr>deal_II_with_p4est = True,
      indeterminate_last_error_val = 0,
      indeterminate_first_mangnitude_val = 0,
      empty_vector = 0,
      input_geometry_description = (\<lambda>p. [demo_cell (int (n_refinements p))]),
      estimate_error = (\<lambda>v w tria i. \<bar>v - w\<bar>),
      refine_and_coarsen_fixed_number = (\<lambda>tria e top_fraction bottom_fraction i. (False, False)),
      prepare_coarsening_and_refinement =
        (\<lambda>tria i. (refine_flag_set (tria ! i), coarsen_flag_set (tria ! i))),
      execute_coarsening_and_refinement =
        map (\<lambda>c. c\<lparr>refine_flag_set := False, coarsen_flag_set := False\<rparr>),
      initialize_dof_vector = (\<lambda>tria. 0),
      interpolate = (\<lambda>old new v. v),
      project_initial_field = (\<lambda>tria ref. 1),
      perform_time_step =
        (\<lambda>integ tria tc vec_n vec_np.
           (vec_n, if step_size tc > 0.3 then 1000 * vec_n else vec_n)),
      integrate_difference =
        (\<lambda>tria v ref sel q i. case ref of ZeroFunction \<Rightarrow> 10 | ExactSolution t c m \<Rightarrow> v)\<rparr>"

text \<open>
  The same library with another limit of the time step: a time step larger than
  \<open>t\<close> multiplies the error by 1000.
\<close>

definition limit_external :: "real \<Rightarrow> real external" where
  "limit_external t =
     demo_external\<lparr>perform_time_step :=
        (\<lambda>integ tria tc vec_n vec_np.
           (vec_n, if step_size tc > t then 1000 * vec_n else vec_n))\<rparr>"

text \<open>
  Parameters of a run in two dimensions with degree 1, at most one time step, the CFL
  number \<open>c\<close>, the stability analysis switched on or off, and \<open>k\<close> adaptive
  refinements.
\<close>

definition demo_parameters :: "real \<Rightarrow> bool \<Rightarrow> nat \<Rightarrow> Parameters" where
  "demo_parameters c analysis k =
     \<lparr>dimension = 2, fe_degree = 1, n_refinements = 1, n_adaptive_refinements = k,
      adaptive_refinement_interval = 1, cfl_number = c, cfl_stability_analysis = analysis,
      final_time = 1, output_every_time = 0.1, max_time_steps = 1,
      integ_type = expleuler, initial_cases = 0, membrane_modes = 0\<rparr>"

text \<open>
  The problem as \<^verbatim>\<open>run()\<close> holds it on these parameters, without adaptive
  refinements, when it reaches the output of the initial fields, and an output
  evaluation at a state whose density error is \<open>e\<close>.
\<close>

definition demo_problem :: "real \<Rightarrow> bool \<Rightarrow> real LinearizedEulerProblem" where
  "demo_problem c analysis =
     \<lparr>dim = 2, solutions = 1, tmp_solutions = 0,
      time_control =
        \<lparr>current_time = 0, step_number = 0, step_size = c, tc_final_time = 1,
         output_interval = 0.1, max_steps = 1, output_step_number = 0\<rparr>,
      parameters = demo_parameters c analysis 0,
      triangulation = [demo_cell 1],
      linearized_euler_op = Some 1,
      maximal_cellwise_error_init = - 1,
      last_error_val = 0,
      first_error_val = - 1,
      first_mangnitude_val = 0,
      calls = [input_geometry_description_call, distribute_dofs_call, set_time_step_call c,
               operator_setup_call, initialize_dof_vector_call, reinit_call,
               project_initial_field_call]\<rparr>"

definition observe :: "real \<Rightarrow> real LinearizedEulerProblem \<Rightarrow> real LinearizedEulerProblem" where
  "observe e s = output_results demo_external (s\<lparr>solutions := e\<rparr>)"

text \<open>
  A problem inside the time loop of a run with one adaptive refinement
  (\<open>min_level = 1\<close>, \<open>max_level = 2\<close>), after a time step that left the state
  unchanged: the reference error captured after the pre-refinement is 1 and the error
  indicator of the one cell, which is on level 1, is 0. The calls made before are left
  out.
\<close>

definition adaptive_problem :: "real LinearizedEulerProblem" where
  "adaptive_problem =
     \<lparr>dim = 2, solutions = 1, tmp_solutions = 1,
      time_control =
        \<lparr>current_time = 0.2, step_number = 1, step_size = 0.2, tc_final_time = 1,
         output_interval = 0.1, max_steps = 1, output_step_number = 0\<rparr>,
      parameters = demo_parameters 0.2 True 1,
      triangulation = [demo_cell 1],
      linearized_euler_op = Some 1,
      maximal_cellwise_error_init = 1,
      last_error_val = 1,
      first_error_val = 1,
      first_mangnitude_val = 10,
      calls = []\<rparr>"

section \<open>Properties\<close>

lemma norm_sqr_nonneg: "0 \<le> norm_sqr v"
  unfolding norm_sqr_def by (induction v) simp_all

lemma l2_norm_nonneg: "0 \<le> l2_norm ext s ref sel q"
  unfolding l2_norm_def MPI_sum_def by (simp add: norm_sqr_nonneg)

lemma l2_norm_one_cell:
  "length (triangulation s) = 1 \<Longrightarrow>
   l2_norm ext s ref sel q
     = \<bar>integrate_difference ext (triangulation s) (solutions s) ref sel q 0\<bar>"
  by (simp add: l2_norm_def MPI_sum_def norm_sqr_def norm_per_cell_def)

subsection \<open>Members that the parts of the run leave unchanged\<close>

lemma set_time_step_final:
  "set_time_step v tc = Inr tc' \<Longrightarrow>
   tc_final_time tc' = tc_final_time tc \<and> current_time tc' = current_time tc \<and> step_size tc' = v"
  by (auto simp: set_time_step_def split: if_splits)

lemma make_dofs_members:
  "make_dofs ext s = Inr s' \<Longrightarrow>
   dim s' = dim s \<and> parameters s' = parameters s
   \<and> triangulation s' = triangulation s
   \<and> maximal_cellwise_error_init s' = maximal_cellwise_error_init s
   \<and> last_error_val s' = last_error_val s
   \<and> first_error_val s' = first_error_val s
   \<and> first_mangnitude_val s' = first_mangnitude_val s
   \<and> tc_final_time (time_control s') = tc_final_time (time_control s)"
  by (auto simp: make_dofs_def Let_def split: sum.splits dest: set_time_step_final)

lemma adapt_mesh_members:
  "adapt_mesh ext s = Inr s' \<Longrightarrow>
   dim s' = dim s \<and> parameters s' = parameters s
   \<and> maximal_cellwise_error_init s' = maximal_cellwise_error_init s
   \<and> last_error_val s' = last_error_val s
   \<and> first_error_val s' = first_error_val s
   \<and> first_mangnitude_val s' = first_mangnitude_val s
   \<and> tc_final_time (time_control s') = tc_final_time (time_control s)"
  by (auto simp: adapt_mesh_def Let_def split: if_splits sum.splits
      dest!: set_time_step_final make_dofs_members)

lemma project_initial_members:
  "dim (project_initial ext s) = dim s"
  "parameters (project_initial ext s) = parameters s"
  "triangulation (project_initial ext s) = triangulation s"
  "time_control (project_initial ext s) = time_control s"
  "maximal_cellwise_error_init (project_initial ext s) = maximal_cellwise_error_init s"
  "last_error_val (project_initial ext s) = last_error_val s"
  "first_error_val (project_initial ext s) = first_error_val s"
  "first_mangnitude_val (project_initial ext s) = first_mangnitude_val s"
  by (simp_all add: project_initial_def)

lemma capture_maximal_error_members:
  "dim (capture_maximal_error ext s) = dim s"
  "parameters (capture_maximal_error ext s) = parameters s"
  "triangulation (capture_maximal_error ext s) = triangulation s"
  "time_control (capture_maximal_error ext s) = time_control s"
  "last_error_val (capture_maximal_error ext s) = last_error_val s"
  "first_error_val (capture_maximal_error ext s) = first_error_val s"
  "first_mangnitude_val (capture_maximal_error ext s) = first_mangnitude_val s"
  by (simp_all add: capture_maximal_error_def)

lemma initial_refinement_members:
  "initial_refinement ext n s = Inr s' \<Longrightarrow>
   dim s' = dim s \<and> parameters s' = parameters s
   \<and> last_error_val s' = last_error_val s
   \<and> first_error_val s' = first_error_val s
   \<and> first_mangnitude_val s' = first_mangnitude_val s
   \<and> tc_final_time (time_control s') = tc_final_time (time_control s)"
proof (induction n arbitrary: s)
  case 0
  then show ?case by simp
next
  case (Suc n)
  from Suc.prems obtain s1 where a: "adapt_mesh ext s = Inr s1"
    and r: "initial_refinement ext n
              (if n = 0 then capture_maximal_error ext (project_initial ext s1)
               else project_initial ext s1) = Inr s'"
    by (auto simp: Let_def split: sum.splits)
  from Suc.IH[OF r] adapt_mesh_members[OF a] show ?case
    by (simp add: project_initial_members capture_maximal_error_members split: if_splits)
qed

lemma run_init_members:
  assumes "run_init ext s = Inr s'"
  shows "dim s' = dim s \<and> parameters s' = parameters s
   \<and> maximal_cellwise_error_init s' = maximal_cellwise_error_init s
   \<and> last_error_val s' = last_error_val s
   \<and> first_error_val s' = first_error_val s
   \<and> first_mangnitude_val s' = first_mangnitude_val s
   \<and> tc_final_time (time_control s') = final_time (parameters s)"
proof -
  from assms obtain tc k s2 where
    t: "setup_tc (final_time (parameters s)) (output_every_time (parameters s))
          (compute_time_step_size (input_geometry_description ext (parameters s)) (parameters s))
          (max_time_steps (parameters s)) (time_control s) = Inr tc"
    and m: "make_dofs ext (make_grid ext s\<lparr>time_control := tc, linearized_euler_op := Some k\<rparr>) = Inr s2"
    and r: "s' = project_initial ext s2"
    by (auto simp: run_init_def Let_def make_grid_def split: sum.splits)
  from t have "tc_final_time tc = final_time (parameters s)"
    by (auto simp: setup_tc_def split: if_splits)
  with make_dofs_members[OF m] r show ?thesis
    by (simp add: project_initial_members make_grid_def)
qed

lemma run_setup_cases:
  assumes "run_setup ext s = Inr s'"
  obtains s1 where "run_init ext s = Inr s1"
    and "initial_refinement ext (n_adaptive_refinements (parameters s)) s1 = Inr s'"
proof -
  from assms obtain s1 where a: "run_init ext s = Inr s1"
    and b: "initial_refinement ext (n_adaptive_refinements (parameters s1)) s1 = Inr s'"
    by (auto simp: run_setup_def split: sum.splits)
  from run_init_members[OF a] b have
    "initial_refinement ext (n_adaptive_refinements (parameters s)) s1 = Inr s'"
    by simp
  with a show ?thesis by (rule that)
qed

lemma run_setup_members:
  assumes "run_setup ext s = Inr s'"
  shows "dim s' = dim s \<and> parameters s' = parameters s
   \<and> last_error_val s' = last_error_val s
   \<and> first_error_val s' = first_error_val s
   \<and> first_mangnitude_val s' = first_mangnitude_val s
   \<and> tc_final_time (time_control s') = final_time (parameters s)"
proof -
  from assms obtain s1 where a: "run_init ext s = Inr s1"
    and b: "initial_refinement ext (n_adaptive_refinements (parameters s)) s1 = Inr s'"
    by (rule run_setup_cases)
  from run_init_members[OF a] initial_refinement_members[OF b] show ?thesis
    by simp
qed

lemma output_results_members:
  "dim (output_results ext s) = dim s"
  "parameters (output_results ext s) = parameters s"
  "triangulation (output_results ext s) = triangulation s"
  "solutions (output_results ext s) = solutions s"
  "maximal_cellwise_error_init (output_results ext s) = maximal_cellwise_error_init s"
  "tc_final_time (time_control (output_results ext s)) = tc_final_time (time_control s)"
  "last_error_val (output_results ext s) = solution_norm_rho_of ext s"
  by (simp_all add: output_results_def Let_def set_time_def)

lemma output_results_latched:
  "\<not> (cfl_stability_analysis (parameters s) \<and> first_error_val s < 0) \<Longrightarrow>
   first_error_val (output_results ext s) = first_error_val s
   \<and> first_mangnitude_val (output_results ext s) = first_mangnitude_val s"
  by (auto simp: output_results_def Let_def)

lemma output_results_latches:
  "cfl_stability_analysis (parameters s) \<Longrightarrow> first_error_val s < 0 \<Longrightarrow>
   first_error_val (output_results ext s) = solution_norm_rho_of ext s
   \<and> first_mangnitude_val (output_results ext s) = density_mag_of ext s"
  by (auto simp: output_results_def Let_def)

lemma solution_norm_rho_nonneg: "0 \<le> solution_norm_rho_of ext s"
  by (simp add: solution_norm_rho_of_def l2_norm_nonneg)

lemma adapt_in_loop_members:
  "adapt_in_loop ext s = Inr s' \<Longrightarrow>
   dim s' = dim s \<and> parameters s' = parameters s
   \<and> maximal_cellwise_error_init s' = maximal_cellwise_error_init s
   \<and> last_error_val s' = last_error_val s
   \<and> first_error_val s' = first_error_val s
   \<and> first_mangnitude_val s' = first_mangnitude_val s
   \<and> tc_final_time (time_control s') = tc_final_time (time_control s)"
  by (auto simp: adapt_in_loop_def split: if_splits dest: adapt_mesh_members)

lemma at_tick_final: "tc_final_time (snd (at_tick tc)) = tc_final_time tc"
  by (simp add: at_tick_def Let_def)

lemma advance_and_integrate_members:
  "dim (advance_and_integrate ext s) = dim s"
  "parameters (advance_and_integrate ext s) = parameters s"
  "triangulation (advance_and_integrate ext s) = triangulation s"
  "maximal_cellwise_error_init (advance_and_integrate ext s) = maximal_cellwise_error_init s"
  "last_error_val (advance_and_integrate ext s) = last_error_val s"
  "first_error_val (advance_and_integrate ext s) = first_error_val s"
  "first_mangnitude_val (advance_and_integrate ext s) = first_mangnitude_val s"
  "tc_final_time (time_control (advance_and_integrate ext s)) = tc_final_time (time_control s)"
  by (simp_all add: advance_and_integrate_def Let_def advance_time_step_def)

lemma analyse_and_output_members:
  "dim (analyse_and_output ext s) = dim s"
  "parameters (analyse_and_output ext s) = parameters s"
  "triangulation (analyse_and_output ext s) = triangulation s"
  "maximal_cellwise_error_init (analyse_and_output ext s) = maximal_cellwise_error_init s"
  "tc_final_time (time_control (analyse_and_output ext s)) = tc_final_time (time_control s)"
  by (simp_all add: analyse_and_output_def Let_def output_results_members at_tick_final)

lemma analyse_and_output_latched:
  assumes "\<not> (cfl_stability_analysis (parameters s) \<and> first_error_val s < 0)"
  shows "first_error_val (analyse_and_output ext s) = first_error_val s
         \<and> first_mangnitude_val (analyse_and_output ext s) = first_mangnitude_val s"
proof -
  let ?t = "s\<lparr>calls := calls s @ [time_step_analysis_call],
              time_control := snd (at_tick (time_control s))\<rparr>"
  have "\<not> (cfl_stability_analysis (parameters ?t) \<and> first_error_val ?t < 0)"
    using assms by simp
  from output_results_latched[OF this, of ext] show ?thesis
    by (simp add: analyse_and_output_def Let_def)
qed

lemma time_step_members:
  assumes "time_step ext s = Inr s'"
  shows "dim s' = dim s \<and> parameters s' = parameters s
   \<and> maximal_cellwise_error_init s' = maximal_cellwise_error_init s
   \<and> tc_final_time (time_control s') = tc_final_time (time_control s)"
proof -
  from assms obtain s1 where a: "adapt_in_loop ext (advance_and_integrate ext s) = Inr s1"
    and b: "s' = analyse_and_output ext s1"
    by (rule time_step_cases)
  from adapt_in_loop_members[OF a] b show ?thesis
    by (simp add: advance_and_integrate_members analyse_and_output_members)
qed

lemma time_step_latched:
  assumes "time_step ext s = Inr s'"
    and "\<not> (cfl_stability_analysis (parameters s) \<and> first_error_val s < 0)"
  shows "first_error_val s' = first_error_val s
         \<and> first_mangnitude_val s' = first_mangnitude_val s"
proof -
  from assms(1) obtain s1 where a: "adapt_in_loop ext (advance_and_integrate ext s) = Inr s1"
    and b: "s' = analyse_and_output ext s1"
    by (rule time_step_cases)
  from adapt_in_loop_members[OF a] have m: "parameters s1 = parameters s"
    "first_error_val s1 = first_error_val s" "first_mangnitude_val s1 = first_mangnitude_val s"
    by (simp_all add: advance_and_integrate_members)
  with assms(2) have "\<not> (cfl_stability_analysis (parameters s1) \<and> first_error_val s1 < 0)"
    by simp
  from analyse_and_output_latched[OF this, of ext] b m show ?thesis by simp
qed

lemma time_loop_latched:
  "time_loop ext s = Inr s' \<Longrightarrow>
   \<not> (cfl_stability_analysis (parameters s) \<and> first_error_val s < 0) \<Longrightarrow>
   first_error_val s' = first_error_val s
   \<and> first_mangnitude_val s' = first_mangnitude_val s"
proof (induction ext s rule: time_loop.induct)
  case (1 ext s)
  show ?case
  proof (cases "done_tc (time_control s)")
    case True
    with "1.prems" show ?thesis by (simp add: time_loop.simps[of ext s])
  next
    case False
    with "1.prems"(1) obtain s1 where st: "time_step ext s = Inr s1"
      and lp: "time_loop ext s1 = Inr s'"
      by (auto simp: time_loop.simps[of ext s] split: sum.splits)
    from time_step_latched[OF st "1.prems"(2)] time_step_members[OF st] "1.prems"(2)
    have "\<not> (cfl_stability_analysis (parameters s1) \<and> first_error_val s1 < 0)"
      and "first_error_val s1 = first_error_val s"
      and "first_mangnitude_val s1 = first_mangnitude_val s"
      by simp_all
    with "1.IH"[OF False st lp] show ?thesis by simp
  qed
qed

lemma time_loop_members:
  "time_loop ext s = Inr s' \<Longrightarrow>
   dim s' = dim s \<and> parameters s' = parameters s
   \<and> maximal_cellwise_error_init s' = maximal_cellwise_error_init s
   \<and> tc_final_time (time_control s') = tc_final_time (time_control s)"
proof (induction ext s rule: time_loop.induct)
  case (1 ext s)
  show ?case
  proof (cases "done_tc (time_control s)")
    case True
    with "1.prems" show ?thesis by (simp add: time_loop.simps[of ext s])
  next
    case False
    with "1.prems"(1) obtain s1 where st: "time_step ext s = Inr s1"
      and lp: "time_loop ext s1 = Inr s'"
      by (auto simp: time_loop.simps[of ext s] split: sum.splits)
    from "1.IH"[OF False st lp] time_step_members[OF st] show ?thesis by simp
  qed
qed

lemma ctor_members:
  "first_error_val (LinearizedEulerProblem_ctor ext d p) = - 1"
  "first_mangnitude_val (LinearizedEulerProblem_ctor ext d p) = indeterminate_first_mangnitude_val ext"
  "maximal_cellwise_error_init (LinearizedEulerProblem_ctor ext d p) = - 1"
  "parameters (LinearizedEulerProblem_ctor ext d p) = p"
  "dim (LinearizedEulerProblem_ctor ext d p) = d"
  by (simp_all add: LinearizedEulerProblem_ctor_def)

lemma run_cases:
  assumes "run ext s = Inr s'"
  obtains s0 where "run_setup ext s = Inr s0"
    and "time_loop ext (output_results ext s0) = Inr s'"
  using assms by (auto simp: run_def split: sum.splits)

lemma output_results_first_error:
  "first_error_val (output_results ext t)
     = (if cfl_stability_analysis (parameters t) \<and> first_error_val t < 0
        then solution_norm_rho_of ext t else first_error_val t)"
  by (simp add: output_results_def Let_def)

lemma output_results_first_magnitude:
  "first_mangnitude_val (output_results ext t)
     = (if cfl_stability_analysis (parameters t) \<and> first_error_val t < 0
        then density_mag_of ext t else first_mangnitude_val t)"
  by (simp add: output_results_def Let_def)

lemma output_results_time_control:
  "time_control (output_results ext t)
     = (if cfl_stability_analysis (parameters t) \<and> \<not> cfl_stable (output_results ext t)
        then set_time (final_time (parameters t)) (time_control t)
        else time_control t)"
  by (simp add: output_results_def Let_def cfl_stable_def)

lemma time_loop_done:
  "done_tc (time_control s) \<Longrightarrow> time_loop ext s = Inr s"
  by (subst time_loop.simps) simp

subsection \<open>The flag pass and the reference error\<close>

lemma set_flags_length: "length (set_flags f tria) = length tria"
  by (simp add: set_flags_def)

lemma set_flags_nth:
  "i < length tria \<Longrightarrow>
   set_flags f tria ! i
     = (tria ! i)\<lparr>refine_flag_set := fst (f i), coarsen_flag_set := snd (f i)\<rparr>"
  by (simp add: set_flags_def)

lemma error_per_cell_of_length: "length (error_per_cell_of ext s) = length (triangulation s)"
  by (simp add: error_per_cell_of_def)

lemma error_per_cell_of_nth:
  "i < length (triangulation s) \<Longrightarrow>
   error_per_cell_of ext s ! i
     = estimate_error ext (solutions s) (tmp_solutions s) (triangulation s) i"
  by (simp add: error_per_cell_of_def)

lemma adapt_mesh_flags_length: "length (adapt_mesh_flags ext s) = length (triangulation s)"
  by (simp add: adapt_mesh_flags_def Let_def flag_adjustment_pass_def
      set_refinement_indicators_def set_flags_length)

lemma adapt_mesh_flags_nth:
  "i < length (triangulation s) \<Longrightarrow>
   adapt_mesh_flags ext s ! i
     = adjust_flags (maximal_cellwise_error_init s) (int (n_refinements (parameters s)))
         (int (n_refinements (parameters s)) + int (n_adaptive_refinements (parameters s)))
         (error_per_cell_of ext s ! i)
         ((triangulation s ! i)
            \<lparr>refine_flag_set :=
               fst (refine_and_coarsen_fixed_number ext (triangulation s)
                      (error_per_cell_of ext s) 0.1 0.6 i),
             coarsen_flag_set :=
               snd (refine_and_coarsen_fixed_number ext (triangulation s)
                      (error_per_cell_of ext s) 0.1 0.6 i)\<rparr>)"
  by (simp add: adapt_mesh_flags_def Let_def flag_adjustment_pass_def
      set_refinement_indicators_def set_flags_length set_flags_nth)

lemma adjust_flags_keeps:
  "level (adjust_flags m lo hi err c) = level c"
  "is_locally_owned (adjust_flags m lo hi err c) = is_locally_owned c"
  "minimum_vertex_distance (adjust_flags m lo hi err c) = minimum_vertex_distance c"
  by (simp_all add: adjust_flags_def Let_def)

lemma adjust_flags_refine:
  "refine_flag_set (adjust_flags m lo hi err c)
     = (if is_locally_owned c
        then refine_flag_set c \<and> level c \<noteq> hi \<and> \<not> err < 0.1 * m
        else refine_flag_set c)"
  by (auto simp add: adjust_flags_def Let_def)

lemma adjust_flags_coarsen:
  "coarsen_flag_set (adjust_flags m lo hi err c)
     = (if is_locally_owned c
        then err < 0.05 * m
             \<or> (coarsen_flag_set c \<and> ((refine_flag_set c \<and> level c = hi) \<or> level c \<noteq> lo))
        else coarsen_flag_set c)"
  by (auto simp add: adjust_flags_def Let_def)

lemma adapt_mesh_flags_owned_level:
  "i < length (triangulation s) \<Longrightarrow>
   level (adapt_mesh_flags ext s ! i) = level (triangulation s ! i)
   \<and> is_locally_owned (adapt_mesh_flags ext s ! i) = is_locally_owned (triangulation s ! i)"
  by (simp add: adapt_mesh_flags_nth adjust_flags_keeps)

text \<open>The refine half of the clamp holds.\<close>

lemma no_refine_flag_at_max_level:
  assumes "i < length (triangulation s)" "is_locally_owned (triangulation s ! i)"
    and "level (triangulation s ! i)
           = int (n_refinements (parameters s)) + int (n_adaptive_refinements (parameters s))"
  shows "\<not> refine_flag_set (adapt_mesh_flags ext s ! i)"
  using assms by (simp add: adapt_mesh_flags_nth adjust_flags_refine)

lemma fold_max_abs:
  "fold (\<lambda>x m. max \<bar>x\<bar> m) v (a::real) = Max (insert a ((\<lambda>x. \<bar>x\<bar>) ` set v))"
proof (induction v arbitrary: a)
  case Nil
  then show ?case by simp
next
  case (Cons x v)
  let ?S = "(\<lambda>x. \<bar>x\<bar>) ` set v"
  have fin: "finite ?S" by simp
  have "Max (insert (max \<bar>x\<bar> a) ?S) = Max (insert a (insert \<bar>x\<bar> ?S))"
  proof (cases "?S = {}")
    case True
    then show ?thesis by (simp add: max.commute)
  next
    case False
    with fin have "Max (insert (max \<bar>x\<bar> a) ?S) = max (max \<bar>x\<bar> a) (Max ?S)"
      by (rule Max_insert)
    moreover from fin False have "Max (insert \<bar>x\<bar> ?S) = max \<bar>x\<bar> (Max ?S)"
      by (rule Max_insert)
    moreover have "Max (insert a (insert \<bar>x\<bar> ?S)) = max a (Max (insert \<bar>x\<bar> ?S))"
      by (rule Max_insert) (simp_all add: fin)
    ultimately show ?thesis
      by (simp add: max.assoc max.commute)
  qed
  with Cons.IH[of "max \<bar>x\<bar> a"] show ?case by simp
qed

lemma linfty_norm_Max: "linfty_norm v = Max (insert 0 ((\<lambda>x. \<bar>x\<bar>) ` set v))"
  by (simp add: linfty_norm_def fold_max_abs)

lemma capture_maximal_error_value:
  "maximal_cellwise_error_init (capture_maximal_error ext t)
   = Max (insert 0 ((\<lambda>i. \<bar>estimate_error ext (solutions t) (tmp_solutions t) (triangulation t) i\<bar>)
                     ` {..<length (triangulation t)}))"
proof -
  have "(\<lambda>x. \<bar>x\<bar>) ` set (error_per_cell_of ext t)
        = (\<lambda>i. \<bar>estimate_error ext (solutions t) (tmp_solutions t) (triangulation t) i\<bar>)
            ` {..<length (triangulation t)}"
    by (auto simp: error_per_cell_of_def lessThan_atLeast0)
  then show ?thesis
    by (simp add: capture_maximal_error_def MPI_max_def linfty_norm_Max)
qed

lemma initial_refinement_passes:
  "initial_refinement ext (Suc n) s
   = (case refinement_passes ext (Suc n) s of
        Inl e \<Rightarrow> Inl e
      | Inr t \<Rightarrow> Inr (capture_maximal_error ext t))"
proof (induction n arbitrary: s)
  case 0
  show ?case by (simp add: Let_def split: sum.splits)
next
  case (Suc n)
  show ?case
  proof (cases "adapt_mesh ext s")
    case (Inl e)
    then show ?thesis by simp
  next
    case (Inr s1)
    have "initial_refinement ext (Suc (Suc n)) s
          = initial_refinement ext (Suc n) (project_initial ext s1)"
      using Inr by (simp add: Let_def)
    also have "\<dots> = (case refinement_passes ext (Suc n) (project_initial ext s1) of
                        Inl e \<Rightarrow> Inl e
                      | Inr t \<Rightarrow> Inr (capture_maximal_error ext t))"
      by (rule Suc.IH)
    also have "refinement_passes ext (Suc n) (project_initial ext s1)
               = refinement_passes ext (Suc (Suc n)) s"
      using Inr by simp
    finally show ?thesis .
  qed
qed

lemma refinement_passes_members:
  "refinement_passes ext n s = Inr s' \<Longrightarrow>
   dim s' = dim s \<and> parameters s' = parameters s
   \<and> maximal_cellwise_error_init s' = maximal_cellwise_error_init s"
proof (induction n arbitrary: s)
  case 0
  then show ?case by simp
next
  case (Suc n)
  from Suc.prems obtain s1 where a: "adapt_mesh ext s = Inr s1"
    and r: "refinement_passes ext n (project_initial ext s1) = Inr s'"
    by (auto split: sum.splits)
  from Suc.IH[OF r] adapt_mesh_members[OF a] show ?case
    by (simp add: project_initial_members)
qed


text \<open>The mesh that \<^verbatim>\<open>adapt_mesh()\<close> leaves is rebuilt from the flags of its flag pass.\<close>

lemma adapt_mesh_triangulation:
  assumes "adapt_mesh ext s = Inr s'"
  shows "triangulation s'
   = execute_coarsening_and_refinement ext
       (set_flags (prepare_coarsening_and_refinement ext (adapt_mesh_flags ext s))
          (adapt_mesh_flags ext s))"
  using assms
  by (auto simp: adapt_mesh_def Let_def make_dofs_def set_time_step_def
      split: if_splits sum.splits)

subsection \<open>The concrete library evaluated\<close>

lemma demo_parameters_sel:
  "dimension (demo_parameters c a k) = 2"
  "fe_degree (demo_parameters c a k) = 1"
  "n_refinements (demo_parameters c a k) = 1"
  "n_adaptive_refinements (demo_parameters c a k) = k"
  "adaptive_refinement_interval (demo_parameters c a k) = 1"
  "cfl_number (demo_parameters c a k) = c"
  "cfl_stability_analysis (demo_parameters c a k) = a"
  "final_time (demo_parameters c a k) = 1"
  "output_every_time (demo_parameters c a k) = 0.1"
  "max_time_steps (demo_parameters c a k) = 1"
  "integ_type (demo_parameters c a k) = expleuler"
  "initial_cases (demo_parameters c a k) = 0"
  "membrane_modes (demo_parameters c a k) = 0"
  by (simp_all add: demo_parameters_def)

lemma demo_external_sel:
  "deal_II_with_p4est demo_external = True"
  "indeterminate_last_error_val demo_external = 0"
  "indeterminate_first_mangnitude_val demo_external = 0"
  "empty_vector demo_external = 0"
  "input_geometry_description demo_external p = [demo_cell (int (n_refinements p))]"
  "estimate_error demo_external v w tria i = \<bar>v - w\<bar>"
  "refine_and_coarsen_fixed_number demo_external tria e a b i = (False, False)"
  "prepare_coarsening_and_refinement demo_external tria i
     = (refine_flag_set (tria ! i), coarsen_flag_set (tria ! i))"
  "execute_coarsening_and_refinement demo_external tria
     = map (\<lambda>c. c\<lparr>refine_flag_set := False, coarsen_flag_set := False\<rparr>) tria"
  "initialize_dof_vector demo_external tria = 0"
  "interpolate demo_external old new v = v"
  "project_initial_field demo_external tria ref = 1"
  "perform_time_step demo_external integ tria tc vec_n vec_np
     = (vec_n, if step_size tc > 0.3 then 1000 * vec_n else vec_n)"
  "integrate_difference demo_external tria v ref sel q i
     = (case ref of ZeroFunction \<Rightarrow> 10 | ExactSolution t c m \<Rightarrow> v)"
  by (simp_all add: demo_external_def)

lemma compute_time_step_size_demo:
  "compute_time_step_size [demo_cell l] (demo_parameters c a k) = c"
  by (simp add: compute_time_step_size_def MPI_min_def demo_cell_def demo_parameters_sel double_max_def)

lemma run_setup_demo:
  "0 < c \<Longrightarrow>
   run_setup demo_external (LinearizedEulerProblem_ctor demo_external 2 (demo_parameters c a 0))
   = Inr (demo_problem c a)"
  by (simp add: run_setup_def run_init_def make_grid_def LinearizedEulerProblem_ctor_def Let_def
      setup_tc_def select_operation_def make_dofs_def set_time_step_def project_initial_def
      exact_solution_def get_time_def TimeControl_default_def demo_problem_def
      compute_time_step_size_demo demo_external_sel demo_parameters_sel)

lemma demo_problem_sel:
  "dim (demo_problem c a) = 2"
  "solutions (demo_problem c a) = 1"
  "tmp_solutions (demo_problem c a) = 0"
  "time_control (demo_problem c a) =
     \<lparr>current_time = 0, step_number = 0, step_size = c, tc_final_time = 1,
      output_interval = 0.1, max_steps = 1, output_step_number = 0\<rparr>"
  "parameters (demo_problem c a) = demo_parameters c a 0"
  "triangulation (demo_problem c a) = [demo_cell 1]"
  "maximal_cellwise_error_init (demo_problem c a) = - 1"
  "last_error_val (demo_problem c a) = 0"
  "first_error_val (demo_problem c a) = - 1"
  "first_mangnitude_val (demo_problem c a) = 0"
  by (simp_all add: demo_problem_def)

lemma norms_demo:
  "length (triangulation s) = 1 \<Longrightarrow> density_mag_of demo_external s = 10"
  "length (triangulation s) = 1 \<Longrightarrow> solution_norm_rho_of demo_external s = \<bar>solutions s\<bar>"
  by (simp_all add: density_mag_of_def solution_norm_rho_of_def l2_norm_one_cell
      demo_external_sel exact_solution_def)

lemma first_output_demo:
  "output_results demo_external (demo_problem c a)
   = (if a then (demo_problem c a)\<lparr>last_error_val := 1, first_error_val := 1,
                   first_mangnitude_val := 10,
                   calls := calls (demo_problem c a) @ [integrate_difference_call,
                     integrate_difference_call, integrate_difference_call,
                     integrate_difference_call]\<rparr>
      else (demo_problem c a)\<lparr>last_error_val := 1,
                   calls := calls (demo_problem c a) @ [integrate_difference_call,
                     integrate_difference_call, integrate_difference_call,
                     integrate_difference_call]\<rparr>)"
  by (simp add: output_results_def Let_def norms_demo demo_problem_sel demo_parameters_sel)

lemma floor_tenth: "0.1 \<le> c \<Longrightarrow> 0 < \<lfloor>c / (1/10 :: real)\<rfloor>"
proof -
  assume "0.1 \<le> c"
  then have "1 \<le> c / (1/10)" by simp
  then show ?thesis by linarith
qed

lemma adapt_in_loop_off:
  "n_adaptive_refinements (parameters s) = 0 \<Longrightarrow> adapt_in_loop ext s = Inr s"
  by (simp add: adapt_in_loop_def)

lemma at_tick_demo:
  "0.1 \<le> c \<Longrightarrow>
   at_tick \<lparr>current_time = c, step_number = n, step_size = h, tc_final_time = f,
            output_interval = 0.1, max_steps = m, output_step_number = 0\<rparr>
   = (True, \<lparr>current_time = c, step_number = n, step_size = h, tc_final_time = f,
            output_interval = 0.1, max_steps = m, output_step_number = \<lfloor>c / 0.1\<rfloor>\<rparr>)"
  using floor_tenth[of c] by (simp add: at_tick_def Let_def)

lemma output_results_demo_later:
  assumes "triangulation s = [demo_cell 1]" "parameters s = demo_parameters c a k"
    "first_error_val s = (if a then 1 else - 1)" "first_mangnitude_val s = (if a then 10 else 0)"
    "0 \<le> solutions s"
  shows "last_error_val (output_results demo_external s) = solutions s"
    "first_error_val (output_results demo_external s) = (if a then 1 else - 1)"
    "first_mangnitude_val (output_results demo_external s) = (if a then 10 else 0)"
    "parameters (output_results demo_external s) = demo_parameters c a k"
    "step_number (time_control (output_results demo_external s)) = step_number (time_control s)"
    "max_steps (time_control (output_results demo_external s)) = max_steps (time_control s)"
    "current_time (time_control (output_results demo_external s))
       = (if a \<and> (100 < solutions s \<or> 15 < solutions s) then 1 else current_time (time_control s))"
  using assms
  by (simp_all add: output_results_def Let_def norms_demo demo_parameters_sel set_time_def)

lemma advance_and_integrate_demo:
  assumes "time_control s =
       \<lparr>current_time = 0, step_number = 0, step_size = c, tc_final_time = 1,
        output_interval = 0.1, max_steps = 1, output_step_number = 0\<rparr>"
    and "solutions s = 1"
  shows "time_control (advance_and_integrate demo_external s) =
       \<lparr>current_time = c, step_number = 1, step_size = c, tc_final_time = 1,
        output_interval = 0.1, max_steps = 1, output_step_number = 0\<rparr>"
    and "solutions (advance_and_integrate demo_external s) = (if 0.3 < c then 1000 else 1)"
    and "tmp_solutions (advance_and_integrate demo_external s) = 1"
  using assms
  by (simp_all add: advance_and_integrate_def Let_def advance_time_step_def demo_external_sel)

lemma analyse_and_output_demo:
  assumes "0.1 \<le> c"
    and "time_control s =
       \<lparr>current_time = c, step_number = 1, step_size = c, tc_final_time = 1,
        output_interval = 0.1, max_steps = 1, output_step_number = 0\<rparr>"
  shows "analyse_and_output demo_external s
     = output_results demo_external
         (s\<lparr>calls := calls s @ [time_step_analysis_call],
            time_control :=
              \<lparr>current_time = c, step_number = 1, step_size = c, tc_final_time = 1,
               output_interval = 0.1, max_steps = 1, output_step_number = \<lfloor>c / 0.1\<rfloor>\<rparr>\<rparr>)"
  using at_tick_demo[OF assms(1), of 1 c 1 1] assms(2)
  by (simp add: analyse_and_output_def Let_def)

lemma demo_cell_cleared:
  fixes x :: cell
  assumes "level x = l" "is_locally_owned x" "minimum_vertex_distance x = 1"
  shows "x\<lparr>refine_flag_set := False, coarsen_flag_set := False\<rparr> = demo_cell l"
  using assms by (cases x) (simp add: demo_cell_def)

lemma demo_cell_sel:
  "level (demo_cell l) = l" "is_locally_owned (demo_cell l)"
  "\<not> refine_flag_set (demo_cell l)" "\<not> coarsen_flag_set (demo_cell l)"
  "minimum_vertex_distance (demo_cell l) = 1"
  by (simp_all add: demo_cell_def)

lemma adapt_mesh_flags_demo:
  assumes "triangulation s = [demo_cell l]"
  shows "\<exists>x. adapt_mesh_flags ext s = [x] \<and> level x = l \<and> is_locally_owned x
              \<and> minimum_vertex_distance x = 1"
proof -
  have n: "length (adapt_mesh_flags ext s) = 1"
    by (simp add: adapt_mesh_flags_length assms)
  then obtain x where x: "adapt_mesh_flags ext s = [x]"
    by (cases "adapt_mesh_flags ext s") auto
  have "adapt_mesh_flags ext s ! 0 = x" by (simp add: x)
  moreover have "0 < length (triangulation s)" by (simp add: assms)
  ultimately have "x = adjust_flags (maximal_cellwise_error_init s) (int (n_refinements (parameters s)))
         (int (n_refinements (parameters s)) + int (n_adaptive_refinements (parameters s)))
         (error_per_cell_of ext s ! 0)
         ((triangulation s ! 0)
            \<lparr>refine_flag_set :=
               fst (refine_and_coarsen_fixed_number ext (triangulation s)
                      (error_per_cell_of ext s) 0.1 0.6 0),
             coarsen_flag_set :=
               snd (refine_and_coarsen_fixed_number ext (triangulation s)
                      (error_per_cell_of ext s) 0.1 0.6 0)\<rparr>)"
    using adapt_mesh_flags_nth[of 0 s ext] by simp
  then have "level x = l \<and> is_locally_owned x \<and> minimum_vertex_distance x = 1"
    by (simp add: adjust_flags_keeps assms demo_cell_sel)
  with x show ?thesis by blast
qed

lemma adapt_mesh_demo:
  assumes tr: "triangulation s = [demo_cell 1]"
    and p: "parameters s = demo_parameters c a k"
    and c: "0 < c"
    and d: "dim s = 2"
  shows "\<exists>s'. adapt_mesh demo_external s = Inr s'
     \<and> triangulation s' = [demo_cell 1]
     \<and> solutions s' = solutions s
     \<and> tmp_solutions s' = 0
     \<and> time_control s' = (time_control s)\<lparr>step_size := c\<rparr>"
proof -
  from adapt_mesh_flags_demo[OF tr, of demo_external] obtain x where
    x: "adapt_mesh_flags demo_external s = [x]"
    and xl: "level x = 1" "is_locally_owned x" "minimum_vertex_distance x = 1"
    by blast
  have prep: "set_flags (prepare_coarsening_and_refinement demo_external [x]) [x] = [x]"
    by (simp add: set_flags_def demo_external_sel)
  have reb: "execute_coarsening_and_refinement demo_external [x] = [demo_cell 1]"
    by (simp add: demo_external_sel demo_cell_cleared[OF xl])
  show ?thesis
    by (simp add: adapt_mesh_def Let_def x prep reb make_dofs_def set_time_step_def
        compute_time_step_size_demo p c d demo_external_sel(1) demo_external_sel(10)
        demo_external_sel(11))
qed

lemma adapt_in_loop_demo:
  assumes tr: "triangulation s = [demo_cell 1]"
    and p: "parameters s = demo_parameters c a k"
    and c: "0 < c"
    and d: "dim s = 2"
    and st: "step_size (time_control s) = c"
  shows "\<exists>s'. adapt_in_loop demo_external s = Inr s'
     \<and> triangulation s' = [demo_cell 1]
     \<and> solutions s' = solutions s
     \<and> time_control s' = time_control s"
proof (cases "k = 0")
  case True
  then show ?thesis
    by (simp add: adapt_in_loop_def p demo_parameters_sel tr)
next
  case False
  have e: "(time_control s)\<lparr>step_size := c\<rparr> = time_control s"
    using st by simp
  from False adapt_mesh_demo[OF tr p c d] e show ?thesis
    by (auto simp: adapt_in_loop_def p demo_parameters_sel)
qed

lemma first_output_demo_fields:
  assumes "triangulation s = [demo_cell 1]" "parameters s = demo_parameters c a k"
    "solutions s = 1" "first_error_val s = - 1"
  shows "time_control (output_results demo_external s) = time_control s"
    "first_error_val (output_results demo_external s) = (if a then 1 else - 1)"
    "first_mangnitude_val (output_results demo_external s)
       = (if a then 10 else first_mangnitude_val s)"
    "last_error_val (output_results demo_external s) = 1"
  using assms
  by (simp_all add: output_results_def Let_def norms_demo demo_parameters_sel)

lemma time_step_demo:
  assumes c: "0.1 \<le> c"
    and tc: "time_control s =
       \<lparr>current_time = 0, step_number = 0, step_size = c, tc_final_time = 1,
        output_interval = 0.1, max_steps = 1, output_step_number = 0\<rparr>"
    and p: "parameters s = demo_parameters c a k"
    and tr: "triangulation s = [demo_cell 1]"
    and so: "solutions s = 1"
    and d: "dim s = 2"
    and fe: "first_error_val s = (if a then 1 else - 1)"
    and fm: "first_mangnitude_val s = (if a then 10 else 0)"
  shows "\<exists>s1. time_step demo_external s = Inr s1
     \<and> last_error_val s1 = (if 0.3 < c then 1000 else 1)
     \<and> first_error_val s1 = (if a then 1 else - 1)
     \<and> first_mangnitude_val s1 = (if a then 10 else 0)
     \<and> current_time (time_control s1) = (if a \<and> 0.3 < c then 1 else c)
     \<and> parameters s1 = demo_parameters c a k
     \<and> maximal_cellwise_error_init s1 = maximal_cellwise_error_init s
     \<and> step_number (time_control s1) = 1 \<and> max_steps (time_control s1) = 1"
proof -
  let ?s3 = "advance_and_integrate demo_external s"
  let ?tc = "\<lparr>current_time = c, step_number = 1, step_size = c, tc_final_time = 1,
               output_interval = 0.1, max_steps = 1, output_step_number = \<lfloor>c / 0.1\<rfloor>\<rparr>"
  note a3 = advance_and_integrate_demo[OF tc so]
  from c have c0: "0 < c" by simp
  have h3: "triangulation ?s3 = [demo_cell 1]" "parameters ?s3 = demo_parameters c a k"
    "dim ?s3 = 2" "step_size (time_control ?s3) = c"
    by (simp_all add: advance_and_integrate_members p tr d a3(1))
  from adapt_in_loop_demo[OF h3(1) h3(2) c0 h3(3) h3(4)] obtain s4 where
    ad: "adapt_in_loop demo_external ?s3 = Inr s4"
    and f4: "triangulation s4 = [demo_cell 1]" "solutions s4 = solutions ?s3"
      "time_control s4 = time_control ?s3"
    by blast
  note m4 = adapt_in_loop_members[OF ad]
  let ?s6 = "s4\<lparr>calls := calls s4 @ [time_step_analysis_call], time_control := ?tc\<rparr>"
  have tc4: "time_control s4 =
       \<lparr>current_time = c, step_number = 1, step_size = c, tc_final_time = 1,
        output_interval = 0.1, max_steps = 1, output_step_number = 0\<rparr>"
    by (simp add: f4(3) a3(1))
  have ao: "analyse_and_output demo_external s4 = output_results demo_external ?s6"
    by (rule analyse_and_output_demo[OF c tc4])
  have ts: "time_step demo_external s = Inr (output_results demo_external ?s6)"
    by (simp add: time_step_def ad ao)
  have sol: "solutions ?s6 = (if 0.3 < c then 1000 else 1)"
    by (simp add: f4(2) a3(2))
  have h: "triangulation ?s6 = [demo_cell 1]" "parameters ?s6 = demo_parameters c a k"
    "first_error_val ?s6 = (if a then 1 else - 1)"
    "first_mangnitude_val ?s6 = (if a then 10 else 0)"
    "0 \<le> solutions ?s6"
    using m4 f4(2) a3(2) by (simp_all add: advance_and_integrate_members p fe fm f4(1))
  note o = output_results_demo_later[OF h]
  have "last_error_val (output_results demo_external ?s6) = (if 0.3 < c then 1000 else 1)"
    using o(1) sol by simp
  moreover have "current_time (time_control (output_results demo_external ?s6))
      = (if a \<and> 0.3 < c then 1 else c)"
    using o(7) sol by simp
  moreover have "step_number (time_control (output_results demo_external ?s6)) = 1"
    "max_steps (time_control (output_results demo_external ?s6)) = 1"
    using o(5) o(6) by simp_all
  moreover have "maximal_cellwise_error_init (output_results demo_external ?s6)
      = maximal_cellwise_error_init s"
    using m4 by (simp add: output_results_members advance_and_integrate_members)
  ultimately show ?thesis using ts o(2) o(3) o(4) by simp
qed

lemma time_loop_demo:
  assumes c: "0.1 \<le> c"
    and tc: "time_control s =
       \<lparr>current_time = 0, step_number = 0, step_size = c, tc_final_time = 1,
        output_interval = 0.1, max_steps = 1, output_step_number = 0\<rparr>"
    and p: "parameters s = demo_parameters c a k"
    and tr: "triangulation s = [demo_cell 1]"
    and so: "solutions s = 1"
    and d: "dim s = 2"
    and fe: "first_error_val s = (if a then 1 else - 1)"
    and fm: "first_mangnitude_val s = (if a then 10 else 0)"
  shows "\<exists>s'. time_loop demo_external s = Inr s'
     \<and> last_error_val s' = (if 0.3 < c then 1000 else 1)
     \<and> first_error_val s' = (if a then 1 else - 1)
     \<and> first_mangnitude_val s' = (if a then 10 else 0)
     \<and> current_time (time_control s') = (if a \<and> 0.3 < c then 1 else c)
     \<and> parameters s' = demo_parameters c a k
     \<and> maximal_cellwise_error_init s' = maximal_cellwise_error_init s"
proof -
  have nd: "\<not> done_tc (time_control s)"
    by (simp add: tc done_tc_def)
  from time_step_demo[OF c tc p tr so d fe fm] obtain s1 where
    st: "time_step demo_external s = Inr s1"
     and q: "last_error_val s1 = (if 0.3 < c then 1000 else 1)"
       "first_error_val s1 = (if a then 1 else - 1)"
       "first_mangnitude_val s1 = (if a then 10 else 0)"
       "current_time (time_control s1) = (if a \<and> 0.3 < c then 1 else c)"
       "parameters s1 = demo_parameters c a k"
       "maximal_cellwise_error_init s1 = maximal_cellwise_error_init s"
     and e: "step_number (time_control s1) = 1" "max_steps (time_control s1) = 1"
    by blast
  have "done_tc (time_control s1)"
    using e by (simp add: done_tc_def)
  then have "time_loop demo_external s1 = Inr s1"
    by (subst time_loop.simps) simp
  with st nd have "time_loop demo_external s = Inr s1"
    by (subst time_loop.simps) simp
  with q show ?thesis by blast
qed

lemma run_demo:
  assumes "0.1 \<le> c"
  shows "\<exists>s. run demo_external (LinearizedEulerProblem_ctor demo_external 2 (demo_parameters c a 0)) = Inr s
     \<and> last_error_val s = (if 0.3 < c then 1000 else 1)
     \<and> first_error_val s = (if a then 1 else - 1)
     \<and> first_mangnitude_val s = (if a then 10 else 0)
     \<and> current_time (time_control s) = (if a \<and> 0.3 < c then 1 else c)
     \<and> parameters s = demo_parameters c a 0"
proof -
  from assms have "0 < c" by simp
  note rs = run_setup_demo[OF this, of a]
  let ?s0 = "output_results demo_external (demo_problem c a)"
  have f: "time_control ?s0 =
       \<lparr>current_time = 0, step_number = 0, step_size = c, tc_final_time = 1,
        output_interval = 0.1, max_steps = 1, output_step_number = 0\<rparr>"
    "parameters ?s0 = demo_parameters c a 0" "triangulation ?s0 = [demo_cell 1]"
    "solutions ?s0 = 1" "dim ?s0 = 2" "first_error_val ?s0 = (if a then 1 else - 1)"
    "first_mangnitude_val ?s0 = (if a then 10 else 0)"
    by (simp_all add: first_output_demo demo_problem_sel)
  from time_loop_demo[OF assms f] rs show ?thesis
    by (auto simp: run_def)
qed

lemma simu_was_stable_demo:
  assumes "0.1 \<le> c"
  shows "simu_was_stable demo_external (demo_parameters c True 0) = Inr (c \<le> 0.3)"
proof -
  from run_demo[OF assms, of True] obtain s where
    r: "run demo_external (LinearizedEulerProblem_ctor demo_external 2 (demo_parameters c True 0)) = Inr s"
    and v: "last_error_val s = (if 0.3 < c then 1000 else 1)" "first_error_val s = 1"
    "first_mangnitude_val s = 10"
    by auto
  have "cfl_stable s = (c \<le> 0.3)"
    using v by (simp add: cfl_stable_def)
  with r show ?thesis
    by (simp add: simu_was_stable_def demo_parameters_sel)
qed

text \<open>The run with one adaptive refinement.\<close>

lemma run_init_demo:
  "0 < c \<Longrightarrow>
   run_init demo_external (LinearizedEulerProblem_ctor demo_external 2 (demo_parameters c a k))
   = Inr ((demo_problem c a)\<lparr>parameters := demo_parameters c a k\<rparr>)"
  by (simp add: run_init_def make_grid_def LinearizedEulerProblem_ctor_def Let_def
      setup_tc_def select_operation_def make_dofs_def set_time_step_def project_initial_def
      exact_solution_def get_time_def TimeControl_default_def demo_problem_def
      compute_time_step_size_demo demo_external_sel demo_parameters_sel)

lemma run_setup_adaptive_demo:
  assumes "0 < c"
  shows "\<exists>t s. refinement_passes demo_external 1
                 ((demo_problem c a)\<lparr>parameters := demo_parameters c a 1\<rparr>) = Inr t
     \<and> solutions t = 1 \<and> tmp_solutions t = 0 \<and> triangulation t = [demo_cell 1]
     \<and> maximal_cellwise_error_init t = - 1
     \<and> run_setup demo_external (LinearizedEulerProblem_ctor demo_external 2 (demo_parameters c a 1))
         = Inr s
     \<and> s = capture_maximal_error demo_external t
     \<and> time_control s =
         \<lparr>current_time = 0, step_number = 0, step_size = c, tc_final_time = 1,
          output_interval = 0.1, max_steps = 1, output_step_number = 0\<rparr>
     \<and> parameters s = demo_parameters c a 1 \<and> dim s = 2
     \<and> first_error_val s = - 1 \<and> first_mangnitude_val s = 0
     \<and> maximal_cellwise_error_init s = 1"
proof -
  let ?s1 = "(demo_problem c a)\<lparr>parameters := demo_parameters c a 1\<rparr>"
  have h: "triangulation ?s1 = [demo_cell 1]" "parameters ?s1 = demo_parameters c a 1"
    "dim ?s1 = 2"
    by (simp_all add: demo_problem_sel)
  from adapt_mesh_demo[OF h(1) h(2) assms h(3)] obtain s2 where
    am: "adapt_mesh demo_external ?s1 = Inr s2"
    and f2: "triangulation s2 = [demo_cell 1]" "tmp_solutions s2 = 0"
      "time_control s2 = (time_control ?s1)\<lparr>step_size := c\<rparr>"
    by blast
  note m2 = adapt_mesh_members[OF am]
  let ?t = "project_initial demo_external s2"
  have rp: "refinement_passes demo_external 1 ?s1 = Inr ?t"
    using am by simp
  have ft: "solutions ?t = 1" "tmp_solutions ?t = 0" "triangulation ?t = [demo_cell 1]"
    "maximal_cellwise_error_init ?t = - 1"
    using m2 by (simp_all add: project_initial_def f2 demo_external_sel demo_problem_sel)
  have ir: "initial_refinement demo_external 1 ?s1 = Inr (capture_maximal_error demo_external ?t)"
    using initial_refinement_passes[of demo_external 0 ?s1] rp by simp
  have rs: "run_setup demo_external
              (LinearizedEulerProblem_ctor demo_external 2 (demo_parameters c a 1))
            = Inr (capture_maximal_error demo_external ?t)"
  proof -
    have "run_setup demo_external
            (LinearizedEulerProblem_ctor demo_external 2 (demo_parameters c a 1))
          = initial_refinement demo_external (n_adaptive_refinements (parameters ?s1)) ?s1"
      using run_init_demo[OF assms, of a 1] by (simp add: run_setup_def)
    also have "\<dots> = initial_refinement demo_external 1 ?s1"
      by (simp add: demo_parameters_sel)
    finally show ?thesis using ir by simp
  qed
  have mx: "maximal_cellwise_error_init (capture_maximal_error demo_external ?t) = 1"
    by (simp add: capture_maximal_error_def MPI_max_def linfty_norm_def error_per_cell_of_def
        ft demo_external_sel)
  have fs: "time_control (capture_maximal_error demo_external ?t) =
         \<lparr>current_time = 0, step_number = 0, step_size = c, tc_final_time = 1,
          output_interval = 0.1, max_steps = 1, output_step_number = 0\<rparr>"
    "parameters (capture_maximal_error demo_external ?t) = demo_parameters c a 1"
    "dim (capture_maximal_error demo_external ?t) = 2"
    "first_error_val (capture_maximal_error demo_external ?t) = - 1"
    "first_mangnitude_val (capture_maximal_error demo_external ?t) = 0"
    using m2
    by (simp_all add: capture_maximal_error_members project_initial_members f2 demo_problem_sel)
  from rp ft rs mx fs show ?thesis by blast
qed

lemma run_adaptive_demo:
  assumes "0.1 \<le> c"
  shows "\<exists>s. run demo_external (LinearizedEulerProblem_ctor demo_external 2 (demo_parameters c a 1)) = Inr s
     \<and> last_error_val s = (if 0.3 < c then 1000 else 1)
     \<and> first_error_val s = (if a then 1 else - 1)
     \<and> maximal_cellwise_error_init s = 1"
proof -
  from assms have "0 < c" by simp
  from run_setup_adaptive_demo[OF this, of a] obtain t s0 where
    rs: "run_setup demo_external
           (LinearizedEulerProblem_ctor demo_external 2 (demo_parameters c a 1)) = Inr s0"
    and s0: "s0 = capture_maximal_error demo_external t"
    and ft: "solutions t = 1" "triangulation t = [demo_cell 1]"
    and f0: "time_control s0 =
         \<lparr>current_time = 0, step_number = 0, step_size = c, tc_final_time = 1,
          output_interval = 0.1, max_steps = 1, output_step_number = 0\<rparr>"
      "parameters s0 = demo_parameters c a 1" "dim s0 = 2"
      "first_error_val s0 = - 1" "first_mangnitude_val s0 = 0"
      "maximal_cellwise_error_init s0 = 1"
    by blast
  have g0: "triangulation s0 = [demo_cell 1]" "solutions s0 = 1"
    by (simp_all add: s0 capture_maximal_error_def ft)
  note fo = first_output_demo_fields[OF g0(1) f0(2) g0(2) f0(4)]
  let ?s = "output_results demo_external s0"
  have f: "time_control ?s =
       \<lparr>current_time = 0, step_number = 0, step_size = c, tc_final_time = 1,
        output_interval = 0.1, max_steps = 1, output_step_number = 0\<rparr>"
    "parameters ?s = demo_parameters c a 1" "triangulation ?s = [demo_cell 1]"
    "solutions ?s = 1" "dim ?s = 2" "first_error_val ?s = (if a then 1 else - 1)"
    "first_mangnitude_val ?s = (if a then 10 else 0)"
    by (simp_all add: fo output_results_members f0 g0)
  have mx: "maximal_cellwise_error_init ?s = 1"
    by (simp add: output_results_members f0)
  from time_loop_demo[OF assms f] rs mx show ?thesis
    by (auto simp: run_def)
qed

text \<open>The run without adaptive refinements on the library with the limit \<open>t\<close>.\<close>

lemma limit_external_sel:
  "deal_II_with_p4est (limit_external t) = True"
  "indeterminate_last_error_val (limit_external t) = 0"
  "indeterminate_first_mangnitude_val (limit_external t) = 0"
  "empty_vector (limit_external t) = 0"
  "input_geometry_description (limit_external t) p = [demo_cell (int (n_refinements p))]"
  "initialize_dof_vector (limit_external t) tria = 0"
  "project_initial_field (limit_external t) tria ref = 1"
  "perform_time_step (limit_external t) integ tria tc vec_n vec_np
     = (vec_n, if step_size tc > t then 1000 * vec_n else vec_n)"
  "integrate_difference (limit_external t) tria v ref sel q i
     = (case ref of ZeroFunction \<Rightarrow> 10 | ExactSolution time c m \<Rightarrow> v)"
  by (simp_all add: limit_external_def demo_external_def)

lemma run_setup_limit:
  "0 < c \<Longrightarrow>
   run_setup (limit_external t)
     (LinearizedEulerProblem_ctor (limit_external t) 2 (demo_parameters c a 0))
   = Inr (demo_problem c a)"
  by (simp add: run_setup_def run_init_def make_grid_def LinearizedEulerProblem_ctor_def Let_def
      setup_tc_def select_operation_def make_dofs_def set_time_step_def project_initial_def
      exact_solution_def get_time_def TimeControl_default_def demo_problem_def
      compute_time_step_size_demo limit_external_sel demo_parameters_sel)

lemma output_results_limit: "output_results (limit_external t) s = output_results demo_external s"
  by (simp add: output_results_def density_mag_of_def solution_norm_rho_of_def l2_norm_def
      norm_per_cell_def limit_external_def)

lemma advance_and_integrate_limit:
  assumes "time_control s =
       \<lparr>current_time = 0, step_number = 0, step_size = c, tc_final_time = 1,
        output_interval = 0.1, max_steps = 1, output_step_number = 0\<rparr>"
    and "solutions s = 1"
  shows "time_control (advance_and_integrate (limit_external t) s) =
       \<lparr>current_time = c, step_number = 1, step_size = c, tc_final_time = 1,
        output_interval = 0.1, max_steps = 1, output_step_number = 0\<rparr>"
    and "solutions (advance_and_integrate (limit_external t) s) = (if t < c then 1000 else 1)"
  using assms
  by (simp_all add: advance_and_integrate_def Let_def advance_time_step_def limit_external_sel)

lemma analyse_and_output_limit:
  assumes "0.1 \<le> c"
    and "time_control s =
       \<lparr>current_time = c, step_number = 1, step_size = c, tc_final_time = 1,
        output_interval = 0.1, max_steps = 1, output_step_number = 0\<rparr>"
  shows "analyse_and_output (limit_external t) s
     = output_results demo_external
         (s\<lparr>calls := calls s @ [time_step_analysis_call],
            time_control :=
              \<lparr>current_time = c, step_number = 1, step_size = c, tc_final_time = 1,
               output_interval = 0.1, max_steps = 1, output_step_number = \<lfloor>c / 0.1\<rfloor>\<rparr>\<rparr>)"
  using at_tick_demo[OF assms(1), of 1 c 1 1] assms(2)
  by (simp add: analyse_and_output_def Let_def output_results_limit)

lemma time_step_limit:
  assumes c: "0.1 \<le> c"
    and tc: "time_control s =
       \<lparr>current_time = 0, step_number = 0, step_size = c, tc_final_time = 1,
        output_interval = 0.1, max_steps = 1, output_step_number = 0\<rparr>"
    and p: "parameters s = demo_parameters c True 0"
    and tr: "triangulation s = [demo_cell 1]"
    and so: "solutions s = 1"
    and fe: "first_error_val s = 1"
    and fm: "first_mangnitude_val s = 10"
  shows "\<exists>s1. time_step (limit_external t) s = Inr s1
     \<and> last_error_val s1 = (if t < c then 1000 else 1)
     \<and> first_error_val s1 = 1
     \<and> first_mangnitude_val s1 = 10
     \<and> step_number (time_control s1) = 1 \<and> max_steps (time_control s1) = 1"
proof -
  let ?s3 = "advance_and_integrate (limit_external t) s"
  let ?tc = "\<lparr>current_time = c, step_number = 1, step_size = c, tc_final_time = 1,
               output_interval = 0.1, max_steps = 1, output_step_number = \<lfloor>c / 0.1\<rfloor>\<rparr>"
  note a3 = advance_and_integrate_limit[OF tc so, of t]
  have "n_adaptive_refinements (parameters ?s3) = 0"
    by (simp add: advance_and_integrate_members p demo_parameters_sel)
  then have ad: "adapt_in_loop (limit_external t) ?s3 = Inr ?s3"
    by (rule adapt_in_loop_off)
  let ?s6 = "?s3\<lparr>calls := calls ?s3 @ [time_step_analysis_call], time_control := ?tc\<rparr>"
  have ao: "analyse_and_output (limit_external t) ?s3 = output_results demo_external ?s6"
    by (rule analyse_and_output_limit[OF c a3(1)])
  have ts: "time_step (limit_external t) s = Inr (output_results demo_external ?s6)"
    by (simp add: time_step_def ad ao)
  have sol: "solutions ?s6 = (if t < c then 1000 else 1)"
    by (simp add: a3(2))
  have h: "triangulation ?s6 = [demo_cell 1]" "parameters ?s6 = demo_parameters c True 0"
    "first_error_val ?s6 = (if True then 1 else - 1)"
    "first_mangnitude_val ?s6 = (if True then 10 else 0)"
    "0 \<le> solutions ?s6"
    using a3(2) by (simp_all add: advance_and_integrate_members p tr fe fm)
  note o = output_results_demo_later[OF h]
  have "last_error_val (output_results demo_external ?s6) = (if t < c then 1000 else 1)"
    using o(1) sol by simp
  moreover have "step_number (time_control (output_results demo_external ?s6)) = 1"
    "max_steps (time_control (output_results demo_external ?s6)) = 1"
    using o(5) o(6) by simp_all
  ultimately show ?thesis using ts o(2) o(3) by simp
qed

lemma run_limit:
  assumes "0.1 \<le> c"
  shows "\<exists>s. run (limit_external t)
               (LinearizedEulerProblem_ctor (limit_external t) 2 (demo_parameters c True 0))
             = Inr s
     \<and> last_error_val s = (if t < c then 1000 else 1)
     \<and> first_error_val s = 1
     \<and> first_mangnitude_val s = 10"
proof -
  from assms have "0 < c" by simp
  note rs = run_setup_limit[OF this, of t True]
  let ?s0 = "output_results demo_external (demo_problem c True)"
  have f: "time_control ?s0 =
       \<lparr>current_time = 0, step_number = 0, step_size = c, tc_final_time = 1,
        output_interval = 0.1, max_steps = 1, output_step_number = 0\<rparr>"
    "parameters ?s0 = demo_parameters c True 0" "triangulation ?s0 = [demo_cell 1]"
    "solutions ?s0 = 1" "first_error_val ?s0 = 1" "first_mangnitude_val ?s0 = 10"
    by (simp_all add: first_output_demo demo_problem_sel)
  have nd: "\<not> done_tc (time_control ?s0)"
    by (simp add: f(1) done_tc_def)
  from time_step_limit[OF assms f, of t] obtain s1 where
    st: "time_step (limit_external t) ?s0 = Inr s1"
    and q: "last_error_val s1 = (if t < c then 1000 else 1)"
      "first_error_val s1 = 1" "first_mangnitude_val s1 = 10"
    and e: "step_number (time_control s1) = 1" "max_steps (time_control s1) = 1"
    by blast
  have "done_tc (time_control s1)"
    using e by (simp add: done_tc_def)
  then have "time_loop (limit_external t) s1 = Inr s1"
    by (rule time_loop_done)
  with st nd have "time_loop (limit_external t) ?s0 = Inr s1"
    by (subst time_loop.simps) simp
  with rs q show ?thesis
    by (simp add: run_def output_results_limit)
qed

lemma simu_was_stable_limit:
  assumes "0.1 \<le> c" and "0 \<le> t"
  shows "simu_was_stable (limit_external t) (demo_parameters c True 0) = Inr (c \<le> t)"
proof -
  from run_limit[OF assms(1), of t] obtain s where
    r: "run (limit_external t)
          (LinearizedEulerProblem_ctor (limit_external t) 2 (demo_parameters c True 0)) = Inr s"
    and v: "last_error_val s = (if t < c then 1000 else 1)" "first_error_val s = 1"
    "first_mangnitude_val s = 10"
    by auto
  have "cfl_stable s = (c \<le> t)"
    using v by (simp add: cfl_stable_def)
  with r show ?thesis
    by (simp add: simu_was_stable_def demo_parameters_sel)
qed

subsection \<open>The stability verdict\<close>

text \<open>
  Claim C1. \<^verbatim>\<open>cfl_stable()\<close> returns the negation of the disjunction
  \<open>last_error > 100 * first_error \<or> last_error > 1.5 * first_magnitude\<close>, so the verdict
  is "divergent" exactly when the disjunction holds. For the observation sequence
  1, 2, 150 of the density error with the density magnitude 10, fed to the output
  evaluation of a freshly constructed problem of a stability analysis, the verdict is
  stable after the first and the second observation and divergent after the third.
\<close>

theorem cfl_stable_verdict:
  "(\<not> cfl_stable s)
     = (last_error_val s > 100 * first_error_val s
        \<or> last_error_val s > 1.5 * first_mangnitude_val s)
   \<and> cfl_stable (observe 1 (demo_problem 0.5 True))
   \<and> cfl_stable (observe 2 (observe 1 (demo_problem 0.5 True)))
   \<and> \<not> cfl_stable (observe 150 (observe 2 (observe 1 (demo_problem 0.5 True))))
   \<and> first_mangnitude_val (observe 150 (observe 2 (observe 1 (demo_problem 0.5 True)))) = 10
   \<and> first_error_val (observe 150 (observe 2 (observe 1 (demo_problem 0.5 True)))) = 1
   \<and> last_error_val (observe 150 (observe 2 (observe 1 (demo_problem 0.5 True)))) = 150"
  by (simp add: cfl_stable_def observe_def output_results_def l2_norm_one_cell
      density_mag_of_def solution_norm_rho_of_def demo_problem_def demo_cell_def
      demo_external_def demo_parameters_def exact_solution_def)

subsection \<open>Divergence ends the run\<close>



subsection \<open>The life cycle of the stability record\<close>

text \<open>
  Claim C6, amended. In every run of a stability analysis \<open>first_error\<close> and
  \<open>first_magnitude\<close> at the end of the run are the two norms measured at the first
  output evaluation, where \<open>first_error\<close> still held the sentinel \<open>-1\<close> of the
  constructor; in a run without the analysis they keep the sentinel and the
  indeterminate initial value. An output evaluation assigns the two exactly when the
  analysis is on and \<open>first_error\<close> is negative, which the assigned value, a norm,
  never is; and every output evaluation assigns \<open>last_error\<close>.
\<close>

theorem stability_record_lifecycle:
  assumes "run ext (LinearizedEulerProblem_ctor ext d p) = Inr s_end"
  shows "(\<exists>s0. run_setup ext (LinearizedEulerProblem_ctor ext d p) = Inr s0
            \<and> first_error_val s0 = - 1
            \<and> (if cfl_stability_analysis p
                then first_error_val s_end = solution_norm_rho_of ext s0
                   \<and> first_mangnitude_val s_end = density_mag_of ext s0
                else first_error_val s_end = - 1
                   \<and> first_mangnitude_val s_end = indeterminate_first_mangnitude_val ext))
    \<and> (\<forall>t. first_error_val (output_results ext t)
              = (if cfl_stability_analysis (parameters t) \<and> first_error_val t < 0
                 then solution_norm_rho_of ext t else first_error_val t)
           \<and> first_mangnitude_val (output_results ext t)
              = (if cfl_stability_analysis (parameters t) \<and> first_error_val t < 0
                 then density_mag_of ext t else first_mangnitude_val t)
           \<and> last_error_val (output_results ext t) = solution_norm_rho_of ext t
           \<and> 0 \<le> solution_norm_rho_of ext t)"
proof -
  from assms obtain s0 where rs: "run_setup ext (LinearizedEulerProblem_ctor ext d p) = Inr s0"
    and tl: "time_loop ext (output_results ext s0) = Inr s_end"
    by (rule run_cases)
  note m = run_setup_members[OF rs, unfolded ctor_members]
  from m have p: "parameters s0 = p" and f: "first_error_val s0 = - 1"
    and g: "first_mangnitude_val s0 = indeterminate_first_mangnitude_val ext"
    by simp_all
  let ?t = "output_results ext s0"
  have latched: "\<not> (cfl_stability_analysis (parameters ?t) \<and> first_error_val ?t < 0)"
    using solution_norm_rho_nonneg[of ext s0] p f
    by (simp add: output_results_members output_results_first_error)
  note e = time_loop_latched[OF tl latched]
  have "if cfl_stability_analysis p
        then first_error_val s_end = solution_norm_rho_of ext s0
           \<and> first_mangnitude_val s_end = density_mag_of ext s0
        else first_error_val s_end = - 1
           \<and> first_mangnitude_val s_end = indeterminate_first_mangnitude_val ext"
    using e p f g by (simp add: output_results_first_error output_results_first_magnitude)
  with rs f have first: "\<exists>s0. run_setup ext (LinearizedEulerProblem_ctor ext d p) = Inr s0
            \<and> first_error_val s0 = - 1
            \<and> (if cfl_stability_analysis p
                then first_error_val s_end = solution_norm_rho_of ext s0
                   \<and> first_mangnitude_val s_end = density_mag_of ext s0
                else first_error_val s_end = - 1
                   \<and> first_mangnitude_val s_end = indeterminate_first_mangnitude_val ext)"
    by blast
  show ?thesis
    using first
    by (simp add: output_results_first_error output_results_first_magnitude
        output_results_members solution_norm_rho_nonneg)
qed

theorem stability_record_lifecycle_witness:
  "\<exists>s_end. run demo_external (LinearizedEulerProblem_ctor demo_external 2 (demo_parameters 0.5 True 0))
              = Inr s_end
     \<and> run_setup demo_external (LinearizedEulerProblem_ctor demo_external 2 (demo_parameters 0.5 True 0))
              = Inr (demo_problem 0.5 True)
     \<and> first_error_val (demo_problem 0.5 True) = - 1
     \<and> first_error_val s_end = solution_norm_rho_of demo_external (demo_problem 0.5 True)
     \<and> first_mangnitude_val s_end = density_mag_of demo_external (demo_problem 0.5 True)
     \<and> first_error_val s_end = 1 \<and> first_mangnitude_val s_end = 10 \<and> last_error_val s_end = 1000"
proof -
  from run_demo[of "0.5" True] obtain s_end where
    r: "run demo_external (LinearizedEulerProblem_ctor demo_external 2 (demo_parameters 0.5 True 0))
          = Inr s_end"
    and v: "first_error_val s_end = 1" "first_mangnitude_val s_end = 10"
      "last_error_val s_end = 1000"
    by auto
  have rs: "run_setup demo_external
              (LinearizedEulerProblem_ctor demo_external 2 (demo_parameters 0.5 True 0))
            = Inr (demo_problem 0.5 True)"
    by (rule run_setup_demo) simp
  from stability_record_lifecycle[OF r] rs
  have "first_error_val s_end = solution_norm_rho_of demo_external (demo_problem 0.5 True)
      \<and> first_mangnitude_val s_end = density_mag_of demo_external (demo_problem 0.5 True)"
    by (simp add: demo_parameters_sel)
  with r rs v show ?thesis
    by (simp add: demo_problem_sel)
qed

text \<open>
  The claim as stated fails for a run without the stability analysis: the run makes
  two output evaluations (\<open>last_error\<close> ends as 1000), the first of them measures
  the error 1, and \<open>first_error\<close> is \<open>-1\<close> after it and at the end of the run.
\<close>

theorem first_error_never_set_without_analysis:
  "run_setup demo_external (LinearizedEulerProblem_ctor demo_external 2 (demo_parameters 0.5 False 0))
     = Inr (demo_problem 0.5 False)
   \<and> solution_norm_rho_of demo_external (demo_problem 0.5 False) = 1
   \<and> first_error_val (output_results demo_external (demo_problem 0.5 False)) = - 1
   \<and> map_sum id first_error_val
        (run demo_external (LinearizedEulerProblem_ctor demo_external 2 (demo_parameters 0.5 False 0)))
       = Inr (- 1)
   \<and> map_sum id last_error_val
        (run demo_external (LinearizedEulerProblem_ctor demo_external 2 (demo_parameters 0.5 False 0)))
       = Inr 1000"
proof -
  from run_demo[of "0.5" False] obtain s_end where
    r: "run demo_external (LinearizedEulerProblem_ctor demo_external 2 (demo_parameters 0.5 False 0))
          = Inr s_end"
    and v: "first_error_val s_end = - 1" "last_error_val s_end = 1000"
    by auto
  have rs: "run_setup demo_external
              (LinearizedEulerProblem_ctor demo_external 2 (demo_parameters 0.5 False 0))
            = Inr (demo_problem 0.5 False)"
    by (rule run_setup_demo) simp
  from r v rs show ?thesis
    by (simp add: first_output_demo demo_problem_sel norms_demo)
qed

subsection \<open>The first output evaluation\<close>

text \<open>
  Claim C10, amended. Let \<open>s\<close> be the state in which \<^verbatim>\<open>run()\<close> reaches the output
  of the initial fields. In a stability analysis the evaluation latches
  \<open>first_error\<close> from \<open>last_error\<close>, so the two are equal, the branch
  \<open>last_error > 100 * first_error\<close> does not fire, and the time is set to
  \<open>final_time\<close> exactly when \<open>first_error > 1.5 * first_magnitude\<close>; the run then
  returns this state without a time step. Without the stability analysis
  \<open>first_error\<close> keeps its sentinel \<open>-1\<close> and the time control is left as it is,
  at this evaluation and at every output evaluation on these parameters, so that none
  of them ends the run, and \<open>first_error\<close> still is \<open>-1\<close> when the run returns.
\<close>

theorem first_output_evaluation:
  assumes "run_setup ext (LinearizedEulerProblem_ctor ext d p) = Inr s"
  shows "if cfl_stability_analysis p
         then last_error_val (output_results ext s) = first_error_val (output_results ext s)
            \<and> first_error_val (output_results ext s) = solution_norm_rho_of ext s
            \<and> first_mangnitude_val (output_results ext s) = density_mag_of ext s
            \<and> \<not> last_error_val (output_results ext s)
                   > 100 * first_error_val (output_results ext s)
            \<and> time_control (output_results ext s)
                = (if first_error_val (output_results ext s)
                        > 1.5 * first_mangnitude_val (output_results ext s)
                   then set_time (final_time p) (time_control s)
                   else time_control s)
            \<and> (first_error_val (output_results ext s)
                   > 1.5 * first_mangnitude_val (output_results ext s)
                 \<longrightarrow> run ext (LinearizedEulerProblem_ctor ext d p) = Inr (output_results ext s))
         else first_error_val (output_results ext s) = - 1
            \<and> time_control (output_results ext s) = time_control s
            \<and> (\<forall>t. parameters t = p \<longrightarrow>
                   first_error_val (output_results ext t) = first_error_val t
                 \<and> time_control (output_results ext t) = time_control t)
            \<and> (\<forall>s_end. run ext (LinearizedEulerProblem_ctor ext d p) = Inr s_end \<longrightarrow>
                   first_error_val s_end = - 1)"
proof -
  note m = run_setup_members[OF assms, unfolded ctor_members]
  from m have p: "parameters s = p" and f: "first_error_val s = - 1"
    and ft: "tc_final_time (time_control s) = final_time p"
    by simp_all
  show ?thesis
  proof (cases "cfl_stability_analysis p")
    case False
    have every: "\<forall>t. parameters t = p \<longrightarrow>
                   first_error_val (output_results ext t) = first_error_val t
                 \<and> time_control (output_results ext t) = time_control t"
      using False by (simp add: output_results_first_error output_results_time_control)
    have "first_error_val s_end = - 1"
      if r: "run ext (LinearizedEulerProblem_ctor ext d p) = Inr s_end" for s_end
    proof -
      from r assms have tl: "time_loop ext (output_results ext s) = Inr s_end"
        by (auto simp: run_def)
      have "\<not> (cfl_stability_analysis (parameters (output_results ext s))
                \<and> first_error_val (output_results ext s) < 0)"
        using False p by (simp add: output_results_members)
      from time_loop_latched[OF tl this] every p f show ?thesis
        by simp
    qed
    with every False show ?thesis
      using p f by (simp add: output_results_first_error output_results_time_control)
  next
    case True
    let ?t = "output_results ext s"
    have l: "last_error_val ?t = solution_norm_rho_of ext s"
      by (simp add: output_results_members)
    have fe: "first_error_val ?t = solution_norm_rho_of ext s"
      using True p f by (simp add: output_results_first_error)
    have fm: "first_mangnitude_val ?t = density_mag_of ext s"
      using True p f by (simp add: output_results_first_magnitude)
    have nb: "\<not> last_error_val ?t > 100 * first_error_val ?t"
      using solution_norm_rho_nonneg[of ext s] by (simp add: l fe)
    have cs: "cfl_stable ?t = (\<not> first_error_val ?t > 1.5 * first_mangnitude_val ?t)"
      using nb by (simp add: cfl_stable_def l fe)
    have tc: "time_control ?t
                = (if first_error_val ?t > 1.5 * first_mangnitude_val ?t
                   then set_time (final_time p) (time_control s)
                   else time_control s)"
      using True p cs by (simp add: output_results_time_control)
    have r: "run ext (LinearizedEulerProblem_ctor ext d p) = Inr ?t"
      if "first_error_val ?t > 1.5 * first_mangnitude_val ?t"
    proof -
      from that tc ft have "done_tc (time_control ?t)"
        by (simp add: done_tc_def set_time_def)
      from time_loop_done[OF this, of ext] assms show ?thesis
        by (simp add: run_def)
    qed
    from True l fe fm nb tc r show ?thesis by simp
  qed
qed

theorem first_output_evaluation_witness:
  "run_setup demo_external (LinearizedEulerProblem_ctor demo_external 2 (demo_parameters 0.5 True 0))
     = Inr (demo_problem 0.5 True)
   \<and> cfl_stability_analysis (demo_parameters 0.5 True 0)
   \<and> last_error_val (output_results demo_external (demo_problem 0.5 True))
       = first_error_val (output_results demo_external (demo_problem 0.5 True))
   \<and> first_error_val (output_results demo_external (demo_problem 0.5 True)) = 1
   \<and> first_mangnitude_val (output_results demo_external (demo_problem 0.5 True)) = 10
   \<and> time_control (output_results demo_external (demo_problem 0.5 True))
       = time_control (demo_problem 0.5 True)
   \<and> run_setup demo_external (LinearizedEulerProblem_ctor demo_external 2 (demo_parameters 0.5 False 0))
       = Inr (demo_problem 0.5 False)
   \<and> \<not> cfl_stability_analysis (demo_parameters 0.5 False 0)
   \<and> time_control (output_results demo_external (demo_problem 0.5 False))
       = time_control (demo_problem 0.5 False)
   \<and> (\<exists>s_end. run demo_external
                  (LinearizedEulerProblem_ctor demo_external 2 (demo_parameters 0.5 False 0))
                = Inr s_end
              \<and> first_error_val s_end = - 1)"
proof -
  have r: "run_setup demo_external
             (LinearizedEulerProblem_ctor demo_external 2 (demo_parameters 0.5 True 0))
           = Inr (demo_problem 0.5 True)"
    by (rule run_setup_demo) simp
  have n: "solution_norm_rho_of demo_external (demo_problem 0.5 True) = 1"
    "density_mag_of demo_external (demo_problem 0.5 True) = 10"
    by (simp_all add: norms_demo demo_problem_sel)
  from first_output_evaluation[OF r] r n have on:
    "run_setup demo_external (LinearizedEulerProblem_ctor demo_external 2 (demo_parameters 0.5 True 0))
       = Inr (demo_problem 0.5 True)
     \<and> cfl_stability_analysis (demo_parameters 0.5 True 0)
     \<and> last_error_val (output_results demo_external (demo_problem 0.5 True))
         = first_error_val (output_results demo_external (demo_problem 0.5 True))
     \<and> first_error_val (output_results demo_external (demo_problem 0.5 True)) = 1
     \<and> first_mangnitude_val (output_results demo_external (demo_problem 0.5 True)) = 10
     \<and> time_control (output_results demo_external (demo_problem 0.5 True))
         = time_control (demo_problem 0.5 True)"
    by (simp add: demo_parameters_sel)
  have r': "run_setup demo_external
             (LinearizedEulerProblem_ctor demo_external 2 (demo_parameters 0.5 False 0))
           = Inr (demo_problem 0.5 False)"
    by (rule run_setup_demo) simp
  have a: "\<not> cfl_stability_analysis (demo_parameters 0.5 False 0)"
    by (simp add: demo_parameters_sel)
  from run_demo[of "0.5" False] obtain s_end where
    e: "run demo_external (LinearizedEulerProblem_ctor demo_external 2 (demo_parameters 0.5 False 0))
          = Inr s_end"
    by auto
  from first_output_evaluation[OF r'] a have
    "time_control (output_results demo_external (demo_problem 0.5 False))
       = time_control (demo_problem 0.5 False)"
    and "\<forall>s_end. run demo_external
                  (LinearizedEulerProblem_ctor demo_external 2 (demo_parameters 0.5 False 0))
                = Inr s_end \<longrightarrow> first_error_val s_end = - 1"
    by simp_all
  with e r' a on show ?thesis by blast
qed

text \<open>
  The claim as stated fails for a run without the stability analysis: after the first
  output evaluation \<open>last_error\<close> is 1 and \<open>first_error\<close> is still \<open>-1\<close>.
\<close>

theorem first_output_without_analysis:
  "run_setup demo_external (LinearizedEulerProblem_ctor demo_external 2 (demo_parameters 0.5 False 0))
     = Inr (demo_problem 0.5 False)
   \<and> last_error_val (output_results demo_external (demo_problem 0.5 False)) = 1
   \<and> first_error_val (output_results demo_external (demo_problem 0.5 False)) = - 1
   \<and> last_error_val (output_results demo_external (demo_problem 0.5 False))
       \<noteq> first_error_val (output_results demo_external (demo_problem 0.5 False))"
proof -
  have r: "run_setup demo_external
             (LinearizedEulerProblem_ctor demo_external 2 (demo_parameters 0.5 False 0))
           = Inr (demo_problem 0.5 False)"
    by (rule run_setup_demo) simp
  then show ?thesis
    by (simp add: first_output_demo demo_problem_sel)
qed

subsection \<open>The thresholds of the flag pass\<close>

text \<open>
  Claim C7. After the flag pass of \<^verbatim>\<open>adapt_mesh()\<close>, a cell that the rank owns (the
  loop visits these) has no refine flag if its error indicator is below
  \<open>0.1 * maximal_cellwise_error_init\<close>, and has a coarsen flag if its indicator is
  below \<open>0.05 * maximal_cellwise_error_init\<close>, whatever its flags were before; and
  when \<^verbatim>\<open>adapt_mesh()\<close> returns, the mesh it leaves is the one rebuilt from the flags of
  this pass, after their smoothing. The
  loop of \<open>n + 1\<close> pre-refinement passes is \<open>n + 1\<close> passes without any assignment
  of \<open>maximal_cellwise_error_init\<close> followed by one assignment, and the assigned
  value is the largest absolute value of the error indicator over all active cells. In
  a run with adaptive refinements the passes run with the sentinel \<open>-1\<close> of the
  constructor, and the value at the end of the run is the one assigned after the last
  pass.
\<close>

theorem adaptation_thresholds:
  "(\<forall>i < length (triangulation s). is_locally_owned (triangulation s ! i) \<longrightarrow>
       (error_per_cell_of ext s ! i < 0.1 * maximal_cellwise_error_init s
          \<longrightarrow> \<not> refine_flag_set (adapt_mesh_flags ext s ! i))
     \<and> (error_per_cell_of ext s ! i < 0.05 * maximal_cellwise_error_init s
          \<longrightarrow> coarsen_flag_set (adapt_mesh_flags ext s ! i)))
   \<and> (adapt_mesh ext s = Inr s'
        \<longrightarrow> triangulation s'
            = execute_coarsening_and_refinement ext
                (set_flags (prepare_coarsening_and_refinement ext (adapt_mesh_flags ext s))
                   (adapt_mesh_flags ext s)))
   \<and> initial_refinement ext (Suc n) s0
       = (case refinement_passes ext (Suc n) s0 of
            Inl e \<Rightarrow> Inl e
          | Inr t \<Rightarrow> Inr (capture_maximal_error ext t))
   \<and> maximal_cellwise_error_init (capture_maximal_error ext t)
       = Max (insert 0
           ((\<lambda>i. \<bar>estimate_error ext (solutions t) (tmp_solutions t) (triangulation t) i\<bar>)
              ` {..<length (triangulation t)}))
   \<and> (run ext (LinearizedEulerProblem_ctor ext d p) = Inr s_end
        \<and> 0 < n_adaptive_refinements p
      \<longrightarrow> (\<exists>s1 t1. run_init ext (LinearizedEulerProblem_ctor ext d p) = Inr s1
            \<and> refinement_passes ext (n_adaptive_refinements p) s1 = Inr t1
            \<and> maximal_cellwise_error_init t1 = - 1
            \<and> maximal_cellwise_error_init s_end
                = maximal_cellwise_error_init (capture_maximal_error ext t1)))"
proof -
  have flags: "\<forall>i < length (triangulation s). is_locally_owned (triangulation s ! i) \<longrightarrow>
       (error_per_cell_of ext s ! i < 0.1 * maximal_cellwise_error_init s
          \<longrightarrow> \<not> refine_flag_set (adapt_mesh_flags ext s ! i))
     \<and> (error_per_cell_of ext s ! i < 0.05 * maximal_cellwise_error_init s
          \<longrightarrow> coarsen_flag_set (adapt_mesh_flags ext s ! i))"
    by (simp add: adapt_mesh_flags_nth adjust_flags_refine adjust_flags_coarsen)
  have once: "\<exists>s1 t1. run_init ext (LinearizedEulerProblem_ctor ext d p) = Inr s1
            \<and> refinement_passes ext (n_adaptive_refinements p) s1 = Inr t1
            \<and> maximal_cellwise_error_init t1 = - 1
            \<and> maximal_cellwise_error_init s_end
                = maximal_cellwise_error_init (capture_maximal_error ext t1)"
    if r: "run ext (LinearizedEulerProblem_ctor ext d p) = Inr s_end"
      and k: "0 < n_adaptive_refinements p"
  proof -
    let ?c = "LinearizedEulerProblem_ctor ext d p"
    from r obtain s2 where rs: "run_setup ext ?c = Inr s2"
      and tl: "time_loop ext (output_results ext s2) = Inr s_end"
      by (rule run_cases)
    from rs obtain s1 where ri: "run_init ext ?c = Inr s1"
      and ir: "initial_refinement ext (n_adaptive_refinements (parameters ?c)) s1 = Inr s2"
      by (rule run_setup_cases)
    from k obtain m where m: "n_adaptive_refinements p = Suc m"
      by (cases "n_adaptive_refinements p") simp_all
    from ir have "initial_refinement ext (Suc m) s1 = Inr s2"
      by (simp add: ctor_members m)
    then obtain t1 where rp: "refinement_passes ext (Suc m) s1 = Inr t1"
      and s2: "s2 = capture_maximal_error ext t1"
      unfolding initial_refinement_passes by (auto split: sum.splits)
    from refinement_passes_members[OF rp] run_init_members[OF ri]
    have "maximal_cellwise_error_init t1 = - 1"
      by (simp add: ctor_members)
    moreover from time_loop_members[OF tl]
    have "maximal_cellwise_error_init s_end = maximal_cellwise_error_init s2"
      by (simp add: output_results_members)
    ultimately show ?thesis
      using ri rp s2 m by auto
  qed
  from once have once': "run ext (LinearizedEulerProblem_ctor ext d p) = Inr s_end
        \<and> 0 < n_adaptive_refinements p
      \<longrightarrow> (\<exists>s1 t1. run_init ext (LinearizedEulerProblem_ctor ext d p) = Inr s1
            \<and> refinement_passes ext (n_adaptive_refinements p) s1 = Inr t1
            \<and> maximal_cellwise_error_init t1 = - 1
            \<and> maximal_cellwise_error_init s_end
                = maximal_cellwise_error_init (capture_maximal_error ext t1))"
    by blast
  have link: "adapt_mesh ext s = Inr s'
        \<longrightarrow> triangulation s'
            = execute_coarsening_and_refinement ext
                (set_flags (prepare_coarsening_and_refinement ext (adapt_mesh_flags ext s))
                   (adapt_mesh_flags ext s))"
    by (intro impI) (rule adapt_mesh_triangulation)
  show ?thesis
    by (intro conjI) (rule flags, rule link, rule initial_refinement_passes,
        rule capture_maximal_error_value, rule once')
qed

lemma adaptive_problem_sel:
  "dim adaptive_problem = 2"
  "solutions adaptive_problem = 1"
  "tmp_solutions adaptive_problem = 1"
  "parameters adaptive_problem = demo_parameters 0.2 True 1"
  "triangulation adaptive_problem = [demo_cell 1]"
  "maximal_cellwise_error_init adaptive_problem = 1"
  "calls adaptive_problem = []"
  "time_control adaptive_problem =
     \<lparr>current_time = 0.2, step_number = 1, step_size = 0.2, tc_final_time = 1,
      output_interval = 0.1, max_steps = 1, output_step_number = 0\<rparr>"
  by (simp_all add: adaptive_problem_def)

lemma adapt_mesh_flags_cong:
  "solutions s = solutions s' \<Longrightarrow> tmp_solutions s = tmp_solutions s' \<Longrightarrow>
   triangulation s = triangulation s' \<Longrightarrow> parameters s = parameters s' \<Longrightarrow>
   maximal_cellwise_error_init s = maximal_cellwise_error_init s' \<Longrightarrow>
   adapt_mesh_flags ext s = adapt_mesh_flags ext s'"
  by (simp add: adapt_mesh_flags_def error_per_cell_of_def)

lemma adapt_mesh_flags_adaptive:
  "adapt_mesh_flags demo_external adaptive_problem = [(demo_cell 1)\<lparr>coarsen_flag_set := True\<rparr>]"
  by (simp add: adapt_mesh_flags_def Let_def flag_adjustment_pass_def
      set_refinement_indicators_def set_flags_def error_per_cell_of_def adjust_flags_def
      adaptive_problem_sel demo_cell_def demo_external_sel demo_parameters_sel)

lemma prepared_mesh_adaptive:
  "prepared_mesh demo_external adaptive_problem = [(demo_cell 1)\<lparr>coarsen_flag_set := True\<rparr>]"
  by (simp add: prepared_mesh_def adapt_mesh_flags_adaptive set_flags_def demo_external_sel)

lemma rebuilt_mesh_adaptive:
  "rebuilt_mesh demo_external adaptive_problem = [demo_cell 1]"
  by (simp add: rebuilt_mesh_def prepared_mesh_adaptive demo_external_sel demo_cell_def)

theorem adaptation_thresholds_witness:
  "0 < length (triangulation adaptive_problem)
   \<and> is_locally_owned (triangulation adaptive_problem ! 0)
   \<and> error_per_cell_of demo_external adaptive_problem ! 0
       < 0.05 * maximal_cellwise_error_init adaptive_problem
   \<and> \<not> refine_flag_set (adapt_mesh_flags demo_external adaptive_problem ! 0)
   \<and> coarsen_flag_set (adapt_mesh_flags demo_external adaptive_problem ! 0)
   \<and> (\<exists>s'. adapt_mesh demo_external adaptive_problem = Inr s'
        \<and> triangulation s'
            = execute_coarsening_and_refinement demo_external
                [(demo_cell 1)\<lparr>coarsen_flag_set := True\<rparr>])
   \<and> 0 < n_adaptive_refinements (demo_parameters 0.2 True 1)
   \<and> (\<exists>s_end s1 t1.
         run demo_external (LinearizedEulerProblem_ctor demo_external 2 (demo_parameters 0.2 True 1))
           = Inr s_end
       \<and> run_init demo_external (LinearizedEulerProblem_ctor demo_external 2 (demo_parameters 0.2 True 1))
           = Inr s1
       \<and> refinement_passes demo_external 1 s1 = Inr t1
       \<and> maximal_cellwise_error_init t1 = - 1
       \<and> maximal_cellwise_error_init s_end
           = maximal_cellwise_error_init (capture_maximal_error demo_external t1)
       \<and> maximal_cellwise_error_init s_end = 1)"
proof -
  from run_adaptive_demo[of "0.2" True] obtain s_end where
    r: "run demo_external (LinearizedEulerProblem_ctor demo_external 2 (demo_parameters 0.2 True 1))
          = Inr s_end"
    and mx: "maximal_cellwise_error_init s_end = 1"
    by auto
  have k: "0 < n_adaptive_refinements (demo_parameters 0.2 True 1)"
    "n_adaptive_refinements (demo_parameters 0.2 True 1) = 1"
    by (simp_all add: demo_parameters_sel)
  have h: "0 < length (triangulation adaptive_problem)"
    "is_locally_owned (triangulation adaptive_problem ! 0)"
    "error_per_cell_of demo_external adaptive_problem ! 0
       < 0.1 * maximal_cellwise_error_init adaptive_problem"
    "error_per_cell_of demo_external adaptive_problem ! 0
       < 0.05 * maximal_cellwise_error_init adaptive_problem"
    by (simp_all add: adaptive_problem_sel demo_cell_sel error_per_cell_of_def demo_external_sel)
  have "0 < (0.2 :: real)"
    by simp
  from adapt_mesh_demo[OF adaptive_problem_sel(5) adaptive_problem_sel(4) this adaptive_problem_sel(1)]
  obtain s' where am: "adapt_mesh demo_external adaptive_problem = Inr s'"
    by blast
  note t = adaptation_thresholds[where s = adaptive_problem and ext = demo_external
      and d = 2 and p = "demo_parameters 0.2 True 1" and s_end = s_end and s' = s']
  from t am have "triangulation s'
            = execute_coarsening_and_refinement demo_external
                (set_flags (prepare_coarsening_and_refinement demo_external
                              (adapt_mesh_flags demo_external adaptive_problem))
                   (adapt_mesh_flags demo_external adaptive_problem))"
    by blast
  then have "triangulation s'
            = execute_coarsening_and_refinement demo_external
                [(demo_cell 1)\<lparr>coarsen_flag_set := True\<rparr>]"
    using prepared_mesh_adaptive by (simp add: prepared_mesh_def)
  with am have l: "\<exists>s'. adapt_mesh demo_external adaptive_problem = Inr s'
        \<and> triangulation s'
            = execute_coarsening_and_refinement demo_external
                [(demo_cell 1)\<lparr>coarsen_flag_set := True\<rparr>]"
    by blast
  from t h have f: "\<not> refine_flag_set (adapt_mesh_flags demo_external adaptive_problem ! 0)"
    "coarsen_flag_set (adapt_mesh_flags demo_external adaptive_problem ! 0)"
    by blast+
  from t r k(1) obtain s1 t1 where
    "run_init demo_external (LinearizedEulerProblem_ctor demo_external 2 (demo_parameters 0.2 True 1))
       = Inr s1"
    "refinement_passes demo_external (n_adaptive_refinements (demo_parameters 0.2 True 1)) s1 = Inr t1"
    "maximal_cellwise_error_init t1 = - 1"
    "maximal_cellwise_error_init s_end
       = maximal_cellwise_error_init (capture_maximal_error demo_external t1)"
    by blast
  with r mx k(2) have "\<exists>s_end s1 t1.
         run demo_external (LinearizedEulerProblem_ctor demo_external 2 (demo_parameters 0.2 True 1))
           = Inr s_end
       \<and> run_init demo_external (LinearizedEulerProblem_ctor demo_external 2 (demo_parameters 0.2 True 1))
           = Inr s1
       \<and> refinement_passes demo_external 1 s1 = Inr t1
       \<and> maximal_cellwise_error_init t1 = - 1
       \<and> maximal_cellwise_error_init s_end
           = maximal_cellwise_error_init (capture_maximal_error demo_external t1)
       \<and> maximal_cellwise_error_init s_end = 1"
    by auto
  with h f l k(1) show ?thesis by blast
qed

subsection \<open>The level bounds of the flag pass\<close>

text \<open>
  The refine half of the bounds holds: after the flag pass no cell that the rank owns
  carries a refine flag on \<open>max_level\<close>. (The lemma
  \<open>no_refine_flag_at_max_level\<close> above.) For the coarsen flags, the first statement
  of the loop clears the flag of a cell on \<open>min_level\<close>, and the last statement sets
  it again, on any level, when the indicator is below
  \<open>0.05 * maximal_cellwise_error_init\<close>:
\<close>

lemma coarsen_flag_at_min_level:
  assumes "i < length (triangulation s)" "is_locally_owned (triangulation s ! i)"
    and "level (triangulation s ! i) = int (n_refinements (parameters s))"
    and "0 < n_adaptive_refinements (parameters s)"
  shows "coarsen_flag_set (adapt_mesh_flags ext s ! i)
         = (error_per_cell_of ext s ! i < 0.05 * maximal_cellwise_error_init s)"
  using assms by (simp add: adapt_mesh_flags_nth adjust_flags_coarsen)

text \<open>
  Claim C2 fails on the code. In the run of the concrete library with CFL number 0.2,
  one global and one adaptive refinement (\<open>min_level = 1\<close>, \<open>max_level = 2\<close>), the
  time loop calls \<^verbatim>\<open>adapt_mesh()\<close> after its first step in a state whose one cell is
  on level 1, unflagged, with error indicator 0 against the reference error 1. The flag
  pass leaves this cell, on \<open>min_level\<close>, with a coarsen flag, and with it the mesh
  goes to \<^verbatim>\<open>execute_coarsening_and_refinement\<close>. \<open>adaptive_problem\<close> is this state.
\<close>

theorem forced_coarsen_flag_at_min_level:
  "adapt_mesh_flags demo_external adaptive_problem
     = [(demo_cell 1)\<lparr>coarsen_flag_set := True\<rparr>]
   \<and> level (demo_cell 1) = int (n_refinements (parameters adaptive_problem))
   \<and> is_locally_owned (demo_cell 1)
   \<and> prepared_mesh demo_external adaptive_problem
       = [(demo_cell 1)\<lparr>coarsen_flag_set := True\<rparr>]
   \<and> (\<exists>s0. run_setup demo_external
               (LinearizedEulerProblem_ctor demo_external 2 (demo_parameters 0.2 True 1)) = Inr s0
         \<and> adapt_in_loop demo_external
               (advance_and_integrate demo_external (output_results demo_external s0))
             = adapt_mesh demo_external
                 (advance_and_integrate demo_external (output_results demo_external s0))
         \<and> adapt_mesh_flags demo_external
               (advance_and_integrate demo_external (output_results demo_external s0))
             = adapt_mesh_flags demo_external adaptive_problem)"
proof -
  have "(0::real) < 0.2" by simp
  from run_setup_adaptive_demo[OF this, of True] obtain t s0 where
    rs: "run_setup demo_external
           (LinearizedEulerProblem_ctor demo_external 2 (demo_parameters 0.2 True 1)) = Inr s0"
    and s0: "s0 = capture_maximal_error demo_external t"
    and ft: "solutions t = 1" "triangulation t = [demo_cell 1]"
    and f0: "time_control s0 =
         \<lparr>current_time = 0, step_number = 0, step_size = 0.2, tc_final_time = 1,
          output_interval = 0.1, max_steps = 1, output_step_number = 0\<rparr>"
      "parameters s0 = demo_parameters 0.2 True 1"
      "first_error_val s0 = - 1"
      "maximal_cellwise_error_init s0 = 1"
    by blast
  have g0: "triangulation s0 = [demo_cell 1]" "solutions s0 = 1"
    by (simp_all add: s0 capture_maximal_error_def ft)
  note fo = first_output_demo_fields[OF g0(1) f0(2) g0(2) f0(3)]
  let ?s = "output_results demo_external s0"
  let ?s3 = "advance_and_integrate demo_external ?s"
  have tc: "time_control ?s =
       \<lparr>current_time = 0, step_number = 0, step_size = 0.2, tc_final_time = 1,
        output_interval = 0.1, max_steps = 1, output_step_number = 0\<rparr>"
    by (simp add: fo f0)
  have so: "solutions ?s = 1"
    by (simp add: output_results_members g0)
  note a3 = advance_and_integrate_demo[OF tc so]
  have f3: "solutions ?s3 = 1" "tmp_solutions ?s3 = 1" "triangulation ?s3 = [demo_cell 1]"
    "parameters ?s3 = demo_parameters 0.2 True 1" "maximal_cellwise_error_init ?s3 = 1"
    using a3(2) a3(3)
    by (simp_all add: advance_and_integrate_members output_results_members g0 f0)
  have fl: "adapt_mesh_flags demo_external ?s3 = adapt_mesh_flags demo_external adaptive_problem"
    by (rule adapt_mesh_flags_cong) (simp_all add: f3 adaptive_problem_sel)
  have al: "adapt_in_loop demo_external ?s3 = adapt_mesh demo_external ?s3"
    by (simp add: adapt_in_loop_def f3 demo_parameters_sel get_step_number_def a3(1))
  from rs al fl have "\<exists>s0. run_setup demo_external
               (LinearizedEulerProblem_ctor demo_external 2 (demo_parameters 0.2 True 1)) = Inr s0
         \<and> adapt_in_loop demo_external
               (advance_and_integrate demo_external (output_results demo_external s0))
             = adapt_mesh demo_external
                 (advance_and_integrate demo_external (output_results demo_external s0))
         \<and> adapt_mesh_flags demo_external
               (advance_and_integrate demo_external (output_results demo_external s0))
             = adapt_mesh_flags demo_external adaptive_problem"
    by blast
  then show ?thesis
    by (simp add: adapt_mesh_flags_adaptive prepared_mesh_adaptive demo_cell_sel
        adaptive_problem_sel demo_parameters_sel)
qed

subsection \<open>The order of the solution transfer\<close>

lemma make_dofs_result:
  assumes "0 < compute_time_step_size (triangulation s) (parameters s)"
  shows "make_dofs ext s
   = Inr (s\<lparr>time_control :=
              (time_control s)\<lparr>step_size := compute_time_step_size (triangulation s) (parameters s)\<rparr>,
            solutions := initialize_dof_vector ext (triangulation s),
            tmp_solutions := initialize_dof_vector ext (triangulation s),
            calls := calls s @ [distribute_dofs_call,
                       set_time_step_call (compute_time_step_size (triangulation s) (parameters s)),
                       operator_setup_call, initialize_dof_vector_call, reinit_call]\<rparr>)"
  using assms by (simp add: make_dofs_def Let_def set_time_step_def)

text \<open>
  Claim C8. Let the problem have a dimension above 1, or the library be configured
  without p4est, and let the time step computed on the rebuilt mesh be positive (else
  \<^verbatim>\<open>adapt_mesh()\<close> ends with an exception). Then \<^verbatim>\<open>adapt_mesh()\<close> returns, and the calls
  it adds are, in this order: the error estimate and the marking, the smoothing of the
  flags, the snapshot of \<^verbatim>\<open>solutions\<close> by the solution transfer, the rebuild of the
  mesh, \<^verbatim>\<open>make_dofs\<close> (DoF distribution, time step, operator set-up, resizing of the
  two vectors), the interpolation, and last \<^verbatim>\<open>set_time_step\<close> with the step size
  computed on the rebuilt mesh. None of the calls after the rebuild reads
  \<^verbatim>\<open>solutions\<close>. The state it leaves holds the rebuilt mesh, the interpolation of the
  snapshot taken before the rebuild, and the new step size in the time control.
\<close>

theorem adapt_mesh_order:
  assumes "1 < dim s \<or> \<not> deal_II_with_p4est ext"
    and "0 < compute_time_step_size (rebuilt_mesh ext s) (parameters s)"
  shows "\<exists>s'. adapt_mesh ext s = Inr s'
     \<and> calls s' = calls s @
          [estimate_error_call, refine_and_coarsen_fixed_number_call,
           prepare_coarsening_and_refinement_call,
           prepare_for_coarsening_and_refinement_call,
           execute_coarsening_and_refinement_call,
           distribute_dofs_call,
           set_time_step_call (compute_time_step_size (rebuilt_mesh ext s) (parameters s)),
           operator_setup_call, initialize_dof_vector_call, reinit_call,
           interpolate_call,
           set_time_step_call (compute_time_step_size (rebuilt_mesh ext s) (parameters s))]
     \<and> (\<forall>c \<in> set (tl (dropWhile (\<lambda>c. c \<noteq> execute_coarsening_and_refinement_call)
                            (drop (length (calls s)) (calls s')))).
           \<not> reads_solutions c)
     \<and> triangulation s' = rebuilt_mesh ext s
     \<and> solutions s' = interpolate ext (prepared_mesh ext s) (rebuilt_mesh ext s) (solutions s)
     \<and> tmp_solutions s' = initialize_dof_vector ext (rebuilt_mesh ext s)
     \<and> time_control s'
         = (time_control s)\<lparr>step_size :=
              compute_time_step_size (rebuilt_mesh ext s) (parameters s)\<rparr>"
proof -
  let ?dt = "compute_time_step_size (rebuilt_mesh ext s) (parameters s)"
  let ?s2 = "s\<lparr>triangulation := rebuilt_mesh ext s,
               calls := calls s @ [estimate_error_call, refine_and_coarsen_fixed_number_call,
                  prepare_coarsening_and_refinement_call,
                  prepare_for_coarsening_and_refinement_call,
                  execute_coarsening_and_refinement_call]\<rparr>"
  have "0 < compute_time_step_size (triangulation ?s2) (parameters ?s2)"
    using assms(2) by simp
  note md = make_dofs_result[OF this, of ext]
  let ?s' = "s\<lparr>triangulation := rebuilt_mesh ext s,
       time_control := (time_control s)\<lparr>step_size := ?dt\<rparr>,
       solutions := interpolate ext (prepared_mesh ext s) (rebuilt_mesh ext s) (solutions s),
       tmp_solutions := initialize_dof_vector ext (rebuilt_mesh ext s),
       calls := calls s @
          [estimate_error_call, refine_and_coarsen_fixed_number_call,
           prepare_coarsening_and_refinement_call,
           prepare_for_coarsening_and_refinement_call,
           execute_coarsening_and_refinement_call,
           distribute_dofs_call, set_time_step_call ?dt,
           operator_setup_call, initialize_dof_vector_call, reinit_call,
           interpolate_call, set_time_step_call ?dt]\<rparr>"
  have r: "adapt_mesh ext s = Inr ?s'"
    using assms md unfolding rebuilt_mesh_def prepared_mesh_def
    by (auto simp: adapt_mesh_def Let_def set_time_step_def)
  have "\<forall>c \<in> set (tl (dropWhile (\<lambda>c. c \<noteq> execute_coarsening_and_refinement_call)
                            (drop (length (calls s)) (calls ?s')))).
           \<not> reads_solutions c"
    by simp
  with r show ?thesis
    by (intro exI[of _ ?s']) simp
qed

theorem adapt_mesh_order_witness:
  "1 < dim adaptive_problem
   \<and> 0 < compute_time_step_size (rebuilt_mesh demo_external adaptive_problem)
           (parameters adaptive_problem)
   \<and> (\<exists>s'. adapt_mesh demo_external adaptive_problem = Inr s'
        \<and> calls s' =
          [estimate_error_call, refine_and_coarsen_fixed_number_call,
           prepare_coarsening_and_refinement_call,
           prepare_for_coarsening_and_refinement_call,
           execute_coarsening_and_refinement_call,
           distribute_dofs_call, set_time_step_call 0.2,
           operator_setup_call, initialize_dof_vector_call, reinit_call,
           interpolate_call, set_time_step_call 0.2]
        \<and> triangulation s' = [demo_cell 1]
        \<and> solutions s' = 1
        \<and> step_size (time_control s') = 0.2)"
proof -
  have a: "1 < dim adaptive_problem"
    by (simp add: adaptive_problem_sel)
  have dt: "compute_time_step_size (rebuilt_mesh demo_external adaptive_problem)
              (parameters adaptive_problem) = 0.2"
    by (simp add: rebuilt_mesh_adaptive adaptive_problem_sel compute_time_step_size_demo)
  then have b: "0 < compute_time_step_size (rebuilt_mesh demo_external adaptive_problem)
                  (parameters adaptive_problem)"
    by simp
  from adapt_mesh_order[of adaptive_problem demo_external, OF disjI1, OF a b]
  obtain s' where "adapt_mesh demo_external adaptive_problem = Inr s'"
    and "calls s' = calls adaptive_problem @
          [estimate_error_call, refine_and_coarsen_fixed_number_call,
           prepare_coarsening_and_refinement_call,
           prepare_for_coarsening_and_refinement_call,
           execute_coarsening_and_refinement_call,
           distribute_dofs_call,
           set_time_step_call (compute_time_step_size (rebuilt_mesh demo_external adaptive_problem)
                                 (parameters adaptive_problem)),
           operator_setup_call, initialize_dof_vector_call, reinit_call,
           interpolate_call,
           set_time_step_call (compute_time_step_size (rebuilt_mesh demo_external adaptive_problem)
                                 (parameters adaptive_problem))]"
    and "triangulation s' = rebuilt_mesh demo_external adaptive_problem"
    and "solutions s' = interpolate demo_external (prepared_mesh demo_external adaptive_problem)
                          (rebuilt_mesh demo_external adaptive_problem) (solutions adaptive_problem)"
    and "time_control s' = (time_control adaptive_problem)\<lparr>step_size :=
              compute_time_step_size (rebuilt_mesh demo_external adaptive_problem)
                (parameters adaptive_problem)\<rparr>"
    by blast
  then have "adapt_mesh demo_external adaptive_problem = Inr s'
        \<and> calls s' =
          [estimate_error_call, refine_and_coarsen_fixed_number_call,
           prepare_coarsening_and_refinement_call,
           prepare_for_coarsening_and_refinement_call,
           execute_coarsening_and_refinement_call,
           distribute_dofs_call, set_time_step_call 0.2,
           operator_setup_call, initialize_dof_vector_call, reinit_call,
           interpolate_call, set_time_step_call 0.2]
        \<and> triangulation s' = [demo_cell 1]
        \<and> solutions s' = 1
        \<and> step_size (time_control s') = 0.2"
    by (simp add: rebuilt_mesh_adaptive adaptive_problem_sel demo_external_sel
        compute_time_step_size_demo)
  with a b show ?thesis by blast
qed

subsection \<open>The search loop\<close>

lemma cfl_loop_iterations: "cfl_loop ext i st = cfl_iterations ext [i ..< 12] st"
proof (induction ext i st rule: cfl_loop.induct)
  case (1 ext i st)
  show ?case
  proof (cases "i < 12")
    case True
    then have u: "[i ..< 12] = i # [i + 1 ..< 12]"
      by (simp add: upt_conv_Cons)
    show ?thesis
    proof (cases "cfl_iteration ext i st")
      case (Inl e)
      with True u show ?thesis
        by (simp add: cfl_loop.simps[of ext i st])
    next
      case (Inr st')
      with True u "1.IH"[OF True Inr] show ?thesis
        by (simp add: cfl_loop.simps[of ext i st])
    qed
  next
    case False
    then show ?thesis
      by (simp add: cfl_loop.simps[of ext i st])
  qed
qed

lemma cfl_iterations_append:
  "cfl_iterations ext (xs @ ys) st
   = (case cfl_iterations ext xs st of
        Inl e \<Rightarrow> Inl e
      | Inr st' \<Rightarrow> cfl_iterations ext ys st')"
  by (induction xs arbitrary: st) (simp_all split: sum.splits)

lemma cfl_iteration_cases:
  assumes "cfl_iteration ext i st = Inr st'"
  obtains verdict where "simu_was_stable ext (parameters_in st) = Inr verdict"
    and "st' = (update_bound verdict st)
           \<lparr>pcout := pcout st @ [cfl_in_iteration (cfl_test st * degree_factor (parameters_in st)) i],
            cfl_test := next_candidate (update_bound verdict st),
            parameters_in :=
              (parameters_in st)\<lparr>cfl_number := next_candidate (update_bound verdict st)\<rparr>\<rparr>"
  using assms
  by (auto simp: cfl_iteration_def Let_def update_bound_def next_candidate_def
      split: sum.splits if_splits)

text \<open>
  The caller's parameters during the search: the parameters it passed, with the current
  candidate as CFL number.
\<close>

lemma cfl_iteration_parameters:
  assumes "cfl_iteration ext i st = Inr st'"
    and "parameters_in st = p\<lparr>cfl_number := cfl_test st\<rparr>"
  shows "parameters_in st' = p\<lparr>cfl_number := cfl_test st'\<rparr>"
proof -
  from assms(1) obtain verdict where
    "st' = (update_bound verdict st)
           \<lparr>pcout := pcout st @ [cfl_in_iteration (cfl_test st * degree_factor (parameters_in st)) i],
            cfl_test := next_candidate (update_bound verdict st),
            parameters_in :=
              (parameters_in st)\<lparr>cfl_number := next_candidate (update_bound verdict st)\<rparr>\<rparr>"
    by (rule cfl_iteration_cases)
  with assms(2) show ?thesis by simp
qed

lemma cfl_iterations_parameters:
  "cfl_iterations ext is st = Inr st' \<Longrightarrow>
   parameters_in st = p\<lparr>cfl_number := cfl_test st\<rparr> \<Longrightarrow>
   parameters_in st' = p\<lparr>cfl_number := cfl_test st'\<rparr>"
proof (induction "is" arbitrary: st)
  case Nil
  then show ?case by simp
next
  case (Cons i "is")
  from Cons.prems(1) obtain st1 where a: "cfl_iteration ext i st = Inr st1"
    and b: "cfl_iterations ext is st1 = Inr st'"
    by (auto split: sum.splits)
  from Cons.IH[OF b cfl_iteration_parameters[OF a Cons.prems(2)]] show ?case .
qed

lemma cfl_search_init_parameters:
  "parameters_in (cfl_search_init p) = p\<lparr>cfl_number := cfl_test (cfl_search_init p)\<rparr>"
  by (simp add: cfl_search_init_def)

lemma run_cfl_cases:
  assumes "run_cfl_stability_analysis ext p = Inr r"
  obtains st where "cfl_loop ext 0 (cfl_search_init p) = Inr st"
    and "r = st\<lparr>pcout := pcout st @ final_report st\<rparr>"
  using assms by (auto simp: run_cfl_stability_analysis_def split: sum.splits)

text \<open>A run that returns has a degree between 1 and 5 and a named integrator.\<close>

lemma run_degree:
  assumes "run ext s = Inr s'"
  shows "1 \<le> fe_degree (parameters s) \<and> fe_degree (parameters s) \<le> 5"
proof -
  from assms obtain s0 where "run_setup ext s = Inr s0"
    by (rule run_cases)
  then obtain s1 where "run_init ext s = Inr s1"
    by (rule run_setup_cases)
  then obtain k where "select_operation (parameters s) = Inr k"
    by (auto simp: run_init_def Let_def make_grid_def split: sum.splits)
  then show ?thesis
    by (auto simp: select_operation_def split: IntegratorType.splits if_splits)
qed

lemma degree_factor_pos: "1 \<le> fe_degree p \<Longrightarrow> 0 < degree_factor p"
  by (simp add: degree_factor_def)

text \<open>The search on the concrete library, from the CFL number 0.5.\<close>

lemma demo_parameters_cfl:
  "(demo_parameters c a k)\<lparr>cfl_number := c'\<rparr> = demo_parameters c' a k"
  by (simp add: demo_parameters_def)

lemma degree_factor_demo: "degree_factor (demo_parameters c a k) = 1"
  by (simp add: degree_factor_def demo_parameters_sel)

lemma cfl_iteration_demo:
  assumes "0.1 \<le> cfl_test st"
    and "parameters_in st = demo_parameters (cfl_test st) True 0"
  shows "cfl_iteration demo_external i st
   = Inr ((update_bound (cfl_test st \<le> 0.3) st)
           \<lparr>pcout := pcout st @ [cfl_in_iteration (cfl_test st) i],
            cfl_test := next_candidate (update_bound (cfl_test st \<le> 0.3) st),
            parameters_in :=
              demo_parameters (next_candidate (update_bound (cfl_test st \<le> 0.3) st)) True 0\<rparr>)"
proof -
  have "simu_was_stable demo_external (parameters_in st) = Inr (cfl_test st \<le> 0.3)"
    using simu_was_stable_demo[OF assms(1)] assms(2) by simp
  then show ?thesis
    by (simp add: cfl_iteration_def Let_def assms(2) degree_factor_demo demo_parameters_cfl
        update_bound_def next_candidate_def)
qed

lemma upt_12: "[0 ..< 12] = [0, 1, 2, 3, 4, 5, 6, 7, 8, 9, 10, 11 :: nat]"
  by (simp add: upt_rec)

lemma upt_11: "[0 ..< 11] = [0, 1, 2, 3, 4, 5, 6, 7, 8, 9, 10 :: nat]"
  by (simp add: upt_rec)

lemma upt_12_split: "[0 ..< 12] = [0 ..< 11] @ [11 :: nat]"
  by (simp add: upt_12 upt_11)

lemma cfl_iterations_demo_11:
  "cfl_iterations demo_external [0 ..< 11] (cfl_search_init (demo_parameters 0.5 True 0))
   = Inr \<lparr>parameters_in = demo_parameters 0.3001953125 True 0,
          cfl_test = 0.3001953125,
          cfl_closest_stable = 0.3,
          cfl_closest_instable = 0.300390625,
          pcout = [cfl_in_iteration 0.5 0, cfl_in_iteration 0.4 1, cfl_in_iteration 0.3 2,
                   cfl_in_iteration 0.35 3, cfl_in_iteration 0.325 4,
                   cfl_in_iteration 0.3125 5, cfl_in_iteration 0.30625 6,
                   cfl_in_iteration 0.303125 7, cfl_in_iteration 0.3015625 8,
                   cfl_in_iteration 0.30078125 9, cfl_in_iteration 0.300390625 10]\<rparr>"
  by (simp add: upt_11 cfl_search_init_def demo_parameters_sel cfl_iteration_demo
      update_bound_def next_candidate_def normalized_above_threshold_def degree_factor_demo)

lemma cfl_iterations_demo_12:
  "cfl_iterations demo_external [0 ..< 12] (cfl_search_init (demo_parameters 0.5 True 0))
   = Inr \<lparr>parameters_in = demo_parameters 0.30009765625 True 0,
          cfl_test = 0.30009765625,
          cfl_closest_stable = 0.3,
          cfl_closest_instable = 0.3001953125,
          pcout = [cfl_in_iteration 0.5 0, cfl_in_iteration 0.4 1, cfl_in_iteration 0.3 2,
                   cfl_in_iteration 0.35 3, cfl_in_iteration 0.325 4,
                   cfl_in_iteration 0.3125 5, cfl_in_iteration 0.30625 6,
                   cfl_in_iteration 0.303125 7, cfl_in_iteration 0.3015625 8,
                   cfl_in_iteration 0.30078125 9, cfl_in_iteration 0.300390625 10,
                   cfl_in_iteration 0.3001953125 11]\<rparr>"
proof -
  have "[0 ..< 12] = [0 ..< 11] @ [11 :: nat]"
    by (simp add: upt_12 upt_11)
  then show ?thesis
    by (simp only: cfl_iterations_append cfl_iterations_demo_11)
       (simp add: cfl_iteration_demo update_bound_def next_candidate_def
          normalized_above_threshold_def degree_factor_demo)
qed

lemma run_cfl_demo:
  "run_cfl_stability_analysis demo_external (demo_parameters 0.5 True 0)
   = Inr \<lparr>parameters_in = demo_parameters 0.30009765625 True 0,
          cfl_test = 0.30009765625,
          cfl_closest_stable = 0.3,
          cfl_closest_instable = 0.3001953125,
          pcout = [cfl_in_iteration 0.5 0, cfl_in_iteration 0.4 1, cfl_in_iteration 0.3 2,
                   cfl_in_iteration 0.35 3, cfl_in_iteration 0.325 4,
                   cfl_in_iteration 0.3125 5, cfl_in_iteration 0.30625 6,
                   cfl_in_iteration 0.303125 7, cfl_in_iteration 0.3015625 8,
                   cfl_in_iteration 0.30078125 9, cfl_in_iteration 0.300390625 10,
                   cfl_in_iteration 0.3001953125 11,
                   courant_number_instable 0.3001953125,
                   courant_number_stable 0.3,
                   limit_in_the_middle 0.3001953125]\<rparr>"
  unfolding run_cfl_stability_analysis_def cfl_loop_iterations cfl_iterations_demo_12
  by (simp add: final_report_def degree_factor_demo)

text \<open>The states between the iterations.\<close>

lemma cfl_iterations_trace:
  "cfl_iterations ext is st = Inr st' \<Longrightarrow>
   \<exists>sts. length sts = length is + 1 \<and> sts ! 0 = st \<and> sts ! length is = st'
      \<and> (\<forall>k<length is. cfl_iteration ext (is ! k) (sts ! k) = Inr (sts ! (k + 1)))"
proof (induction "is" arbitrary: st)
  case Nil
  then show ?case by (intro exI[of _ "[st]"]) simp
next
  case (Cons i "is")
  from Cons.prems obtain st1 where a: "cfl_iteration ext i st = Inr st1"
    and b: "cfl_iterations ext is st1 = Inr st'"
    by (auto split: sum.splits)
  from Cons.IH[OF b] obtain sts where l: "length sts = length is + 1"
    and h: "sts ! 0 = st1" and e: "sts ! length is = st'"
    and t: "\<forall>k<length is. cfl_iteration ext (is ! k) (sts ! k) = Inr (sts ! (k + 1))"
    by blast
  have "\<forall>k<length (i # is).
          cfl_iteration ext ((i # is) ! k) ((st # sts) ! k) = Inr ((st # sts) ! (k + 1))"
  proof (intro allI impI)
    fix k
    assume k: "k < length (i # is)"
    show "cfl_iteration ext ((i # is) ! k) ((st # sts) ! k) = Inr ((st # sts) ! (k + 1))"
    proof (cases k)
      case 0
      with a h show ?thesis by simp
    next
      case (Suc j)
      with t k show ?thesis by simp
    qed
  qed
  with l h e show ?case
    by (intro exI[of _ "st # sts"]) simp
qed

text \<open>
  One iteration on parameters of dimension 2 or 3: the simulation it runs, the bound it
  updates and the candidate it computes.
\<close>

lemma simu_was_stable_run:
  assumes "simu_was_stable ext q = Inr verdict"
    and "dimension q = 2 \<or> dimension q = 3"
  shows "\<exists>we_problem. run ext (LinearizedEulerProblem_ctor ext (dimension q) q) = Inr we_problem
           \<and> verdict = cfl_stable we_problem"
  using assms by (auto simp: simu_was_stable_def split: sum.splits if_splits)

lemma normalized_above_threshold_degree:
  "1 \<le> fe_degree q \<Longrightarrow>
   normalized_above_threshold c q = (c / real (fe_degree q) powr 1.5 > 0.15)"
  using degree_factor_pos[of q] by (simp add: normalized_above_threshold_def degree_factor_def)

lemma cfl_iteration_step:
  assumes "cfl_iteration ext i st = Inr st'"
    and "dimension (parameters_in st) = 2 \<or> dimension (parameters_in st) = 3"
  shows "\<exists>we_problem.
      run ext (LinearizedEulerProblem_ctor ext (dimension (parameters_in st)) (parameters_in st))
        = Inr we_problem
    \<and> cfl_closest_stable st'
        = (if cfl_stable we_problem then cfl_test st else cfl_closest_stable st)
    \<and> cfl_closest_instable st'
        = (if cfl_stable we_problem then cfl_closest_instable st else cfl_test st)
    \<and> cfl_test st'
        = (if cfl_closest_stable st' < 0
           then (if cfl_test st / real (fe_degree (parameters_in st)) powr 1.5 > 0.15
                 then cfl_test st - 0.1
                 else cfl_test st / 3)
           else if cfl_closest_instable st' > 99
           then cfl_test st + 0.05
           else (cfl_closest_instable st' + cfl_closest_stable st') / 2)"
proof -
  from assms(1) obtain verdict where v: "simu_was_stable ext (parameters_in st) = Inr verdict"
    and st': "st' = (update_bound verdict st)
           \<lparr>pcout := pcout st @ [cfl_in_iteration (cfl_test st * degree_factor (parameters_in st)) i],
            cfl_test := next_candidate (update_bound verdict st),
            parameters_in :=
              (parameters_in st)\<lparr>cfl_number := next_candidate (update_bound verdict st)\<rparr>\<rparr>"
    by (rule cfl_iteration_cases)
  from simu_was_stable_run[OF v assms(2)] obtain we_problem where
    r: "run ext (LinearizedEulerProblem_ctor ext (dimension (parameters_in st)) (parameters_in st))
          = Inr we_problem"
    and w: "verdict = cfl_stable we_problem"
    by blast
  from run_degree[OF r] have d: "1 \<le> fe_degree (parameters_in st)"
    by (simp add: ctor_members)
  have n: "normalized_above_threshold (cfl_test st) (parameters_in st)
            = (cfl_test st / real (fe_degree (parameters_in st)) powr 1.5 > 0.15)"
    by (rule normalized_above_threshold_degree[OF d])
  have "cfl_closest_stable st'
        = (if cfl_stable we_problem then cfl_test st else cfl_closest_stable st)"
    and "cfl_closest_instable st'
        = (if cfl_stable we_problem then cfl_closest_instable st else cfl_test st)"
    and "cfl_test st'
        = (if cfl_closest_stable st' < 0
           then (if cfl_test st / real (fe_degree (parameters_in st)) powr 1.5 > 0.15
                 then cfl_test st - 0.1
                 else cfl_test st / 3)
           else if cfl_closest_instable st' > 99
           then cfl_test st + 0.05
           else (cfl_closest_instable st' + cfl_closest_stable st') / 2)"
    using n by (simp_all add: st' w update_bound_def next_candidate_def)
  with r show ?thesis by blast
qed

text \<open>
  The search on the library with the limit 100, from the CFL number 100.95: nine
  unstable runs down to 100.15, the unstable run at 100.05, the stable runs at 99.95
  and at 100.
\<close>

lemma cfl_iteration_limit:
  assumes "0.1 \<le> cfl_test st" and "0 \<le> t"
    and "parameters_in st = demo_parameters (cfl_test st) True 0"
  shows "cfl_iteration (limit_external t) i st
   = Inr ((update_bound (cfl_test st \<le> t) st)
           \<lparr>pcout := pcout st @ [cfl_in_iteration (cfl_test st) i],
            cfl_test := next_candidate (update_bound (cfl_test st \<le> t) st),
            parameters_in :=
              demo_parameters (next_candidate (update_bound (cfl_test st \<le> t) st)) True 0\<rparr>)"
proof -
  have "simu_was_stable (limit_external t) (parameters_in st) = Inr (cfl_test st \<le> t)"
    using simu_was_stable_limit[OF assms(1) assms(2)] assms(3) by simp
  then show ?thesis
    by (simp add: cfl_iteration_def Let_def assms(3) degree_factor_demo demo_parameters_cfl
        update_bound_def next_candidate_def)
qed

lemma upt_9: "[0 ..< 9] = [0, 1, 2, 3, 4, 5, 6, 7, 8 :: nat]"
  by (simp add: upt_rec)

lemma limit_search_9:
  "cfl_iterations (limit_external 100) [0 ..< 9] (cfl_search_init (demo_parameters 100.95 True 0))
   = Inr \<lparr>parameters_in = demo_parameters 100.05 True 0,
          cfl_test = 100.05,
          cfl_closest_stable = - 0.1,
          cfl_closest_instable = 100.15,
          pcout = [cfl_in_iteration 100.95 0, cfl_in_iteration 100.85 1,
                   cfl_in_iteration 100.75 2, cfl_in_iteration 100.65 3,
                   cfl_in_iteration 100.55 4, cfl_in_iteration 100.45 5,
                   cfl_in_iteration 100.35 6, cfl_in_iteration 100.25 7,
                   cfl_in_iteration 100.15 8]\<rparr>"
  by (simp add: upt_9 cfl_search_init_def demo_parameters_sel cfl_iteration_limit
      update_bound_def next_candidate_def normalized_above_threshold_def degree_factor_demo)

lemma limit_search_11:
  "cfl_iterations (limit_external 100) [0 ..< 11] (cfl_search_init (demo_parameters 100.95 True 0))
   = Inr \<lparr>parameters_in = demo_parameters 100 True 0,
          cfl_test = 100,
          cfl_closest_stable = 99.95,
          cfl_closest_instable = 100.05,
          pcout = [cfl_in_iteration 100.95 0, cfl_in_iteration 100.85 1,
                   cfl_in_iteration 100.75 2, cfl_in_iteration 100.65 3,
                   cfl_in_iteration 100.55 4, cfl_in_iteration 100.45 5,
                   cfl_in_iteration 100.35 6, cfl_in_iteration 100.25 7,
                   cfl_in_iteration 100.15 8, cfl_in_iteration 100.05 9,
                   cfl_in_iteration 99.95 10]\<rparr>"
proof -
  have "[0 ..< 11] = [0 ..< 9] @ [9, 10 :: nat]"
    by (simp add: upt_11 upt_9)
  then show ?thesis
    by (simp only: cfl_iterations_append limit_search_9)
       (simp add: cfl_iteration_limit update_bound_def next_candidate_def
          normalized_above_threshold_def degree_factor_demo)
qed

lemma limit_search_12:
  "cfl_loop (limit_external 100) 0 (cfl_search_init (demo_parameters 100.95 True 0))
   = Inr \<lparr>parameters_in = demo_parameters 100.05 True 0,
          cfl_test = 100.05,
          cfl_closest_stable = 100,
          cfl_closest_instable = 100.05,
          pcout = [cfl_in_iteration 100.95 0, cfl_in_iteration 100.85 1,
                   cfl_in_iteration 100.75 2, cfl_in_iteration 100.65 3,
                   cfl_in_iteration 100.55 4, cfl_in_iteration 100.45 5,
                   cfl_in_iteration 100.35 6, cfl_in_iteration 100.25 7,
                   cfl_in_iteration 100.15 8, cfl_in_iteration 100.05 9,
                   cfl_in_iteration 99.95 10, cfl_in_iteration 100 11]\<rparr>"
  unfolding cfl_loop_iterations
  by (simp only: upt_12_split cfl_iterations_append limit_search_11)
     (simp add: cfl_iteration_limit update_bound_def next_candidate_def
        normalized_above_threshold_def degree_factor_demo)

lemma run_cfl_limit:
  "run_cfl_stability_analysis (limit_external 100) (demo_parameters 100.95 True 0)
   = Inr \<lparr>parameters_in = demo_parameters 100.05 True 0,
          cfl_test = 100.05,
          cfl_closest_stable = 100,
          cfl_closest_instable = 100.05,
          pcout = [cfl_in_iteration 100.95 0, cfl_in_iteration 100.85 1,
                   cfl_in_iteration 100.75 2, cfl_in_iteration 100.65 3,
                   cfl_in_iteration 100.55 4, cfl_in_iteration 100.45 5,
                   cfl_in_iteration 100.35 6, cfl_in_iteration 100.25 7,
                   cfl_in_iteration 100.15 8, cfl_in_iteration 100.05 9,
                   cfl_in_iteration 99.95 10, cfl_in_iteration 100 11,
                   courant_number_instable 100.05, courant_number_stable 100,
                   limit_in_the_middle 100.05]\<rparr>"
  unfolding run_cfl_stability_analysis_def limit_search_12
  by (simp add: final_report_def degree_factor_demo)

subsection \<open>The final report of the search\<close>

lemma cfl_loop_parameters:
  assumes "cfl_loop ext 0 (cfl_search_init p) = Inr st"
  shows "parameters_in st = p\<lparr>cfl_number := cfl_test st\<rparr>"
  using assms cfl_iterations_parameters[OF _ cfl_search_init_parameters]
  by (simp add: cfl_loop_iterations)

text \<open>
  Claim C3. When the search returns, the last three lines it printed are: the value of
  \<^verbatim>\<open>cfl_closest_instable\<close> as the twelve iterations left it, times the degree to the
  power 1.5; the value of \<^verbatim>\<open>cfl_closest_stable\<close>, times the same factor; and as the
  limit in the middle the sum of \<^verbatim>\<open>cfl_closest_instable\<close> with itself, times the factor,
  divided by 2. The third line therefore repeats the first, and it is not the midpoint
  of the two bounds unless the bounds coincide.
\<close>

theorem final_report_of_search:
  assumes "run_cfl_stability_analysis ext p = Inr r"
  shows "\<exists>st. cfl_loop ext 0 (cfl_search_init p) = Inr st
     \<and> cfl_closest_instable r = cfl_closest_instable st
     \<and> cfl_closest_stable r = cfl_closest_stable st
     \<and> pcout r = pcout st @
         [courant_number_instable (cfl_closest_instable st * real (fe_degree p) powr 1.5),
          courant_number_stable (cfl_closest_stable st * real (fe_degree p) powr 1.5),
          limit_in_the_middle
            ((cfl_closest_instable st + cfl_closest_instable st) * real (fe_degree p) powr 1.5 / 2)]
     \<and> (cfl_closest_instable st + cfl_closest_instable st) * real (fe_degree p) powr 1.5 / 2
         = cfl_closest_instable st * real (fe_degree p) powr 1.5
     \<and> (fe_degree p \<noteq> 0 \<and> cfl_closest_stable st \<noteq> cfl_closest_instable st \<longrightarrow>
          (cfl_closest_instable st + cfl_closest_instable st) * real (fe_degree p) powr 1.5 / 2
          \<noteq> (cfl_closest_instable st + cfl_closest_stable st) * real (fe_degree p) powr 1.5 / 2)"
proof -
  from assms obtain st where l: "cfl_loop ext 0 (cfl_search_init p) = Inr st"
    and r: "r = st\<lparr>pcout := pcout st @ final_report st\<rparr>"
    by (rule run_cfl_cases)
  have "degree_factor (parameters_in st) = real (fe_degree p) powr 1.5"
    by (simp add: cfl_loop_parameters[OF l] degree_factor_def)
  then have "pcout r = pcout st @
         [courant_number_instable (cfl_closest_instable st * real (fe_degree p) powr 1.5),
          courant_number_stable (cfl_closest_stable st * real (fe_degree p) powr 1.5),
          limit_in_the_middle
            ((cfl_closest_instable st + cfl_closest_instable st) * real (fe_degree p) powr 1.5 / 2)]"
    by (simp add: r final_report_def)
  moreover have "fe_degree p \<noteq> 0 \<and> cfl_closest_stable st \<noteq> cfl_closest_instable st \<longrightarrow>
          (cfl_closest_instable st + cfl_closest_instable st) * real (fe_degree p) powr 1.5 / 2
          \<noteq> (cfl_closest_instable st + cfl_closest_stable st) * real (fe_degree p) powr 1.5 / 2"
    by auto
  moreover have "(cfl_closest_instable st + cfl_closest_instable st) * real (fe_degree p) powr 1.5 / 2
         = cfl_closest_instable st * real (fe_degree p) powr 1.5"
    by simp
  ultimately show ?thesis
    using l r by (intro exI[of _ st]) simp
qed

theorem final_report_of_search_witness:
  "\<exists>r st. run_cfl_stability_analysis demo_external (demo_parameters 0.5 True 0) = Inr r
     \<and> cfl_loop demo_external 0 (cfl_search_init (demo_parameters 0.5 True 0)) = Inr st
     \<and> cfl_closest_instable st = 0.3001953125
     \<and> cfl_closest_stable st = 0.3
     \<and> pcout r = pcout st @
         [courant_number_instable 0.3001953125,
          courant_number_stable 0.3,
          limit_in_the_middle 0.3001953125]"
proof -
  let ?p = "demo_parameters 0.5 True 0"
  from run_cfl_demo obtain r where r: "run_cfl_stability_analysis demo_external ?p = Inr r"
    by blast
  from final_report_of_search[OF r] obtain st where
    l: "cfl_loop demo_external 0 (cfl_search_init ?p) = Inr st"
    and o: "pcout r = pcout st @
         [courant_number_instable (cfl_closest_instable st * real (fe_degree ?p) powr 1.5),
          courant_number_stable (cfl_closest_stable st * real (fe_degree ?p) powr 1.5),
          limit_in_the_middle
            ((cfl_closest_instable st + cfl_closest_instable st) * real (fe_degree ?p) powr 1.5 / 2)]"
    by blast
  from l have b: "cfl_closest_instable st = 0.3001953125" "cfl_closest_stable st = 0.3"
    unfolding cfl_loop_iterations cfl_iterations_demo_12 by auto
  from o have "pcout r = pcout st @
         [courant_number_instable 0.3001953125,
          courant_number_stable 0.3,
          limit_in_the_middle 0.3001953125]"
    by (simp add: b demo_parameters_sel)
  with r l b show ?thesis by blast
qed

subsection \<open>The iterations of the search\<close>

text \<open>
  Claim C4, amended. Let the dimension in the parameters be 2 or 3, as \<^verbatim>\<open>main\<close> has
  checked when it starts the search, and let the search return. Then it has gone
  through exactly 12 iterations, numbered 0 to 11, from the initial locals (candidate =
  the CFL number of the parameters, stable bound -0.1, instable bound 100) through the
  states \<open>sts ! 1\<close>, ..., \<open>sts ! 12\<close>, and printed its report after the last. Iteration
  \<open>i\<close> runs one simulation, on the caller's parameters with the candidate as CFL
  number; on a stable verdict it sets the stable bound to the candidate and keeps the
  instable bound, on an unstable verdict it sets the instable bound to the candidate
  and keeps the stable bound. The next candidate: while the stable bound is negative,
  as its initial value -0.1 is, the candidate minus 0.1 if the candidate divided by
  degree to the power 1.5 exceeds 0.15, and a third of the candidate if it is at or
  below; else, while the instable bound exceeds 99, as its initial value 100 and every
  recorded bound above 99 do, the candidate plus 0.05; else the midpoint of the
  instable and the stable bound.
\<close>

theorem cfl_search_iterations:
  assumes "dimension p = 2 \<or> dimension p = 3"
    and "run_cfl_stability_analysis ext p = Inr r"
  shows "\<exists>sts. length sts = 13 \<and> sts ! 0 = cfl_search_init p
     \<and> r = (sts ! 12)\<lparr>pcout := pcout (sts ! 12) @ final_report (sts ! 12)\<rparr>
     \<and> (\<forall>i<12. cfl_iteration ext i (sts ! i) = Inr (sts ! (i + 1))
          \<and> parameters_in (sts ! i) = p\<lparr>cfl_number := cfl_test (sts ! i)\<rparr>
          \<and> (\<exists>we_problem.
                run ext (LinearizedEulerProblem_ctor ext (dimension p) (parameters_in (sts ! i)))
                  = Inr we_problem
              \<and> cfl_closest_stable (sts ! (i + 1))
                  = (if cfl_stable we_problem then cfl_test (sts ! i)
                     else cfl_closest_stable (sts ! i))
              \<and> cfl_closest_instable (sts ! (i + 1))
                  = (if cfl_stable we_problem then cfl_closest_instable (sts ! i)
                     else cfl_test (sts ! i)))
          \<and> cfl_test (sts ! (i + 1))
              = (if cfl_closest_stable (sts ! (i + 1)) < 0
                 then (if cfl_test (sts ! i) / real (fe_degree p) powr 1.5 > 0.15
                       then cfl_test (sts ! i) - 0.1
                       else cfl_test (sts ! i) / 3)
                 else if cfl_closest_instable (sts ! (i + 1)) > 99
                 then cfl_test (sts ! i) + 0.05
                 else (cfl_closest_instable (sts ! (i + 1)) + cfl_closest_stable (sts ! (i + 1))) / 2))"
proof -
  from assms(2) obtain st12 where l: "cfl_loop ext 0 (cfl_search_init p) = Inr st12"
    and r: "r = st12\<lparr>pcout := pcout st12 @ final_report st12\<rparr>"
    by (rule run_cfl_cases)
  from l have "cfl_iterations ext [0 ..< 12] (cfl_search_init p) = Inr st12"
    by (simp add: cfl_loop_iterations)
  from cfl_iterations_trace[OF this] obtain sts where len: "length sts = length [0 ..< 12 :: nat] + 1"
    and h: "sts ! 0 = cfl_search_init p"
    and e: "sts ! length [0 ..< 12 :: nat] = st12"
    and t: "\<forall>k<length [0 ..< 12 :: nat].
              cfl_iteration ext ([0 ..< 12] ! k) (sts ! k) = Inr (sts ! (k + 1))"
    by blast
  have t': "cfl_iteration ext k (sts ! k) = Inr (sts ! (k + 1))" if "k < 12" for k
    using t that by simp
  have inv: "k \<le> 12 \<Longrightarrow> parameters_in (sts ! k) = p\<lparr>cfl_number := cfl_test (sts ! k)\<rparr>" for k
  proof (induction k)
    case 0
    show ?case by (simp add: h cfl_search_init_parameters)
  next
    case (Suc k)
    then have k: "k < 12" and i: "parameters_in (sts ! k) = p\<lparr>cfl_number := cfl_test (sts ! k)\<rparr>"
      by simp_all
    from cfl_iteration_parameters[OF t'[OF k] i] show ?case by simp
  qed
  have step: "cfl_iteration ext i (sts ! i) = Inr (sts ! (i + 1))
            \<and> parameters_in (sts ! i) = p\<lparr>cfl_number := cfl_test (sts ! i)\<rparr>
            \<and> (\<exists>we_problem.
                  run ext (LinearizedEulerProblem_ctor ext (dimension p) (parameters_in (sts ! i)))
                    = Inr we_problem
                \<and> cfl_closest_stable (sts ! (i + 1))
                    = (if cfl_stable we_problem then cfl_test (sts ! i)
                       else cfl_closest_stable (sts ! i))
                \<and> cfl_closest_instable (sts ! (i + 1))
                    = (if cfl_stable we_problem then cfl_closest_instable (sts ! i)
                       else cfl_test (sts ! i)))
            \<and> cfl_test (sts ! (i + 1))
                = (if cfl_closest_stable (sts ! (i + 1)) < 0
                   then (if cfl_test (sts ! i) / real (fe_degree p) powr 1.5 > 0.15
                         then cfl_test (sts ! i) - 0.1
                         else cfl_test (sts ! i) / 3)
                   else if cfl_closest_instable (sts ! (i + 1)) > 99
                   then cfl_test (sts ! i) + 0.05
                   else (cfl_closest_instable (sts ! (i + 1)) + cfl_closest_stable (sts ! (i + 1))) / 2)"
    if i: "i < 12" for i
  proof -
    have q: "parameters_in (sts ! i) = p\<lparr>cfl_number := cfl_test (sts ! i)\<rparr>"
      using inv[of i] i by simp
    then have d: "dimension (parameters_in (sts ! i)) = dimension p"
      and f: "fe_degree (parameters_in (sts ! i)) = fe_degree p"
      by (metis Parameters.select_convs(1) Parameters.surjective Parameters.update_convs(6),
          metis Parameters.select_convs(2) Parameters.surjective Parameters.update_convs(6))
    have "dimension (parameters_in (sts ! i)) = 2 \<or> dimension (parameters_in (sts ! i)) = 3"
      using assms(1) d by simp
    from cfl_iteration_step[OF t'[OF i] this] q t'[OF i] show ?thesis
      unfolding d f by blast
  qed
  have "length sts = 13" using len by simp
  moreover have "r = (sts ! 12)\<lparr>pcout := pcout (sts ! 12) @ final_report (sts ! 12)\<rparr>"
    using r e by simp
  ultimately show ?thesis
    using h step by (intro exI[of _ sts]) blast
qed

theorem cfl_search_iterations_witness:
  "dimension (demo_parameters 0.5 True 0) = 2
   \<and> (\<exists>r. run_cfl_stability_analysis demo_external (demo_parameters 0.5 True 0) = Inr r
        \<and> cfl_test r = 0.30009765625
        \<and> (\<exists>sts. length sts = 13 \<and> sts ! 0 = cfl_search_init (demo_parameters 0.5 True 0)
            \<and> r = (sts ! 12)\<lparr>pcout := pcout (sts ! 12) @ final_report (sts ! 12)\<rparr>
            \<and> (\<forall>i<12. cfl_iteration demo_external i (sts ! i) = Inr (sts ! (i + 1))
                 \<and> parameters_in (sts ! i) = (demo_parameters 0.5 True 0)\<lparr>cfl_number := cfl_test (sts ! i)\<rparr>
                 \<and> (\<exists>we_problem.
                       run demo_external (LinearizedEulerProblem_ctor demo_external (dimension (demo_parameters 0.5 True 0)) (parameters_in (sts ! i)))
                         = Inr we_problem
                     \<and> cfl_closest_stable (sts ! (i + 1))
                         = (if cfl_stable we_problem then cfl_test (sts ! i)
                            else cfl_closest_stable (sts ! i))
                     \<and> cfl_closest_instable (sts ! (i + 1))
                         = (if cfl_stable we_problem then cfl_closest_instable (sts ! i)
                            else cfl_test (sts ! i)))
                 \<and> cfl_test (sts ! (i + 1))
                     = (if cfl_closest_stable (sts ! (i + 1)) < 0
                        then (if cfl_test (sts ! i) / real (fe_degree (demo_parameters 0.5 True 0)) powr 1.5 > 0.15
                              then cfl_test (sts ! i) - 0.1
                              else cfl_test (sts ! i) / 3)
                        else if cfl_closest_instable (sts ! (i + 1)) > 99
                        then cfl_test (sts ! i) + 0.05
                        else (cfl_closest_instable (sts ! (i + 1)) + cfl_closest_stable (sts ! (i + 1))) / 2))))"
proof -
  let ?p = "demo_parameters 0.5 True 0"
  have d: "dimension ?p = 2"
    by (simp add: demo_parameters_sel)
  from run_cfl_demo obtain r where r: "run_cfl_stability_analysis demo_external ?p = Inr r"
    and c: "cfl_test r = 0.30009765625"
    by simp
  from cfl_search_iterations[OF disjI1, OF d r] d r c show ?thesis
    by blast
qed

text \<open>
  The claim as stated fails where a recorded instable bound exceeds 99. In the search
  on the library with the limit 100, from the CFL number 100.95, iteration 9 records
  the instable bound 100.05 and iteration 10 the stable bound 99.95. Iteration 11 runs
  on the candidate 100, which is stable, and records it; both bounds are recorded and
  the next candidate is 100 + 0.05 and not the midpoint of 100.05 and 100.
\<close>

theorem recorded_bounds_without_midpoint:
  "dimension (demo_parameters 100.95 True 0) = 2
   \<and> cfl_iterations (limit_external 100) [0 ..< 11] (cfl_search_init (demo_parameters 100.95 True 0))
       = Inr \<lparr>parameters_in = demo_parameters 100 True 0,
               cfl_test = 100,
               cfl_closest_stable = 99.95,
               cfl_closest_instable = 100.05,
               pcout = [cfl_in_iteration 100.95 0, cfl_in_iteration 100.85 1,
                        cfl_in_iteration 100.75 2, cfl_in_iteration 100.65 3,
                        cfl_in_iteration 100.55 4, cfl_in_iteration 100.45 5,
                        cfl_in_iteration 100.35 6, cfl_in_iteration 100.25 7,
                        cfl_in_iteration 100.15 8, cfl_in_iteration 100.05 9,
                        cfl_in_iteration 99.95 10]\<rparr>
   \<and> simu_was_stable (limit_external 100) (demo_parameters 100.05 True 0) = Inr False
   \<and> simu_was_stable (limit_external 100) (demo_parameters 99.95 True 0) = Inr True
   \<and> simu_was_stable (limit_external 100) (demo_parameters 100 True 0) = Inr True
   \<and> cfl_loop (limit_external 100) 0 (cfl_search_init (demo_parameters 100.95 True 0))
       = Inr \<lparr>parameters_in = demo_parameters 100.05 True 0,
               cfl_test = 100.05,
               cfl_closest_stable = 100,
               cfl_closest_instable = 100.05,
               pcout = [cfl_in_iteration 100.95 0, cfl_in_iteration 100.85 1,
                        cfl_in_iteration 100.75 2, cfl_in_iteration 100.65 3,
                        cfl_in_iteration 100.55 4, cfl_in_iteration 100.45 5,
                        cfl_in_iteration 100.35 6, cfl_in_iteration 100.25 7,
                        cfl_in_iteration 100.15 8, cfl_in_iteration 100.05 9,
                        cfl_in_iteration 99.95 10, cfl_in_iteration 100 11]\<rparr>
   \<and> cfl_iteration (limit_external 100) 11
       \<lparr>parameters_in = demo_parameters 100 True 0,
               cfl_test = 100,
               cfl_closest_stable = 99.95,
               cfl_closest_instable = 100.05,
               pcout = [cfl_in_iteration 100.95 0, cfl_in_iteration 100.85 1,
                        cfl_in_iteration 100.75 2, cfl_in_iteration 100.65 3,
                        cfl_in_iteration 100.55 4, cfl_in_iteration 100.45 5,
                        cfl_in_iteration 100.35 6, cfl_in_iteration 100.25 7,
                        cfl_in_iteration 100.15 8, cfl_in_iteration 100.05 9,
                        cfl_in_iteration 99.95 10]\<rparr>
       = Inr \<lparr>parameters_in = demo_parameters 100.05 True 0,
               cfl_test = 100.05,
               cfl_closest_stable = 100,
               cfl_closest_instable = 100.05,
               pcout = [cfl_in_iteration 100.95 0, cfl_in_iteration 100.85 1,
                        cfl_in_iteration 100.75 2, cfl_in_iteration 100.65 3,
                        cfl_in_iteration 100.55 4, cfl_in_iteration 100.45 5,
                        cfl_in_iteration 100.35 6, cfl_in_iteration 100.25 7,
                        cfl_in_iteration 100.15 8, cfl_in_iteration 100.05 9,
                        cfl_in_iteration 99.95 10, cfl_in_iteration 100 11]\<rparr>
   \<and> (100.05 :: real) = 100 + 0.05
   \<and> (100.05 :: real) \<noteq> (100.05 + 100) / 2"
proof -
  have "simu_was_stable (limit_external 100) (demo_parameters 100.05 True 0)
          = Inr (100.05 \<le> (100 :: real))"
    by (rule simu_was_stable_limit) simp_all
  moreover have "simu_was_stable (limit_external 100) (demo_parameters 99.95 True 0)
          = Inr (99.95 \<le> (100 :: real))"
    by (rule simu_was_stable_limit) simp_all
  moreover have "simu_was_stable (limit_external 100) (demo_parameters 100 True 0)
          = Inr (100 \<le> (100 :: real))"
    by (rule simu_was_stable_limit) simp_all
  moreover have "dimension (demo_parameters 100.95 True 0) = 2"
    by (simp add: demo_parameters_sel)
  moreover have "cfl_iteration (limit_external 100) 11
       \<lparr>parameters_in = demo_parameters 100 True 0,
               cfl_test = 100,
               cfl_closest_stable = 99.95,
               cfl_closest_instable = 100.05,
               pcout = [cfl_in_iteration 100.95 0, cfl_in_iteration 100.85 1,
                        cfl_in_iteration 100.75 2, cfl_in_iteration 100.65 3,
                        cfl_in_iteration 100.55 4, cfl_in_iteration 100.45 5,
                        cfl_in_iteration 100.35 6, cfl_in_iteration 100.25 7,
                        cfl_in_iteration 100.15 8, cfl_in_iteration 100.05 9,
                        cfl_in_iteration 99.95 10]\<rparr>
       = Inr \<lparr>parameters_in = demo_parameters 100.05 True 0,
               cfl_test = 100.05,
               cfl_closest_stable = 100,
               cfl_closest_instable = 100.05,
               pcout = [cfl_in_iteration 100.95 0, cfl_in_iteration 100.85 1,
                        cfl_in_iteration 100.75 2, cfl_in_iteration 100.65 3,
                        cfl_in_iteration 100.55 4, cfl_in_iteration 100.45 5,
                        cfl_in_iteration 100.35 6, cfl_in_iteration 100.25 7,
                        cfl_in_iteration 100.15 8, cfl_in_iteration 100.05 9,
                        cfl_in_iteration 99.95 10, cfl_in_iteration 100 11]\<rparr>"
    by (simp add: cfl_iteration_limit update_bound_def next_candidate_def
        normalized_above_threshold_def degree_factor_demo)
  moreover note limit_search_11 limit_search_12
  ultimately show ?thesis by simp
qed

subsection \<open>The parameters after the search\<close>

text \<open>
  Claim C9, amended. When the search returns, the caller's \<^verbatim>\<open>Parameters\<close> object is
  the one it passed, but for \<^verbatim>\<open>cfl_number\<close>, which holds the candidate that the 12th
  iteration (number 11) computed from the verdict of its run and wrote back, as every
  iteration does at its end. Only the report follows this iteration: the search makes
  no run after this value is computed. The 12th iteration itself ran on the candidate
  that the iteration before had written back.
\<close>

theorem final_candidate_written_back:
  assumes "run_cfl_stability_analysis ext p = Inr r"
  shows "\<exists>st verdict st12.
       cfl_iterations ext [0 ..< 11] (cfl_search_init p) = Inr st
     \<and> parameters_in st = p\<lparr>cfl_number := cfl_test st\<rparr>
     \<and> simu_was_stable ext (parameters_in st) = Inr verdict
     \<and> cfl_iteration ext 11 st = Inr st12
     \<and> cfl_test st12 = next_candidate (update_bound verdict st)
     \<and> parameters_in st12 = p\<lparr>cfl_number := cfl_test st12\<rparr>
     \<and> r = st12\<lparr>pcout := pcout st12 @ final_report st12\<rparr>
     \<and> parameters_in r = p\<lparr>cfl_number := next_candidate (update_bound verdict st)\<rparr>"
proof -
  from assms obtain st12 where l: "cfl_loop ext 0 (cfl_search_init p) = Inr st12"
    and r: "r = st12\<lparr>pcout := pcout st12 @ final_report st12\<rparr>"
    by (rule run_cfl_cases)
  from l have "cfl_iterations ext ([0 ..< 11] @ [11]) (cfl_search_init p) = Inr st12"
    by (simp only: cfl_loop_iterations upt_12_split)
  then obtain st where a: "cfl_iterations ext [0 ..< 11] (cfl_search_init p) = Inr st"
    and b: "cfl_iteration ext 11 st = Inr st12"
    by (auto simp: cfl_iterations_append split: sum.splits)
  have q: "parameters_in st = p\<lparr>cfl_number := cfl_test st\<rparr>"
    by (rule cfl_iterations_parameters[OF a cfl_search_init_parameters])
  from b obtain verdict where v: "simu_was_stable ext (parameters_in st) = Inr verdict"
    and st12: "st12 = (update_bound verdict st)
           \<lparr>pcout := pcout st @ [cfl_in_iteration (cfl_test st * degree_factor (parameters_in st)) 11],
            cfl_test := next_candidate (update_bound verdict st),
            parameters_in :=
              (parameters_in st)\<lparr>cfl_number := next_candidate (update_bound verdict st)\<rparr>\<rparr>"
    by (rule cfl_iteration_cases)
  have c: "cfl_test st12 = next_candidate (update_bound verdict st)"
    by (simp add: st12)
  have q12: "parameters_in st12 = p\<lparr>cfl_number := cfl_test st12\<rparr>"
    by (rule cfl_iteration_parameters[OF b q])
  have "parameters_in r = p\<lparr>cfl_number := next_candidate (update_bound verdict st)\<rparr>"
    using q12 c by (simp add: r)
  with a q v b c q12 r show ?thesis by blast
qed

theorem final_candidate_written_back_witness:
  "\<exists>r st. run_cfl_stability_analysis demo_external (demo_parameters 0.5 True 0) = Inr r
     \<and> cfl_iterations demo_external [0 ..< 11] (cfl_search_init (demo_parameters 0.5 True 0))
         = Inr st
     \<and> cfl_number (parameters_in st) = 0.3001953125
     \<and> simu_was_stable demo_external (parameters_in st) = Inr False
     \<and> parameters_in r = demo_parameters 0.30009765625 True 0"
proof -
  let ?p = "demo_parameters 0.5 True 0"
  from run_cfl_demo obtain r where r: "run_cfl_stability_analysis demo_external ?p = Inr r"
    by blast
  from final_candidate_written_back[OF r] obtain st verdict where
    a: "cfl_iterations demo_external [0 ..< 11] (cfl_search_init ?p) = Inr st"
    and q: "parameters_in st = ?p\<lparr>cfl_number := cfl_test st\<rparr>"
    and v: "simu_was_stable demo_external (parameters_in st) = Inr verdict"
    and f: "parameters_in r = ?p\<lparr>cfl_number := next_candidate (update_bound verdict st)\<rparr>"
    by blast
  from a have st: "st = \<lparr>parameters_in = demo_parameters 0.3001953125 True 0,
          cfl_test = 0.3001953125,
          cfl_closest_stable = 0.3,
          cfl_closest_instable = 0.300390625,
          pcout = [cfl_in_iteration 0.5 0, cfl_in_iteration 0.4 1, cfl_in_iteration 0.3 2,
                   cfl_in_iteration 0.35 3, cfl_in_iteration 0.325 4,
                   cfl_in_iteration 0.3125 5, cfl_in_iteration 0.30625 6,
                   cfl_in_iteration 0.303125 7, cfl_in_iteration 0.3015625 8,
                   cfl_in_iteration 0.30078125 9, cfl_in_iteration 0.300390625 10]\<rparr>"
    unfolding cfl_iterations_demo_11 by simp
  have n: "cfl_number (parameters_in st) = 0.3001953125"
    by (simp add: st demo_parameters_sel)
  have "simu_was_stable demo_external (demo_parameters 0.3001953125 True 0)
          = Inr (0.3001953125 \<le> (0.3 :: real))"
    by (rule simu_was_stable_demo) simp
  with v have w: "verdict = False"
    by (simp add: st)
  from f have "parameters_in r = demo_parameters 0.30009765625 True 0"
    unfolding w by (simp add: st update_bound_def next_candidate_def demo_parameters_cfl)
  with r a n v w show ?thesis by blast
qed

text \<open>
  The claim as stated fails: the value left in \<^verbatim>\<open>cfl_number\<close> can be a candidate that
  an earlier iteration has tested. The search on the library with the limit 100, from
  the CFL number 100.95, returns with the CFL number 100.05; iteration 9 started with
  this candidate in the parameters, and its run with it was unstable.
\<close>

theorem final_candidate_tested_before:
  "run_cfl_stability_analysis (limit_external 100) (demo_parameters 100.95 True 0)
     = Inr \<lparr>parameters_in = demo_parameters 100.05 True 0,
             cfl_test = 100.05,
             cfl_closest_stable = 100,
             cfl_closest_instable = 100.05,
             pcout = [cfl_in_iteration 100.95 0, cfl_in_iteration 100.85 1,
                      cfl_in_iteration 100.75 2, cfl_in_iteration 100.65 3,
                      cfl_in_iteration 100.55 4, cfl_in_iteration 100.45 5,
                      cfl_in_iteration 100.35 6, cfl_in_iteration 100.25 7,
                      cfl_in_iteration 100.15 8, cfl_in_iteration 100.05 9,
                      cfl_in_iteration 99.95 10, cfl_in_iteration 100 11,
                      courant_number_instable 100.05, courant_number_stable 100,
                      limit_in_the_middle 100.05]\<rparr>
   \<and> cfl_number (demo_parameters 100.05 True 0) = 100.05
   \<and> cfl_iterations (limit_external 100) [0 ..< 9] (cfl_search_init (demo_parameters 100.95 True 0))
       = Inr \<lparr>parameters_in = demo_parameters 100.05 True 0,
               cfl_test = 100.05,
               cfl_closest_stable = - 0.1,
               cfl_closest_instable = 100.15,
               pcout = [cfl_in_iteration 100.95 0, cfl_in_iteration 100.85 1,
                        cfl_in_iteration 100.75 2, cfl_in_iteration 100.65 3,
                        cfl_in_iteration 100.55 4, cfl_in_iteration 100.45 5,
                        cfl_in_iteration 100.35 6, cfl_in_iteration 100.25 7,
                        cfl_in_iteration 100.15 8]\<rparr>
   \<and> map_sum id cfl_stable
        (run (limit_external 100)
           (LinearizedEulerProblem_ctor (limit_external 100) 2 (demo_parameters 100.05 True 0)))
       = Inr False"
proof -
  from run_limit[of "100.05" 100] obtain s where
    r: "run (limit_external 100)
          (LinearizedEulerProblem_ctor (limit_external 100) 2 (demo_parameters 100.05 True 0))
        = Inr s"
    and v: "last_error_val s = 1000" "first_error_val s = 1" "first_mangnitude_val s = 10"
    by auto
  have "\<not> cfl_stable s"
    using v by (simp add: cfl_stable_def)
  with r have "map_sum id cfl_stable
        (run (limit_external 100)
           (LinearizedEulerProblem_ctor (limit_external 100) 2 (demo_parameters 100.05 True 0)))
       = Inr False"
    by simp
  moreover have "cfl_number (demo_parameters 100.05 True 0) = 100.05"
    by (simp add: demo_parameters_sel)
  moreover note run_cfl_limit limit_search_9
  ultimately show ?thesis by simp
qed

end
